theory Spec2Isabelle
  imports Complex_Main
begin

section \<open>The play simulation of \<open>components/football-game.tsx\<close>\<close>

text \<open>
  The component \<open>FootballGame\<close> keeps its drive state in a React state record
  (\<open>gameState\<close>), mirrors it into \<open>gameStateRef\<close> after each render, and keeps
  the per-play flags and the scene objects in mutable refs. The embedding below is a
  state-passing model of that code: one record \<open>World\<close> holds the React state, the
  refs and the list of callbacks that \<open>setTimeout\<close> or a camera animation has
  scheduled and that have not run yet. Every handler of the source is a function from
  \<open>World\<close> to \<open>World\<close>.

  Conventions of the model.
  \<^item> JavaScript numbers are modelled as \<open>real\<close> (as \<open>int\<close> for the score and the
    down counter, which only ever hold small whole numbers), so the world computes in
    exact arithmetic. Where the rounding of IEEE doubles decides a question, in the
    ball flight, the same expressions are given a second time with every operation
    rounded (\<open>binary64\<close>, \<open>LerpD\<close>, \<open>flightPositionD\<close>) and the two are compared.
  \<^item> \<open>setGameState(f)\<close> applies the updater \<open>f\<close> to \<open>gameState\<close> at once, with
    one exception: the sack timer's updater has a side effect (it may call
    \<open>handleSack\<close>), and React runs an updater only when it processes the update, so
    that updater is kept as a pending callback and runs in a later step. The handlers
    never read \<open>gameState\<close> directly but \<open>gameStateRef.current\<close>, which only
    changes in the step \<open>commitRender\<close> (the \<open>useEffect\<close> that copies the state
    into the ref).
  \<^item> \<open>qbRef\<close>, \<open>ballRef\<close> and \<open>cameraRef\<close> are set during scene construction,
    before any handler can run, so their null checks never fire and are left out.
  \<^item> Haptics, audio, particles, camera motion, limb animation, the letterbox and the
    offensive linemen (whose positions nothing else reads) are presentation and are
    left out.
  \<^item> \<open>BABYLON.Vector3\<close> and \<open>BABYLON.Scalar.Lerp\<close> belong to the Babylon.js
    library; their definitions here follow that library.
\<close>

subsection \<open>Field constants\<close>

definition FIELD_WIDTH :: real where
  "FIELD_WIDTH = 36"

definition FIELD_HALF_WIDTH :: real where
  "FIELD_HALF_WIDTH = FIELD_WIDTH / 2 - 0.5"

definition FIELD_MIN_Z :: real where
  "FIELD_MIN_Z = - 28"

definition FIELD_MAX_Z :: real where
  "FIELD_MAX_Z = 28"

definition ENDZONE_Z :: real where
  "ENDZONE_Z = 25"

subsection \<open>Vectors and numeric helpers\<close>

record Vector3 =
  vx :: real
  vy :: real
  vz :: real

definition V3 :: "real \<Rightarrow> real \<Rightarrow> real \<Rightarrow> Vector3" where
  "V3 a b c = \<lparr>vx = a, vy = b, vz = c\<rparr>"

definition subtract :: "Vector3 \<Rightarrow> Vector3 \<Rightarrow> Vector3" where
  "subtract a b = V3 (vx a - vx b) (vy a - vy b) (vz a - vz b)"

definition add :: "Vector3 \<Rightarrow> Vector3 \<Rightarrow> Vector3" where
  "add a b = V3 (vx a + vx b) (vy a + vy b) (vz a + vz b)"

definition scale :: "Vector3 \<Rightarrow> real \<Rightarrow> Vector3" where
  "scale a k = V3 (vx a * k) (vy a * k) (vz a * k)"

definition vlength :: "Vector3 \<Rightarrow> real" where
  "vlength a = sqrt (vx a * vx a + vy a * vy a + vz a * vz a)"

text \<open>
  \<open>Vector3.normalize\<close> (here \<open>normalizeVec\<close>) leaves a vector of length 0 or 1
  as it is.
\<close>

definition normalizeVec :: "Vector3 \<Rightarrow> Vector3" where
  "normalizeVec a =
     (let len = vlength a
      in if len = 0 \<or> len = 1 then a else scale a (1 / len))"

definition Distance :: "Vector3 \<Rightarrow> Vector3 \<Rightarrow> real" where
  "Distance a b = vlength (subtract a b)"

definition Dot :: "Vector3 \<Rightarrow> Vector3 \<Rightarrow> real" where
  "Dot a b = vx a * vx b + vy a * vy b + vz a * vz b"

text \<open>
  \<open>BABYLON.Scalar.Lerp\<close> in exact arithmetic; \<open>LerpD\<close> below is the same expression
  with each of its three operations rounded to a double.
\<close>

definition Lerp :: "real \<Rightarrow> real \<Rightarrow> real \<Rightarrow> real" where
  "Lerp start end' amount = start + (end' - start) * amount"

text \<open>\<open>Math.round\<close> rounds half up: it is \<open>\<lfloor>x + 1/2\<rfloor>\<close>, which is HOL's \<open>round\<close>.\<close>

definition Math_round :: "real \<Rightarrow> real" where
  "Math_round x = of_int (round x)"

subsection \<open>Data model\<close>

datatype GameStatus = Menu | Playing | Gameover

datatype CutsceneType = CsNone | GameStart | Touchdown | Sack | Interception

text \<open>
  The message is \<open>null\<close>, a fixed text, or the template
  \<open>SACKED! -${yardsLost} YDS\<close>, kept with its number.
\<close>

datatype Message = Null | Text string | SackedYds real

text \<open>
  \<open>selectedReceiver\<close> holds a reference to a receiver's \<open>data\<close> object; the code
  only ever reads its \<open>id\<close>, so the model stores the id.
\<close>

record GameState =
  score :: int
  downs :: int
  yardsToGo :: real
  lineOfScrimmage :: real
  firstDownMarker :: real
  sackTimer :: real
  gameStatus :: GameStatus
  cutscene :: CutsceneType
  selectedReceiver :: "string option"
  message :: Message

record ReceiverEntry =
  rid :: string
  groupPosition :: Vector3
  isOpen :: bool

datatype Assignment = Rusher | Corner | Safety

record DefenderEntry =
  defPosition :: Vector3
  target :: Assignment

record BallFlight =
  startPos :: Vector3
  targetPos :: Vector3
  startTime :: real
  duration :: real
  maxHeight :: real

text \<open>
  A callback that has been scheduled and has not run yet. The arguments are the values
  its closure captured. \<open>SackTimerUpdate\<close> is the state updater that the game loop
  hands to \<open>setGameState\<close> every 0.1 s and that React has not processed yet.
\<close>

datatype Timeout =
    CallHandleTouchdown
  | TouchdownGameOver
  | FirstDownReset real real real
  | ShortCatchReset int real real
  | InterceptionGameOver
  | SackEnd int real real
  | IncompleteReset
  | AllowSkip
  | CutsceneComplete
  | InterceptionCutsceneComplete
  | SackTimerUpdate

record Keyboard =
  keyW :: bool
  keyA :: bool
  keyS :: bool
  keyD :: bool

record World =
  gameState :: GameState
  gameStateRef :: GameState
  lineOfScrimmageRef :: real
  playStartedRef :: bool
  ballThrownRef :: bool
  playEndedRef :: bool
  cutsceneActiveRef :: CutsceneType
  canSkipCutscene :: bool
  ballFlightRef :: "BallFlight option"
  ballTargetRef :: "Vector3 option"
  qbPosition :: Vector3
  ballPosition :: Vector3
  receiversRef :: "ReceiverEntry list"
  defendersRef :: "DefenderEntry list"
  joystickRef :: "real \<times> real"
  keyboardRef :: Keyboard
  lastTime :: real
  sackTimerAccum :: real
  gameStartCutscenePlayed :: bool
  timeouts :: "Timeout list"

definition setGameState :: "(GameState \<Rightarrow> GameState) \<Rightarrow> World \<Rightarrow> World" where
  "setGameState f w = w\<lparr>gameState := f (gameState w)\<rparr>"

definition setTimeout :: "Timeout \<Rightarrow> World \<Rightarrow> World" where
  "setTimeout t w = w\<lparr>timeouts := timeouts w @ [t]\<rparr>"

text \<open>The \<open>useEffect\<close> that runs after a render: \<open>gameStateRef.current = gameState\<close>.\<close>

definition commitRender :: "World \<Rightarrow> World" where
  "commitRender w = w\<lparr>gameStateRef := gameState w\<rparr>"

subsection \<open>Starting a game\<close>

definition newGameState :: GameState where
  "newGameState =
     \<lparr>score = 0, downs = 1, yardsToGo = 10, lineOfScrimmage = - 15,
      firstDownMarker = - 5, sackTimer = 5, gameStatus = Playing, cutscene = GameStart,
      selectedReceiver = None, message = Null\<rparr>"

text \<open>\<open>startGame\<close> and \<open>restartGame\<close> have the same body.\<close>

definition startGame :: "World \<Rightarrow> World" where
  "startGame w =
     w\<lparr>gameState := newGameState, playStartedRef := False, ballThrownRef := False,
       playEndedRef := False, cutsceneActiveRef := GameStart\<rparr>"

definition restartGame :: "World \<Rightarrow> World" where
  "restartGame w =
     w\<lparr>gameState := newGameState, playStartedRef := False, ballThrownRef := False,
       playEndedRef := False, cutsceneActiveRef := GameStart\<rparr>"

text \<open>
  The world once the scene is built and before the first click: the initial React state
  (status \<open>menu\<close>), the initial refs, and the players where \<open>createPlayer\<close> put them.
  \<open>t0\<close> is the reading of \<open>performance.now()\<close> when the game loop was installed.
\<close>

definition initialWorld :: "real \<Rightarrow> World" where
  "initialWorld t0 =
     \<lparr>gameState = newGameState\<lparr>gameStatus := Menu, cutscene := CsNone\<rparr>,
      gameStateRef = newGameState\<lparr>gameStatus := Menu, cutscene := CsNone\<rparr>,
      lineOfScrimmageRef = - 15,
      playStartedRef = False, ballThrownRef = False, playEndedRef = False,
      cutsceneActiveRef = CsNone, canSkipCutscene = False,
      ballFlightRef = None, ballTargetRef = None,
      qbPosition = V3 0 0 (- 18),
      ballPosition = V3 0.3 1.5 (- 9.5),
      receiversRef =
        [\<lparr>rid = ''wr1'', groupPosition = V3 (- FIELD_HALF_WIDTH + 4) 0 (- 10), isOpen = True\<rparr>,
         \<lparr>rid = ''wr2'', groupPosition = V3 (FIELD_HALF_WIDTH - 4) 0 (- 10), isOpen = True\<rparr>],
      defendersRef =
        [\<lparr>defPosition = V3 (- 4) 0 (- 8), target = Rusher\<rparr>,
         \<lparr>defPosition = V3 4 0 (- 8), target = Rusher\<rparr>,
         \<lparr>defPosition = V3 (- 12) 0 (- 5), target = Corner\<rparr>,
         \<lparr>defPosition = V3 12 0 (- 5), target = Corner\<rparr>,
         \<lparr>defPosition = V3 0 0 5, target = Safety\<rparr>],
      joystickRef = (0, 0),
      keyboardRef = \<lparr>keyW = False, keyA = False, keyS = False, keyD = False\<rparr>,
      lastTime = t0, sackTimerAccum = 0, gameStartCutscenePlayed = False,
      timeouts = []\<rparr>"

subsection \<open>Play reset\<close>

text \<open>
  \<open>resetPlay\<close> walks \<open>receiversRef\<close> and \<open>defendersRef\<close> with \<open>forEach\<close> and
  indexes a literal array of two (five) positions; both refs hold exactly two (five)
  entries from scene construction on, so pairing the entries with the positions is the
  same walk.
\<close>

definition resetPlay :: "World \<Rightarrow> World" where
  "resetPlay w =
     (let los = lineOfScrimmageRef w;
          receiverPositions =
            [V3 (- FIELD_HALF_WIDTH + 4) 0 los, V3 (FIELD_HALF_WIDTH - 4) 0 los];
          defenderPositions =
            [(V3 (- 4) 0 (los + 2), Rusher), (V3 4 0 (los + 2), Rusher),
             (V3 (- 12) 0 (los + 5), Corner), (V3 12 0 (los + 5), Corner),
             (V3 0 0 (los + 15), Safety)]
      in setGameState
           (\<lambda>prev. prev\<lparr>sackTimer := 5, selectedReceiver := None, message := Text []\<rparr>)
           (w\<lparr>playStartedRef := False, ballThrownRef := False, playEndedRef := False,
              ballTargetRef := None, ballFlightRef := None,
              qbPosition := V3 0 0 (los - 8),
              ballPosition := V3 0.3 1.5 (los + 0.5),
              receiversRef :=
                map (\<lambda>(r, p). r\<lparr>groupPosition := p, isOpen := True\<rparr>)
                  (zip (receiversRef w) receiverPositions),
              defendersRef :=
                map (\<lambda>(d, (p, t)). d\<lparr>defPosition := p, target := t\<rparr>)
                  (zip (defendersRef w) defenderPositions)\<rparr>))"

subsection \<open>Throwing\<close>

text \<open>
  \<open>defendersRef.current[k]\<close> is \<open>undefined\<close> out of range, and
  \<open>defender && ...\<close> is then falsy.
\<close>

definition defenderAt :: "World \<Rightarrow> nat \<Rightarrow> DefenderEntry option" where
  "defenderAt w k = (if k < length (defendersRef w) then Some (defendersRef w ! k) else None)"

definition getReceiverVelocity :: "World \<Rightarrow> nat \<Rightarrow> Vector3 \<Rightarrow> Vector3" where
  "getReceiverVelocity w receiverIndex receiverPos =
     (let routeSpeed = 10;
          startZ = lineOfScrimmageRef w;
          distanceTraveled = vz receiverPos - startZ
      in if receiverIndex = 0 then
           (if distanceTraveled < 8 then V3 (- routeSpeed * 0.1) 0 routeSpeed
            else
              (let defenderInside =
                     (case defenderAt w 2 of None \<Rightarrow> False
                      | Some d \<Rightarrow> vx (defPosition d) > vx receiverPos)
               in if defenderInside then V3 (- routeSpeed * 0.8) 0 (routeSpeed * 0.6)
                  else V3 (routeSpeed * 0.7) 0 (routeSpeed * 0.6)))
         else
           (if distanceTraveled < 6 then V3 (- routeSpeed * 0.1) 0 routeSpeed
            else
              (let defenderInside =
                     (case defenderAt w 3 of None \<Rightarrow> False
                      | Some d \<Rightarrow> vx (defPosition d) < vx receiverPos)
               in if defenderInside then V3 (routeSpeed * 0.9) 0 (routeSpeed * 0.4)
                  else V3 (- routeSpeed * 0.85) 0 (routeSpeed * 0.5))))"

text \<open>
  \<open>receiversRef.current.find(r => r.data.id === id)\<close> together with \<open>indexOf\<close>:
  the first entry with that id and its index.
\<close>

fun findReceiverFrom :: "nat \<Rightarrow> ReceiverEntry list \<Rightarrow> string \<Rightarrow> (nat \<times> ReceiverEntry) option" where
  "findReceiverFrom i [] k = None"
| "findReceiverFrom i (r # rs) k =
     (if rid r = k then Some (i, r) else findReceiverFrom (Suc i) rs k)"

definition findReceiver :: "World \<Rightarrow> string option \<Rightarrow> (nat \<times> ReceiverEntry) option" where
  "findReceiver w sel =
     (case sel of None \<Rightarrow> None | Some k \<Rightarrow> findReceiverFrom 0 (receiversRef w) k)"

text \<open>
  The aim point of \<open>throwBall\<close>: the lead along the route, the extra lead when the
  click is ahead of the receiver, then the clamp.
\<close>

definition leadPoint :: "World \<Rightarrow> nat \<Rightarrow> Vector3 \<Rightarrow> Vector3 option \<Rightarrow> Vector3" where
  "leadPoint w receiverIndex receiverPos clickPoint =
     (let velocity = getReceiverVelocity w receiverIndex receiverPos;
          velocityMagnitude = vlength velocity;
          distance = Distance (ballPosition w) receiverPos;
          ballSpeed = 32;
          flightTime = distance / ballSpeed;
          leadX = vx receiverPos + vx velocity * flightTime * 0.75;
          leadZ = vz receiverPos + vz velocity * flightTime * 0.75;
          extra =
            (case clickPoint of
               None \<Rightarrow> (0, 0)
             | Some cp \<Rightarrow>
                 (let clickDirection = (subtract cp receiverPos)\<lparr>vy := 0\<rparr>
                  in if vlength clickDirection > 0.1 then
                       (let clickDir = normalizeVec clickDirection;
                            routeDirection = normalizeVec velocity;
                            alignment = Dot clickDir routeDirection
                        in if alignment > 0.3 then
                             (let clickDistance = Distance cp receiverPos;
                                  extraLead =
                                    min (clickDistance * 0.5) (velocityMagnitude * flightTime * 0.3)
                              in (vx routeDirection * extraLead, vz routeDirection * extraLead))
                           else (0, 0))
                     else (0, 0)));
          leadX2 = max (- FIELD_HALF_WIDTH + 1) (min (FIELD_HALF_WIDTH - 1) (leadX + fst extra));
          leadZ2 = min (ENDZONE_Z - 1) (max (vz receiverPos) (leadZ + snd extra))
      in V3 leadX2 1.5 leadZ2)"

text \<open>
  \<open>throwBall(receiver, clickPoint)\<close>; \<open>now\<close> is \<open>performance.now() / 1000\<close> at the
  call. The only guard is \<open>ballThrownRef\<close>.
\<close>

definition throwBall :: "real \<Rightarrow> string \<Rightarrow> Vector3 option \<Rightarrow> World \<Rightarrow> World" where
  "throwBall now receiverId clickPoint w =
     (if ballThrownRef w then w
      else
        (let w1 = (setGameState (\<lambda>prev. prev\<lparr>selectedReceiver := Some receiverId\<rparr>) w)
                    \<lparr>ballThrownRef := True\<rparr>
         in case findReceiverFrom 0 (receiversRef w1) receiverId of
              None \<Rightarrow> w1
            | Some (receiverIndex, targetReceiver) \<Rightarrow>
                (let receiverPos = groupPosition targetReceiver;
                     target = leadPoint w1 receiverIndex receiverPos clickPoint;
                     ballSpeed = 32;
                     throwDistance = Distance (ballPosition w1) target;
                     flightDuration = throwDistance / ballSpeed;
                     maxH = 1.5 + throwDistance * 0.08
                 in w1\<lparr>ballTargetRef := Some target,
                        ballFlightRef :=
                          Some \<lparr>startPos = ballPosition w1, targetPos = target,
                                startTime = now, duration = flightDuration,
                                maxHeight = maxH\<rparr>\<rparr>)))"

subsection \<open>Cutscenes\<close>

text \<open>
  Of a cutscene only its callbacks matter here: the timeout that allows skipping and the
  completion callback of the last camera animation. The game-start, touchdown and sack
  cutscenes end with the same callback; the interception cutscene leaves
  \<open>gameState.cutscene\<close> to \<open>handleInterception\<close>.
\<close>

definition playGameStartCutscene :: "World \<Rightarrow> World" where
  "playGameStartCutscene w = setTimeout CutsceneComplete (setTimeout AllowSkip w)"

definition playTouchdownCutscene :: "World \<Rightarrow> World" where
  "playTouchdownCutscene w = setTimeout CutsceneComplete (setTimeout AllowSkip w)"

definition playSackCutscene :: "World \<Rightarrow> World" where
  "playSackCutscene w = setTimeout CutsceneComplete (setTimeout AllowSkip w)"

definition playInterceptionCutscene :: "World \<Rightarrow> World" where
  "playInterceptionCutscene w = setTimeout InterceptionCutsceneComplete (setTimeout AllowSkip w)"

definition skipCutscene :: "World \<Rightarrow> World" where
  "skipCutscene w =
     (if \<not> canSkipCutscene w \<or> cutsceneActiveRef w = CsNone then w
      else setGameState (\<lambda>prev. prev\<lparr>cutscene := CsNone\<rparr>)
             (w\<lparr>cutsceneActiveRef := CsNone, canSkipCutscene := False\<rparr>))"

subsection \<open>Outcome handlers\<close>

text \<open>
  Each handler starts with the latch: \<open>if (playEndedRef.current) return\<close>, then
  \<open>playEndedRef.current = true\<close>.
\<close>

definition handleTouchdown :: "World \<Rightarrow> World" where
  "handleTouchdown w =
     (if playEndedRef w then w
      else
        (let w1 = w\<lparr>playEndedRef := True\<rparr>;
             w2 = setGameState
                    (\<lambda>prev. prev\<lparr>score := score prev + 7, cutscene := Touchdown,
                                 message := Text ''TOUCHDOWN!''\<rparr>) w1;
             w3 = w2\<lparr>cutsceneActiveRef := Touchdown\<rparr>;
             w4 = playTouchdownCutscene w3
         in setTimeout TouchdownGameOver w4))"

definition handleCatch :: "World \<Rightarrow> World" where
  "handleCatch w =
     (if playEndedRef w then w
      else
        (let w1 = w\<lparr>playEndedRef := True\<rparr>;
             catchPosition = vz (ballPosition w1);
             currentFirstDownMarker = firstDownMarker (gameStateRef w1)
         in if catchPosition \<ge> ENDZONE_Z - 3 then
              setTimeout CallHandleTouchdown
                (setGameState (\<lambda>prev. prev\<lparr>message := Text ''COMPLETE!''\<rparr>) w1)
            else if catchPosition \<ge> currentFirstDownMarker then
              (let newLOS = catchPosition;
                   newFirstDownMarker = min (newLOS + 10) (ENDZONE_Z - 1);
                   yardsToEndzone = ENDZONE_Z - newLOS;
                   newYardsToGo = Math_round (min 10 yardsToEndzone);
                   w2 = w1\<lparr>lineOfScrimmageRef := newLOS\<rparr>;
                   w3 = setGameState (\<lambda>prev. prev\<lparr>message := Text ''FIRST DOWN!''\<rparr>) w2
               in setTimeout (FirstDownReset newYardsToGo newLOS newFirstDownMarker) w3)
            else
              (let newDowns = downs (gameStateRef w1) + 1;
                   newYardsToGo = Math_round (currentFirstDownMarker - catchPosition);
                   w2 = w1\<lparr>lineOfScrimmageRef := catchPosition\<rparr>
               in if newDowns > 4 then
                    setGameState
                      (\<lambda>prev. prev\<lparr>gameStatus := Gameover,
                                   message := Text ''TURNOVER ON DOWNS!''\<rparr>) w2
                  else
                    setTimeout (ShortCatchReset newDowns newYardsToGo catchPosition)
                      (setGameState (\<lambda>prev. prev\<lparr>message := Text ''COMPLETE!''\<rparr>) w2))))"

definition handleInterception :: "World \<Rightarrow> World" where
  "handleInterception w =
     (if playEndedRef w then w
      else
        (let w1 = w\<lparr>playEndedRef := True\<rparr>;
             w2 = setGameState
                    (\<lambda>prev. prev\<lparr>cutscene := Interception,
                                 message := Text ''INTERCEPTED!''\<rparr>) w1;
             w3 = w2\<lparr>cutsceneActiveRef := Interception\<rparr>;
             w4 = playInterceptionCutscene w3
         in setTimeout InterceptionGameOver w4))"

definition handleSack :: "World \<Rightarrow> World" where
  "handleSack w =
     (if playEndedRef w then w
      else
        (let w1 = w\<lparr>playEndedRef := True\<rparr>;
             qbPos = qbPosition w1;
             newDowns = downs (gameStateRef w1) + 1;
             currentLOS = lineOfScrimmageRef w1;
             sackPosition = vz qbPos;
             yardsLost = Math_round (currentLOS - sackPosition);
             newLOS = sackPosition;
             w2 = w1\<lparr>lineOfScrimmageRef := newLOS\<rparr>;
             currentYardsToGo = yardsToGo (gameStateRef w2);
             newYardsToGo = Math_round (currentYardsToGo + yardsLost);
             w3 = setGameState
                    (\<lambda>prev. prev\<lparr>cutscene := Sack, message := SackedYds yardsLost\<rparr>) w2;
             w4 = w3\<lparr>cutsceneActiveRef := Sack\<rparr>;
             w5 = playSackCutscene w4
         in setTimeout (SackEnd newDowns newYardsToGo newLOS) w5))"

definition handleIncomplete :: "World \<Rightarrow> World" where
  "handleIncomplete w =
     (if playEndedRef w then w
      else
        (let w1 = w\<lparr>playEndedRef := True\<rparr>;
             newDowns = downs (gameStateRef w1) + 1
         in if newDowns > 4 then
              setGameState
                (\<lambda>prev. prev\<lparr>gameStatus := Gameover,
                             message := Text ''TURNOVER ON DOWNS!''\<rparr>) w1
            else
              setTimeout IncompleteReset
                (setGameState
                   (\<lambda>prev. prev\<lparr>downs := newDowns, message := Text ''INCOMPLETE!''\<rparr>) w1)))"

text \<open>
  The updater the game loop passes to \<open>setGameState\<close> for the sack timer:
  \<open>prev => { newTimer = Math.max(0, prev.sackTimer - 0.1); if (newTimer <= 0 &&
  !ballThrownRef.current) handleSack(); return { ...prev, sackTimer: newTimer } }\<close>.
  It reads the refs and the QB's position as they are when it runs. The state updates
  that \<open>handleSack\<close> queues from inside it are applied after its own result.
\<close>

definition sackTimerUpdater :: "World \<Rightarrow> World" where
  "sackTimerUpdater w =
     (let newTimer = max 0 (sackTimer (gameState w) - 0.1);
          w2 = (if newTimer \<le> 0 \<and> \<not> ballThrownRef w then handleSack w else w)
      in setGameState (\<lambda>prev. prev\<lparr>sackTimer := newTimer\<rparr>) w2)"

subsection \<open>Scheduled callbacks\<close>

text \<open>The body of each scheduled callback.\<close>

fun runTimeout :: "Timeout \<Rightarrow> World \<Rightarrow> World" where
  "runTimeout CallHandleTouchdown w = handleTouchdown w"
| "runTimeout TouchdownGameOver w =
     setGameState (\<lambda>prev. prev\<lparr>gameStatus := Gameover, message := Text ''YOU WIN!''\<rparr>) w"
| "runTimeout (FirstDownReset newYardsToGo newLOS newFirstDownMarker) w =
     resetPlay
       (setGameState
          (\<lambda>prev. prev\<lparr>downs := 1, yardsToGo := max 1 newYardsToGo,
                       lineOfScrimmage := newLOS, firstDownMarker := newFirstDownMarker,
                       message := Text []\<rparr>) w)"
| "runTimeout (ShortCatchReset newDowns newYardsToGo catchPosition) w =
     resetPlay
       (setGameState
          (\<lambda>prev. prev\<lparr>downs := newDowns, yardsToGo := max 1 newYardsToGo,
                       lineOfScrimmage := catchPosition, message := Text []\<rparr>) w)"
| "runTimeout InterceptionGameOver w =
     setGameState (\<lambda>prev. prev\<lparr>gameStatus := Gameover, cutscene := CsNone\<rparr>) w"
| "runTimeout (SackEnd newDowns newYardsToGo newLOS) w =
     (if newDowns > 4 then
        setGameState
          (\<lambda>prev. prev\<lparr>gameStatus := Gameover, cutscene := CsNone,
                       message := Text ''TURNOVER ON DOWNS!''\<rparr>) w
      else
        resetPlay
          (setGameState
             (\<lambda>prev. prev\<lparr>downs := newDowns, yardsToGo := max 1 newYardsToGo,
                          lineOfScrimmage := newLOS, cutscene := CsNone,
                          message := Text []\<rparr>) w))"
| "runTimeout IncompleteReset w =
     resetPlay (setGameState (\<lambda>prev. prev\<lparr>message := Text []\<rparr>) w)"
| "runTimeout AllowSkip w = w\<lparr>canSkipCutscene := True\<rparr>"
| "runTimeout CutsceneComplete w =
     setGameState (\<lambda>prev. prev\<lparr>cutscene := CsNone\<rparr>)
       (w\<lparr>cutsceneActiveRef := CsNone, canSkipCutscene := False\<rparr>)"
| "runTimeout InterceptionCutsceneComplete w =
     w\<lparr>cutsceneActiveRef := CsNone, canSkipCutscene := False\<rparr>"
| "runTimeout SackTimerUpdate w = sackTimerUpdater w"

text \<open>
  The \<open>i\<close>-th pending callback runs and leaves the list. The model does not track
  delays: any pending callback may run next.
\<close>

definition fireTimeout :: "nat \<Rightarrow> World \<Rightarrow> World" where
  "fireTimeout i w =
     (if i < length (timeouts w) then
        runTimeout (timeouts w ! i)
          (w\<lparr>timeouts := take i (timeouts w) @ drop (Suc i) (timeouts w)\<rparr>)
      else w)"

subsection \<open>Input handlers\<close>

definition handleJoystickMove :: "real \<Rightarrow> real \<Rightarrow> World \<Rightarrow> World" where
  "handleJoystickMove x y w =
     (let w1 = w\<lparr>joystickRef := (x, y)\<rparr>
      in if (\<bar>x\<bar> > 0.1 \<or> \<bar>y\<bar> > 0.1) \<and> \<not> playStartedRef w1
         then w1\<lparr>playStartedRef := True\<rparr> else w1)"

datatype Key = KW | KA | KS | KD

fun setKey :: "Key \<Rightarrow> bool \<Rightarrow> Keyboard \<Rightarrow> Keyboard" where
  "setKey KW b k = k\<lparr>keyW := b\<rparr>"
| "setKey KA b k = k\<lparr>keyA := b\<rparr>"
| "setKey KS b k = k\<lparr>keyS := b\<rparr>"
| "setKey KD b k = k\<lparr>keyD := b\<rparr>"

definition handleKeyDown :: "Key \<Rightarrow> World \<Rightarrow> World" where
  "handleKeyDown key w =
     (let w1 = w\<lparr>keyboardRef := setKey key True (keyboardRef w)\<rparr>
      in if \<not> playStartedRef w1 \<and> gameStatus (gameStateRef w1) = Playing
         then w1\<lparr>playStartedRef := True\<rparr> else w1)"

definition handleKeyUp :: "Key \<Rightarrow> World \<Rightarrow> World" where
  "handleKeyUp key w = w\<lparr>keyboardRef := setKey key False (keyboardRef w)\<rparr>"

text \<open>
  The pick result of a pointer event. A picked mesh is either the hit area of the
  \<open>i\<close>-th receiver or a mesh whose parent is that receiver's group
  (\<open>ReceiverMesh i\<close>), or some other mesh.
\<close>

datatype Mesh = ReceiverMesh nat | OtherMesh

record PickResult =
  hit :: bool
  pickedMesh :: "Mesh option"
  pickedPoint :: "Vector3 option"

text \<open>
  One round of the proximity loop of \<open>scene.onPointerDown\<close>. The accumulator is
  \<open>(bestReceiver, bestScore)\<close>; \<open>None\<close> stands for \<open>(null, Infinity)\<close>.
\<close>

definition assistStep ::
  "World \<Rightarrow> Vector3 \<Rightarrow> nat \<Rightarrow> (ReceiverEntry \<times> real) option \<Rightarrow> (ReceiverEntry \<times> real) option"
where
  "assistStep w tapPoint i best =
     (let receiver = receiversRef w ! i;
          receiverPos = groupPosition receiver;
          dist = Distance (V3 (vx tapPoint) 0 (vz tapPoint)) (V3 (vx receiverPos) 0 (vz receiverPos));
          velocity = getReceiverVelocity w i receiverPos;
          routeDir = normalizeVec velocity;
          toClick = (subtract tapPoint receiverPos)\<lparr>vy := 0\<rparr>;
          clickDist = vlength toClick;
          below = (\<lambda>s. case best of None \<Rightarrow> True | Some (_, bestScore) \<Rightarrow> s < bestScore)
      in if clickDist > 0.1 then
           (let alignment = Dot (normalizeVec toClick) routeDir;
                score' = (if alignment > 0 \<and> clickDist < 15
                          then dist * (1 - alignment * 0.5) else dist)
            in if below score' \<and> dist < 15 then Some (receiver, score') else best)
         else if below dist \<and> dist < 15 then Some (receiver, dist)
         else best)"

definition bestReceiver :: "World \<Rightarrow> Vector3 \<Rightarrow> ReceiverEntry option" where
  "bestReceiver w tapPoint =
     map_option fst (fold (assistStep w tapPoint) [0..<length (receiversRef w)] None)"

text \<open>\<open>scene.onPointerDown\<close>; \<open>now\<close> is the clock reading passed on to \<open>throwBall\<close>.\<close>

definition onPointerDown :: "real \<Rightarrow> PickResult \<Rightarrow> World \<Rightarrow> World" where
  "onPointerDown now pick w =
     (if gameStatus (gameStateRef w) \<noteq> Playing \<or> ballThrownRef w then w
      else
        (let clickPoint = (if hit pick then pickedPoint pick else None);
             direct =
               (case (if hit pick then pickedMesh pick else None) of
                  Some (ReceiverMesh i) \<Rightarrow>
                    (if i < length (receiversRef w) then Some (receiversRef w ! i) else None)
                | _ \<Rightarrow> None)
         in case direct of
              Some receiver \<Rightarrow> throwBall now (rid receiver) clickPoint w
            | None \<Rightarrow>
                (case clickPoint of
                   None \<Rightarrow> w
                 | Some tapPoint \<Rightarrow>
                     (case bestReceiver w tapPoint of
                        None \<Rightarrow> w
                      | Some receiver \<Rightarrow> throwBall now (rid receiver) clickPoint w))))"

subsection \<open>The game loop\<close>

text \<open>
  The sack timer: every 0.1 s of accumulated frame time the loop resets the accumulator
  and hands the timer's updater to \<open>setGameState\<close>.
\<close>

definition sackTimerPhase :: "real \<Rightarrow> World \<Rightarrow> World" where
  "sackTimerPhase delta w =
     (let acc = sackTimerAccum w + delta
      in if acc \<ge> 0.1 then w\<lparr>sackTimerAccum := 0, timeouts := timeouts w @ [SackTimerUpdate]\<rparr>
         else w\<lparr>sackTimerAccum := acc\<rparr>)"

text \<open>The Quarterback Controller.\<close>

definition qbPhase :: "real \<Rightarrow> World \<Rightarrow> World" where
  "qbPhase delta w =
     (if ballThrownRef w then w
      else
        (let moveSpeed = 6;
             kb = keyboardRef w;
             keyboardX = (if keyA kb then - 1 else 0) + (if keyD kb then 1 else 0);
             keyboardY = (if keyW kb then 1 else 0) + (if keyS kb then - 1 else 0);
             jx = fst (joystickRef w);
             jy = snd (joystickRef w);
             inputX = (if \<bar>jx\<bar> > \<bar>keyboardX\<bar> then jx else keyboardX);
             inputY = (if \<bar>jy\<bar> > \<bar>keyboardY\<bar> then jy else keyboardY);
             x1 = vx (qbPosition w) + inputX * moveSpeed * delta;
             z1 = vz (qbPosition w) - inputY * moveSpeed * delta;
             x2 = max (- FIELD_HALF_WIDTH + 1) (min (FIELD_HALF_WIDTH - 1) x1);
             z2 = max (FIELD_MIN_Z + 2) (min (- 10) z1)
         in w\<lparr>qbPosition := (qbPosition w)\<lparr>vx := x2, vz := z2\<rparr>,
              ballPosition := (ballPosition w)\<lparr>vx := x2 + 0.3, vz := z2 + 0.5\<rparr>\<rparr>))"

text \<open>Receiver routes.\<close>

definition receiverStep :: "World \<Rightarrow> real \<Rightarrow> nat \<Rightarrow> ReceiverEntry \<Rightarrow> ReceiverEntry" where
  "receiverStep w delta i r =
     (let routeSpeed = 10;
          p = groupPosition r;
          distanceTraveled = vz p - lineOfScrimmageRef w;
          p1 =
            (if vz p < ENDZONE_Z - 1 then
               (if i = 0 then
                  (if distanceTraveled < 8 then
                     p\<lparr>vx := vx p - routeSpeed * 0.1 * delta, vz := vz p + routeSpeed * delta\<rparr>
                   else if (case defenderAt w 2 of None \<Rightarrow> False
                            | Some d \<Rightarrow> vx (defPosition d) > vx p) then
                     p\<lparr>vx := vx p - routeSpeed * 0.8 * delta, vz := vz p + routeSpeed * 0.6 * delta\<rparr>
                   else
                     p\<lparr>vx := vx p + routeSpeed * 0.7 * delta, vz := vz p + routeSpeed * 0.6 * delta\<rparr>)
                else
                  (if distanceTraveled < 6 then
                     p\<lparr>vx := vx p - routeSpeed * 0.1 * delta, vz := vz p + routeSpeed * delta\<rparr>
                   else if (case defenderAt w 3 of None \<Rightarrow> False
                            | Some d \<Rightarrow> vx (defPosition d) < vx p) then
                     p\<lparr>vx := vx p + routeSpeed * 0.9 * delta, vz := vz p + routeSpeed * 0.4 * delta\<rparr>
                   else
                     p\<lparr>vx := vx p - routeSpeed * 0.85 * delta, vz := vz p + routeSpeed * 0.5 * delta\<rparr>))
             else p);
          z2 = min (ENDZONE_Z - 1) (vz p1);
          x2 = max (- FIELD_HALF_WIDTH + 1) (min (FIELD_HALF_WIDTH - 1) (vx p1))
      in r\<lparr>groupPosition := p1\<lparr>vx := x2, vz := z2\<rparr>\<rparr>)"

definition receiverPhase :: "real \<Rightarrow> World \<Rightarrow> World" where
  "receiverPhase delta w =
     w\<lparr>receiversRef := map (\<lambda>(i, r). receiverStep w delta i r) (enumerate 0 (receiversRef w))\<rparr>"

text \<open>
  Defender AI, one defender of the \<open>forEach\<close>. A rusher within 1.2 of the QB sacks
  when no ball is thrown; a corner (index \<open>i\<close>) chases receiver \<open>i - 2\<close> and sets
  its \<open>isOpen\<close> flag; the safety drifts downfield.
\<close>

definition clampX :: "real \<Rightarrow> real" where
  "clampX x = max (- FIELD_HALF_WIDTH) (min FIELD_HALF_WIDTH x)"

definition defenderStep :: "real \<Rightarrow> nat \<Rightarrow> World \<Rightarrow> World" where
  "defenderStep delta i w =
     (if i \<ge> length (defendersRef w) then w
      else
        (let d = defendersRef w ! i;
             pos = defPosition d
         in case target d of
              Rusher \<Rightarrow>
                (let toQB = normalizeVec ((subtract (qbPosition w) pos)\<lparr>vy := 0\<rparr>);
                     rushSpeed = 2.5;
                     p1 = add pos (scale toQB (rushSpeed * delta));
                     p2 = p1\<lparr>vx := clampX (vx p1),
                             vz := max (FIELD_MIN_Z + 2) (min (- 5) (vz p1))\<rparr>;
                     w1 = w\<lparr>defendersRef := (defendersRef w)[i := d\<lparr>defPosition := p2\<rparr>]\<rparr>;
                     distToQB = Distance p2 (qbPosition w1)
                 in if distToQB < 1.2 \<and> \<not> ballThrownRef w1 then handleSack w1 else w1)
            | Corner \<Rightarrow>
                (if 2 \<le> i \<and> i - 2 < length (receiversRef w) then
                   (let targetReceiver = receiversRef w ! (i - 2);
                        toReceiver =
                          normalizeVec ((subtract (groupPosition targetReceiver) pos)\<lparr>vy := 0\<rparr>);
                        coverSpeed = 8.5;
                        p1 = add pos (scale toReceiver (coverSpeed * delta));
                        p2 = p1\<lparr>vx := clampX (vx p1),
                                vz := max (FIELD_MIN_Z + 10) (min (ENDZONE_Z - 1) (vz p1))\<rparr>;
                        dist = Distance p2 (groupPosition targetReceiver)
                    in w\<lparr>defendersRef := (defendersRef w)[i := d\<lparr>defPosition := p2\<rparr>],
                         receiversRef :=
                           (receiversRef w)[i - 2 := targetReceiver\<lparr>isOpen := (dist > 4)\<rparr>]\<rparr>)
                 else w)
            | Safety \<Rightarrow>
                (let z1 = min (ENDZONE_Z - 2) (vz pos + 5 * delta);
                     p2 = pos\<lparr>vx := clampX (vx pos), vz := z1\<rparr>
                 in w\<lparr>defendersRef := (defendersRef w)[i := d\<lparr>defPosition := p2\<rparr>]\<rparr>)))"

definition defenderPhase :: "real \<Rightarrow> World \<Rightarrow> World" where
  "defenderPhase delta w = fold (defenderStep delta) [0..<length (defendersRef w)] w"

text \<open>
  Ball flight. \<open>now2\<close> is \<open>performance.now() / 1000\<close> read in this phase, \<open>rnd\<close>
  the value \<open>Math.random()\<close> returns if it is called. The interpolation parameter is
  \<open>Math.min(elapsed / duration, 1)\<close>; for a duration of 0 JavaScript divides to
  \<open>Infinity\<close>, which the minimum turns into 1 (for \<open>elapsed = 0\<close> as well it gives
  \<open>NaN\<close>, which \<open>real\<close> cannot express: the model takes 0 there).
\<close>

definition flightParameter :: "real \<Rightarrow> BallFlight \<Rightarrow> real" where
  "flightParameter now2 flight =
     (let elapsed = now2 - startTime flight
      in if duration flight = 0 then (if elapsed > 0 then 1 else 0)
         else min (elapsed / duration flight) 1)"

definition flightPosition :: "BallFlight \<Rightarrow> real \<Rightarrow> Vector3" where
  "flightPosition flight t =
     (let newX = Lerp (vx (startPos flight)) (vx (targetPos flight)) t;
          newZ = Lerp (vz (startPos flight)) (vz (targetPos flight)) t;
          baseY = Lerp (vy (startPos flight)) (vy (targetPos flight)) t;
          arcHeight = 4 * maxHeight flight * t * (1 - t);
          newY = baseY + arcHeight
      in V3 newX newY newZ)"

definition catchChance :: "bool \<Rightarrow> real" where
  "catchChance open' = (if open' then 0.95 else 0.55)"

definition resolveArrival :: "real \<Rightarrow> World \<Rightarrow> World" where
  "resolveArrival rnd w =
     (case findReceiver w (selectedReceiver (gameStateRef w)) of
        None \<Rightarrow> w
      | Some (_, receiver) \<Rightarrow>
          (let distToReceiver = Distance (ballPosition w) (groupPosition receiver);
               isCatchable = (distToReceiver < 5)
           in if isCatchable then
                (if rnd < catchChance (isOpen receiver) then handleCatch w
                 else handleInterception w)
              else handleIncomplete w))"

definition ballFlightPhase :: "real \<Rightarrow> real \<Rightarrow> World \<Rightarrow> World" where
  "ballFlightPhase now2 rnd w =
     (if ballThrownRef w then
        (case ballFlightRef w of
           None \<Rightarrow> w
         | Some flight \<Rightarrow>
             (let t = flightParameter now2 flight;
                  w1 = w\<lparr>ballPosition := flightPosition flight t\<rparr>
              in if t \<ge> 1 then
                   (resolveArrival rnd w1)\<lparr>ballThrownRef := False, ballFlightRef := None\<rparr>
                 else w1))
      else w)"

text \<open>
  One call of the \<open>registerBeforeRender\<close> callback. \<open>currentTime\<close> is
  \<open>performance.now()\<close> in milliseconds at its start.
\<close>

record FrameInput =
  currentTime :: real
  currentTime2 :: real
  randomDraw :: real

definition frame :: "FrameInput \<Rightarrow> World \<Rightarrow> World" where
  "frame inp w =
     (let delta = (currentTime inp - lastTime w) / 1000;
          w0 = w\<lparr>lastTime := currentTime inp\<rparr>
      in if gameStatus (gameStateRef w0) \<noteq> Playing then w0
         else if cutsceneActiveRef w0 = GameStart \<and> \<not> gameStartCutscenePlayed w0 then
           playGameStartCutscene (w0\<lparr>gameStartCutscenePlayed := True\<rparr>)
         else if cutsceneActiveRef w0 \<noteq> CsNone then w0
         else if \<not> playStartedRef w0 then w0
         else
           ballFlightPhase (currentTime2 inp) (randomDraw inp)
             (defenderPhase delta
                (receiverPhase delta
                   (qbPhase delta
                      (sackTimerPhase delta w0)))))"

subsection \<open>Runs of the program\<close>

datatype Event =
    EvStartGame
  | EvRestartGame
  | EvCommitRender
  | EvJoystick real real
  | EvKeyDown Key
  | EvKeyUp Key
  | EvPointerDown real PickResult
  | EvFrame FrameInput
  | EvTimeout nat
  | EvSkipCutscene

fun step :: "Event \<Rightarrow> World \<Rightarrow> World" where
  "step EvStartGame w = startGame w"
| "step EvRestartGame w = restartGame w"
| "step EvCommitRender w = commitRender w"
| "step (EvJoystick x y) w = handleJoystickMove x y w"
| "step (EvKeyDown k) w = handleKeyDown k w"
| "step (EvKeyUp k) w = handleKeyUp k w"
| "step (EvPointerDown now pick) w = onPointerDown now pick w"
| "step (EvFrame inp) w = frame inp w"
| "step (EvTimeout i) w = fireTimeout i w"
| "step EvSkipCutscene w = skipCutscene w"

text \<open>
  The worlds the program can be in: the initial one, and any world an event leads to.
  Events may come in any order, which covers every order the browser can produce.
\<close>

inductive reachable :: "World \<Rightarrow> bool" where
  reachable_init: "reachable (initialWorld t0)"
| reachable_step: "reachable w \<Longrightarrow> reachable (step e w)"

subsection \<open>Named collections and example worlds\<close>

text \<open>The six outcomes are produced by five handlers (a catch chooses among three).\<close>

definition outcomeHandlers :: "(World \<Rightarrow> World) list" where
  "outcomeHandlers =
     [handleTouchdown, handleCatch, handleInterception, handleSack, handleIncomplete]"

text \<open>
  A ball in flight from the QB's hand towards the left receiver, half a second long,
  thrown at clock reading 10.
\<close>

definition exampleFlight :: BallFlight where
  "exampleFlight =
     \<lparr>startPos = V3 0.3 1.5 (- 17.5), targetPos = V3 (- 13.5) 1.5 (- 2),
      startTime = 10, duration = 1 / 2, maxHeight = 3\<rparr>"

definition exampleFlightWorld :: World where
  "exampleFlightWorld =
     (commitRender (startGame (initialWorld 0)))
       \<lparr>cutsceneActiveRef := CsNone, playStartedRef := True, ballThrownRef := True,
        ballFlightRef := Some exampleFlight\<rparr>"

text \<open>
  A world in which the corner assigned to the left receiver stands three units in front
  of him.
\<close>

definition coveredWorld :: World where
  "coveredWorld =
     (initialWorld 0)
       \<lparr>defendersRef :=
          (defendersRef (initialWorld 0))
            [2 := \<lparr>defPosition = V3 (- 13.5) 0 (- 7), target = Corner\<rparr>]\<rparr>"


text \<open>
  The first play of a game, reached from the initial world: the start button, the
  render that copies the state into the ref, the frame that starts the opening
  cutscene, its two callbacks, another render, and the stick pushed fully forward.
\<close>

definition kickoffWorld :: World where
  "kickoffWorld =
     fold step
       [EvStartGame, EvCommitRender,
        EvFrame \<lparr>currentTime = 1000, currentTime2 = 1, randomDraw = 0\<rparr>,
        EvTimeout 0, EvTimeout 0, EvCommitRender, EvJoystick 0 (- 1)]
       (initialWorld 0)"

text \<open>The first play with the ball caught at \<open>z = 0\<close>, at \<open>z = 17.5\<close> and at \<open>z = 23\<close>.\<close>

definition scenarioAWorld :: World where
  "scenarioAWorld = kickoffWorld\<lparr>ballPosition := V3 (- 13.5) 1.5 0\<rparr>"

definition deepCatchWorld :: World where
  "deepCatchWorld = kickoffWorld\<lparr>ballPosition := V3 13.5 1.5 17.5\<rparr>"

definition touchdownCatchWorld :: World where
  "touchdownCatchWorld = kickoffWorld\<lparr>ballPosition := V3 13.5 1.5 23\<rparr>"

text \<open>The first play with the QB pushed back to \<open>z = -18.5\<close>.\<close>

definition sackWorld :: World where
  "sackWorld = kickoffWorld\<lparr>qbPosition := V3 0 0 (- 18.5)\<rparr>"

text \<open>
  The first play with a pass in the air towards the left receiver, who is still at the
  line; the pass comes down 8 units ahead of him. \<open>endedWorld\<close> is the world after
  the frame in which that pass arrives. \<open>tapOnReceiver\<close> is a tap on that receiver.
\<close>

definition missWorld :: World where
  "missWorld =
     kickoffWorld
       \<lparr>gameState := (gameState kickoffWorld)\<lparr>selectedReceiver := Some ''wr1''\<rparr>,
        gameStateRef := (gameStateRef kickoffWorld)\<lparr>selectedReceiver := Some ''wr1''\<rparr>,
        ballThrownRef := True, ballFlightRef := Some exampleFlight\<rparr>"

definition endedWorld :: World where
  "endedWorld = ballFlightPhase 11 0 missWorld"

definition tapOnReceiver :: PickResult where
  "tapOnReceiver =
     \<lparr>hit = True, pickedMesh = Some (ReceiverMesh 0), pickedPoint = Some (V3 (- 13.5) 1 (- 10))\<rparr>"

text \<open>
  The invariant behind the down counter: the counter is in range in the state and in
  the ref, and no pending callback holds a down number that would take it out of range
  (a sack's callback may hold 5, which makes it end the game).
\<close>

definition downsInRange :: "GameState \<Rightarrow> bool" where
  "downsInRange g = (1 \<le> downs g \<and> downs g \<le> 4)"

fun timeoutOK :: "Timeout \<Rightarrow> bool" where
  "timeoutOK (ShortCatchReset newDowns _ _) = (1 \<le> newDowns \<and> newDowns \<le> 4)"
| "timeoutOK (SackEnd newDowns _ _) = (1 \<le> newDowns)"
| "timeoutOK _ = True"

definition downsInvariant :: "World \<Rightarrow> bool" where
  "downsInvariant w =
     (downsInRange (gameState w) \<and> downsInRange (gameStateRef w)
      \<and> list_all timeoutOK (timeouts w))"

text \<open>The first play of a drive that has reached fourth down.\<close>

definition fourthDownWorld :: World where
  "fourthDownWorld =
     kickoffWorld
       \<lparr>gameState := (gameState kickoffWorld)\<lparr>downs := 4\<rparr>,
        gameStateRef := (gameStateRef kickoffWorld)\<lparr>downs := 4\<rparr>\<rparr>"

text \<open>
  The first play with the sack timer at its last tenth of a second. \<open>expiredWorld\<close>
  is that world after the first two phases of a half-second frame: the timer's updater
  is pending and the QB has stepped up to the line of scrimmage.
\<close>

definition expiringWorld :: World where
  "expiringWorld =
     kickoffWorld
       \<lparr>gameState := (gameState kickoffWorld)\<lparr>sackTimer := 0.1\<rparr>, sackTimerAccum := 0.08\<rparr>"

definition expiredWorld :: World where
  "expiredWorld = qbPhase 0.5 (sackTimerPhase 0.5 expiringWorld)"

subsection \<open>Double-precision arithmetic in the ball flight\<close>

text \<open>
  The world above computes with exact real numbers. JavaScript numbers are IEEE 754
  binary64 values, and every arithmetic operation rounds its exact result to the nearest
  such value, ties going to the one with an even significand. For the ball flight the
  rounding is written out, so that what the exact model says about the ball's position
  can be compared with what the program computes.

  \<open>roundTiesToEven\<close> rounds a real to the nearest integer, ties to even.
  \<open>exponent x\<close> is \<open>\<lfloor>log\<^sub>2 \<bar>x\<bar>\<rfloor>\<close>, found by halving or doubling \<open>x\<close> until it lies in
  \<open>[1, 2)\<close>, and \<open>pow2 k\<close> is \<open>2\<^sup>k\<close> for an integer \<open>k\<close>. \<open>binary64 x\<close> is the
  double nearest to \<open>x\<close>: with \<open>e\<close> the exponent of \<open>x\<close> (and not below the smallest
  normal exponent \<open>-1022\<close>, where the subnormal numbers begin), the doubles around \<open>x\<close>
  are the integer multiples of \<open>2\<^bsup>e - 52\<^esup>\<close>. A result of magnitude \<open>2\<^bsup>1024\<^esup>\<close> or more is
  \<open>Infinity\<close> in JavaScript; the model returns \<open>None\<close> there, as it does for everything
  computed from it. Negative zero is not distinguished from zero.
\<close>

definition roundTiesToEven :: "real \<Rightarrow> int" where
  "roundTiesToEven y =
     (let f = \<lfloor>y\<rfloor>; d = y - of_int f
      in if d < 1 / 2 then f else if 1 / 2 < d then f + 1
         else if even f then f else f + 1)"

function exponent :: "real \<Rightarrow> int" where
  "exponent x =
     (if x = 0 then 0
      else if 2 \<le> \<bar>x\<bar> then exponent (x / 2) + 1
      else if \<bar>x\<bar> < 1 then exponent (x * 2) - 1
      else 0)"
  by pat_completeness auto

termination exponent
proof (relation "measure (\<lambda>x. nat \<bar>\<lfloor>log 2 \<bar>x\<bar>\<rfloor>\<bar>)")
  show "wf (measure (\<lambda>x. nat \<bar>\<lfloor>log 2 \<bar>x\<bar>\<rfloor>\<bar>))" by simp
next
  fix x :: real
  assume x: "x \<noteq> 0" and 2: "2 \<le> \<bar>x\<bar>"
  have "1 \<le> log 2 \<bar>x\<bar>" using 2 by (simp add: le_log_iff)
  then have "1 \<le> \<lfloor>log 2 \<bar>x\<bar>\<rfloor>" by linarith
  moreover have "log 2 \<bar>x / 2\<bar> = log 2 \<bar>x\<bar> - 1"
    using x by (simp add: log_divide abs_divide)
  then have "\<lfloor>log 2 \<bar>x / 2\<bar>\<rfloor> = \<lfloor>log 2 \<bar>x\<bar>\<rfloor> - 1" by linarith
  ultimately show "(x / 2, x) \<in> measure (\<lambda>x. nat \<bar>\<lfloor>log 2 \<bar>x\<bar>\<rfloor>\<bar>)"
    by simp
next
  fix x :: real
  assume x: "x \<noteq> 0" and 1: "\<bar>x\<bar> < 1"
  have "log 2 \<bar>x\<bar> < 0" using x 1 by simp
  then have "\<lfloor>log 2 \<bar>x\<bar>\<rfloor> \<le> - 1" by linarith
  moreover have "log 2 \<bar>x * 2\<bar> = log 2 \<bar>x\<bar> + 1"
    using x by (simp add: log_mult abs_mult)
  then have "\<lfloor>log 2 \<bar>x * 2\<bar>\<rfloor> = \<lfloor>log 2 \<bar>x\<bar>\<rfloor> + 1" by linarith
  ultimately show "(x * 2, x) \<in> measure (\<lambda>x. nat \<bar>\<lfloor>log 2 \<bar>x\<bar>\<rfloor>\<bar>)"
    by simp
qed

declare exponent.simps [simp del]

definition pow2 :: "int \<Rightarrow> real" where
  "pow2 k = (if 0 \<le> k then 2 ^ nat k else 1 / 2 ^ nat (- k))"

definition binary64 :: "real \<Rightarrow> real option" where
  "binary64 x =
     (if x = 0 then Some 0
      else
        (let k = max (exponent x) (- 1022) - 52;
             r = of_int (roundTiesToEven (x / pow2 k)) * pow2 k
         in if \<bar>r\<bar> < 2 ^ 1024 then Some r else None))"

text \<open>
  \<open>BABYLON.Scalar.Lerp\<close> is \<open>start + (end - start) * amount\<close>: a subtraction, a
  multiplication and an addition, each rounded.
\<close>

definition LerpD :: "real \<Rightarrow> real \<Rightarrow> real \<Rightarrow> real option" where
  "LerpD start end' amount =
     Option.bind (binary64 (end' - start)) (\<lambda>d.
     Option.bind (binary64 (d * amount)) (\<lambda>p.
     binary64 (start + p)))"

text \<open>
  The position the game loop writes to the ball at interpolation parameter \<open>t\<close>, in the
  order the source evaluates it; \<open>4 * flight.maxHeight * t * (1 - t)\<close> multiplies from
  the left.
\<close>

definition flightPositionD :: "BallFlight \<Rightarrow> real \<Rightarrow> Vector3 option" where
  "flightPositionD flight t =
     Option.bind (LerpD (vx (startPos flight)) (vx (targetPos flight)) t) (\<lambda>newX.
     Option.bind (LerpD (vz (startPos flight)) (vz (targetPos flight)) t) (\<lambda>newZ.
     Option.bind (LerpD (vy (startPos flight)) (vy (targetPos flight)) t) (\<lambda>baseY.
     Option.bind (binary64 (4 * maxHeight flight)) (\<lambda>a1.
     Option.bind (binary64 (a1 * t)) (\<lambda>a2.
     Option.bind (binary64 (1 - t)) (\<lambda>oneMinusT.
     Option.bind (binary64 (a2 * oneMinusT)) (\<lambda>arcHeight.
     Option.bind (binary64 (baseY + arcHeight)) (\<lambda>newY.
     Some (V3 newX newY newZ)))))))))"

text \<open>
  A flight record whose coordinates and peak height are far from the overflow threshold.
\<close>

definition flightBounded :: "BallFlight \<Rightarrow> bool" where
  "flightBounded flight \<longleftrightarrow>
     \<bar>vx (startPos flight)\<bar> \<le> 2 ^ 1000 \<and> \<bar>vy (startPos flight)\<bar> \<le> 2 ^ 1000
     \<and> \<bar>vz (startPos flight)\<bar> \<le> 2 ^ 1000
     \<and> \<bar>vx (targetPos flight)\<bar> \<le> 2 ^ 1000 \<and> \<bar>vy (targetPos flight)\<bar> \<le> 2 ^ 1000
     \<and> \<bar>vz (targetPos flight)\<bar> \<le> 2 ^ 1000
     \<and> \<bar>maxHeight flight\<bar> \<le> 2 ^ 1000"

text \<open>
  A throw across the field. The QB stands at the right edge of the pocket, \<open>x = 16.5\<close>,
  so the ball in his hand is at \<open>x = 16.5 + 0.3\<close>, which in doubles is
  \<open>4728779608739021 / 2\<^sup>4\<^sup>8\<close>, the double nearest to 16.8; the target is clamped to the
  left edge, \<open>x = -16.5\<close>. \<open>straightFlight\<close> is a throw from \<open>x = 16.5\<close> instead.
\<close>

definition edgeFlight :: BallFlight where
  "edgeFlight =
     \<lparr>startPos = V3 (4728779608739021 / 2 ^ 48) 1.5 (- 14.5),
      targetPos = V3 (- 16.5) 1.5 (- 6),
      startTime = 10, duration = 1, maxHeight = 4.25\<rparr>"

definition edgeFlightWorld :: World where
  "edgeFlightWorld = exampleFlightWorld\<lparr>ballFlightRef := Some edgeFlight\<rparr>"

definition straightFlight :: BallFlight where
  "straightFlight = edgeFlight\<lparr>startPos := V3 16.5 1.5 (- 14.5)\<rparr>"

definition straightFlightWorld :: World where
  "straightFlightWorld = exampleFlightWorld\<lparr>ballFlightRef := Some straightFlight\<rparr>"

section \<open>Basic facts about the model\<close>

lemma V3_sel [simp]: "vx (V3 a b c) = a" "vy (V3 a b c) = b" "vz (V3 a b c) = c"
  by (simp_all add: V3_def)

lemma V3_eta: "V3 (vx p) (vy p) (vz p) = (p::Vector3)"
  by (simp add: V3_def)

lemma setGameState_fields [simp]:
  "ballPosition (setGameState g w) = ballPosition w"
  "receiversRef (setGameState g w) = receiversRef w"
  "defendersRef (setGameState g w) = defendersRef w"
  "ballThrownRef (setGameState g w) = ballThrownRef w"
  "ballFlightRef (setGameState g w) = ballFlightRef w"
  "playEndedRef (setGameState g w) = playEndedRef w"
  "gameStateRef (setGameState g w) = gameStateRef w"
  "timeouts (setGameState g w) = timeouts w"
  "lineOfScrimmageRef (setGameState g w) = lineOfScrimmageRef w"
  "qbPosition (setGameState g w) = qbPosition w"
  "gameState (setGameState g w) = g (gameState w)"
  by (simp_all add: setGameState_def)

lemma setTimeout_fields [simp]:
  "ballPosition (setTimeout t w) = ballPosition w"
  "receiversRef (setTimeout t w) = receiversRef w"
  "defendersRef (setTimeout t w) = defendersRef w"
  "ballThrownRef (setTimeout t w) = ballThrownRef w"
  "ballFlightRef (setTimeout t w) = ballFlightRef w"
  "playEndedRef (setTimeout t w) = playEndedRef w"
  "gameStateRef (setTimeout t w) = gameStateRef w"
  "gameState (setTimeout t w) = gameState w"
  "lineOfScrimmageRef (setTimeout t w) = lineOfScrimmageRef w"
  "qbPosition (setTimeout t w) = qbPosition w"
  "timeouts (setTimeout t w) = timeouts w @ [t]"
  by (simp_all add: setTimeout_def)

lemmas handler_defs =
  handleTouchdown_def handleCatch_def handleInterception_def handleSack_def
  handleIncomplete_def

lemmas cutscene_defs =
  playGameStartCutscene_def playTouchdownCutscene_def playSackCutscene_def
  playInterceptionCutscene_def

lemma handler_latched:
  assumes "h \<in> set outcomeHandlers" and "playEndedRef w"
  shows "h w = w"
  using assms by (auto simp: outcomeHandlers_def handler_defs)

lemma handler_sets_latch:
  assumes "h \<in> set outcomeHandlers"
  shows "playEndedRef (h w)"
  using assms by (auto simp: outcomeHandlers_def handler_defs cutscene_defs Let_def)

lemma handlers_ballPosition [simp]:
  "ballPosition (handleCatch w) = ballPosition w"
  "ballPosition (handleInterception w) = ballPosition w"
  "ballPosition (handleIncomplete w) = ballPosition w"
  "ballPosition (handleSack w) = ballPosition w"
  "ballPosition (handleTouchdown w) = ballPosition w"
  by (simp_all add: handler_defs cutscene_defs Let_def)

lemma resolveArrival_ballPosition [simp]:
  "ballPosition (resolveArrival rnd w) = ballPosition w"
  by (simp add: resolveArrival_def Let_def split: option.splits prod.splits)

subsection \<open>Ball flight\<close>

lemma flightPosition_start: "flightPosition f 0 = startPos f"
  by (simp add: flightPosition_def Lerp_def V3_eta)

lemma flightPosition_target: "flightPosition f 1 = targetPos f"
  by (simp add: flightPosition_def Lerp_def V3_eta)

lemma flightParameter_clamp:
  assumes "duration f > 0" and "startTime f \<le> now2"
  shows "flightParameter now2 f = max 0 (min ((now2 - startTime f) / duration f) 1)"
  using assms by (simp add: flightParameter_def Let_def)

lemma flightPosition_components:
  "vx (flightPosition f t) = vx (startPos f) + (vx (targetPos f) - vx (startPos f)) * t"
  "vz (flightPosition f t) = vz (startPos f) + (vz (targetPos f) - vz (startPos f)) * t"
  "vy (flightPosition f t) =
     (vy (startPos f) + (vy (targetPos f) - vy (startPos f)) * t)
     + 4 * maxHeight f * t * (1 - t)"
  by (simp_all add: flightPosition_def Lerp_def Let_def)

lemma ballFlightPhase_ballPosition:
  assumes "ballThrownRef w" and "ballFlightRef w = Some f"
  shows "ballPosition (ballFlightPhase now2 rnd w) = flightPosition f (flightParameter now2 f)"
  using assms by (simp add: ballFlightPhase_def Let_def)

lemma findReceiver_ballPosition [simp]:
  "findReceiver (w\<lparr>ballPosition := p\<rparr>) s = findReceiver w s"
  by (simp add: findReceiver_def cong: option.case_cong)

lemma sqrt_9: "sqrt 9 = 3"
  by (rule real_sqrt_unique) simp_all


subsection \<open>Receivers' coverage flag\<close>

lemma resetPlay_receivers_open: "r \<in> set (receiversRef (resetPlay w)) \<Longrightarrow> isOpen r"
  by (auto simp: resetPlay_def Let_def)

lemma resetPlay_receivers_length:
  "length (receiversRef w) = 2 \<Longrightarrow> length (receiversRef (resetPlay w)) = 2"
  by (simp add: resetPlay_def Let_def)

lemma defenderStep_corner_isOpen:
  assumes "i < length (defendersRef w)" and "target (defendersRef w ! i) = Corner"
    and "2 \<le> i" and "i - 2 < length (receiversRef w)"
  shows "isOpen (receiversRef (defenderStep delta i w) ! (i - 2))
         = (Distance (defPosition (defendersRef (defenderStep delta i w) ! i))
              (groupPosition (receiversRef w ! (i - 2))) > 4)"
  using assms by (simp add: defenderStep_def Let_def)

lemma coveredWorld_step:
  "defPosition (defendersRef (defenderStep 0 2 coveredWorld) ! 2) = V3 (- 13.5) 0 (- 7)"
  by (simp add: coveredWorld_def initialWorld_def defenderStep_def Let_def add_def scale_def
      clampX_def FIELD_HALF_WIDTH_def FIELD_WIDTH_def FIELD_MIN_Z_def ENDZONE_Z_def V3_def)

subsection \<open>The first play\<close>

lemma kickoffWorld_eq:
  "kickoffWorld =
     (initialWorld 0)
       \<lparr>gameState := newGameState\<lparr>cutscene := CsNone\<rparr>,
        gameStateRef := newGameState\<lparr>cutscene := CsNone\<rparr>,
        playStartedRef := True, joystickRef := (0, - 1), lastTime := 1000,
        gameStartCutscenePlayed := True\<rparr>"
  by (simp add: kickoffWorld_def startGame_def commitRender_def frame_def Let_def
      cutscene_defs fireTimeout_def setTimeout_def setGameState_def handleJoystickMove_def
      initialWorld_def newGameState_def)

lemma kickoffWorld_fields:
  "gameState kickoffWorld = newGameState\<lparr>cutscene := CsNone\<rparr>"
  "gameStateRef kickoffWorld = newGameState\<lparr>cutscene := CsNone\<rparr>"
  "lineOfScrimmageRef kickoffWorld = - 15"
  "playStartedRef kickoffWorld"
  "\<not> ballThrownRef kickoffWorld"
  "\<not> playEndedRef kickoffWorld"
  "cutsceneActiveRef kickoffWorld = CsNone"
  "ballFlightRef kickoffWorld = None"
  "qbPosition kickoffWorld = V3 0 0 (- 18)"
  "ballPosition kickoffWorld = V3 0.3 1.5 (- 9.5)"
  "joystickRef kickoffWorld = (0, - 1)"
  "keyboardRef kickoffWorld = \<lparr>keyW = False, keyA = False, keyS = False, keyD = False\<rparr>"
  "timeouts kickoffWorld = []"
  by (simp_all add: kickoffWorld_eq initialWorld_def)

lemma reachable_fold: "reachable w \<Longrightarrow> reachable (fold step es w)"
  by (induction es arbitrary: w) (auto intro: reachable_step)

lemma kickoffWorld_reachable: "reachable kickoffWorld"
  unfolding kickoffWorld_def by (rule reachable_fold) (rule reachable_init)

lemma qbPhase_kickoff:
  "qbPhase 1 kickoffWorld =
     kickoffWorld\<lparr>qbPosition := V3 0 0 (- 12), ballPosition := V3 0.3 1.5 (- 11.5)\<rparr>"
  unfolding qbPhase_def Let_def
  by (simp add: kickoffWorld_fields FIELD_HALF_WIDTH_def FIELD_WIDTH_def FIELD_MIN_Z_def V3_def)

subsection \<open>Catches\<close>

lemma round_ge_3: "3 < (x::real) \<Longrightarrow> 1 \<le> Math_round x"
  unfolding Math_round_def round_def by (simp add: le_floor_iff)

lemma Math_round_Ints: "x \<in> \<int> \<Longrightarrow> Math_round x = x"
  unfolding Math_round_def by (auto elim!: Ints_cases)

lemma yards_unrounded:
  "z \<le> 15 \<or> z \<in> \<int> \<Longrightarrow> Math_round (min 10 (ENDZONE_Z - z)) = min 10 (ENDZONE_Z - z)"
  by (rule Math_round_Ints) (auto simp: ENDZONE_Z_def min_def)

lemma handleCatch_first_down:
  assumes "\<not> playEndedRef w"
    and "firstDownMarker (gameStateRef w) \<le> vz (ballPosition w)"
    and "vz (ballPosition w) < ENDZONE_Z - 3"
  shows "handleCatch w =
           setTimeout
             (FirstDownReset (Math_round (min 10 (ENDZONE_Z - vz (ballPosition w))))
                (vz (ballPosition w)) (min (vz (ballPosition w) + 10) (ENDZONE_Z - 1)))
             (setGameState (\<lambda>prev. prev\<lparr>message := Text ''FIRST DOWN!''\<rparr>)
                (w\<lparr>playEndedRef := True, lineOfScrimmageRef := vz (ballPosition w)\<rparr>))"
  using assms by (simp add: handleCatch_def Let_def)

lemma resetPlay_gameState [simp]:
  "gameState (resetPlay w) =
     (gameState w)\<lparr>sackTimer := 5, selectedReceiver := None, message := Text []\<rparr>"
  by (simp add: resetPlay_def Let_def)

lemma resetPlay_clears_latch [simp]: "\<not> playEndedRef (resetPlay w)"
  by (simp add: resetPlay_def Let_def)

subsection \<open>The pocket\<close>

lemma qbPhase_pocket:
  assumes "\<not> ballThrownRef w"
  shows "- FIELD_HALF_WIDTH + 1 \<le> vx (qbPosition (qbPhase delta w))"
    "vx (qbPosition (qbPhase delta w)) \<le> FIELD_HALF_WIDTH - 1"
    "FIELD_MIN_Z + 2 \<le> vz (qbPosition (qbPhase delta w))"
    "vz (qbPosition (qbPhase delta w)) \<le> - 10"
proof -
  have b: "- FIELD_HALF_WIDTH + 1 \<le> FIELD_HALF_WIDTH - 1" "FIELD_MIN_Z + 2 \<le> - 10"
    by (simp_all add: FIELD_HALF_WIDTH_def FIELD_WIDTH_def FIELD_MIN_Z_def)
  show "- FIELD_HALF_WIDTH + 1 \<le> vx (qbPosition (qbPhase delta w))"
    "vx (qbPosition (qbPhase delta w)) \<le> FIELD_HALF_WIDTH - 1"
    "FIELD_MIN_Z + 2 \<le> vz (qbPosition (qbPhase delta w))"
    "vz (qbPosition (qbPhase delta w)) \<le> - 10"
    using assms b by (simp_all add: qbPhase_def Let_def split del: if_split)
qed

subsection \<open>Sacks\<close>

lemma handleSack_eq:
  assumes "\<not> playEndedRef w"
  shows "handleSack w =
     setTimeout
       (SackEnd (downs (gameStateRef w) + 1)
          (Math_round (yardsToGo (gameStateRef w)
             + Math_round (lineOfScrimmageRef w - vz (qbPosition w))))
          (vz (qbPosition w)))
       (setTimeout CutsceneComplete
          (setTimeout AllowSkip
             ((setGameState
                 (\<lambda>prev. prev\<lparr>cutscene := Sack,
                    message := SackedYds (Math_round (lineOfScrimmageRef w - vz (qbPosition w)))\<rparr>)
                 (w\<lparr>playEndedRef := True, lineOfScrimmageRef := vz (qbPosition w)\<rparr>))
              \<lparr>cutsceneActiveRef := Sack\<rparr>)))"
  using assms by (simp add: handleSack_def Let_def playSackCutscene_def)

lemma sackTimerPhase_schedules:
  assumes "sackTimerAccum w + delta \<ge> 0.1"
  shows "sackTimerPhase delta w =
           w\<lparr>sackTimerAccum := 0, timeouts := timeouts w @ [SackTimerUpdate]\<rparr>"
  using assms by (simp add: sackTimerPhase_def Let_def)

lemma sackTimerUpdater_expiry:
  assumes "sackTimer (gameState w) \<le> 0.1" and "\<not> ballThrownRef w"
  shows "runTimeout SackTimerUpdate w =
           setGameState (\<lambda>prev. prev\<lparr>sackTimer := 0\<rparr>) (handleSack w)"
proof -
  have m: "max 0 (sackTimer (gameState w) - 0.1) = 0"
    using assms(1) by simp
  show ?thesis
    unfolding runTimeout.simps sackTimerUpdater_def Let_def m using assms(2) by simp
qed

lemma defenderStep_rusher_sack:
  assumes "i < length (defendersRef w)" and "target (defendersRef w ! i) = Rusher"
    and "\<not> ballThrownRef w"
    and "Distance (defPosition (defendersRef (defenderStep delta i w) ! i)) (qbPosition w) < 1.2"
  shows "\<exists>ds. defenderStep delta i w = handleSack (w\<lparr>defendersRef := ds\<rparr>)"
proof -
  let ?d = "defendersRef w ! i"
  let ?toQB = "normalizeVec ((subtract (qbPosition w) (defPosition ?d))\<lparr>vy := 0\<rparr>)"
  let ?p1 = "add (defPosition ?d) (scale ?toQB (2.5 * delta))"
  let ?p2 = "?p1\<lparr>vx := clampX (vx ?p1), vz := max (FIELD_MIN_Z + 2) (min (- 5) (vz ?p1))\<rparr>"
  let ?w1 = "w\<lparr>defendersRef := (defendersRef w)[i := ?d\<lparr>defPosition := ?p2\<rparr>]\<rparr>"
  have e: "defenderStep delta i w =
             (if Distance ?p2 (qbPosition w) < 1.2 then handleSack ?w1 else ?w1)"
    using assms(1-3) by (simp add: defenderStep_def Let_def)
  have q: "qbPosition (handleSack ?w1) = qbPosition w" "length (defendersRef (handleSack ?w1)) = length (defendersRef w)"
    "defendersRef (handleSack ?w1) = defendersRef ?w1"
    by (simp_all add: handleSack_def Let_def playSackCutscene_def)
  have "Distance ?p2 (qbPosition w) < 1.2"
  proof (rule ccontr)
    assume n: "\<not> Distance ?p2 (qbPosition w) < 1.2"
    then have "defenderStep delta i w = ?w1" using e by simp
    then have "defPosition (defendersRef (defenderStep delta i w) ! i) = ?p2"
      using assms(1) by simp
    with assms(4) n show False by simp
  qed
  then show ?thesis using e by auto
qed


lemma SackEnd_gameState:
  "gameState (runTimeout (SackEnd nd y l) w) =
     (if nd > 4 then
        (gameState w)\<lparr>gameStatus := Gameover, cutscene := CsNone,
           message := Text ''TURNOVER ON DOWNS!''\<rparr>
      else
        (gameState w)\<lparr>downs := nd, yardsToGo := max 1 y, lineOfScrimmage := l,
           cutscene := CsNone, sackTimer := 5, selectedReceiver := None, message := Text []\<rparr>)"
  by simp

lemma yards_to_go_sum:
  assumes "y \<in> \<int>" and "1 \<le> y + Math_round x"
  shows "max 1 (Math_round (y + Math_round x)) = y + Math_round x"
proof -
  have "y + Math_round x \<in> \<int>"
    using assms(1) by (simp add: Math_round_def)
  then show ?thesis
    using assms(2) by (simp add: Math_round_Ints)
qed

lemma handleSack_kickoff:
  "handleSack kickoffWorld =
     setTimeout (SackEnd 2 13 (- 18))
       (setTimeout CutsceneComplete
          (setTimeout AllowSkip
             ((setGameState (\<lambda>prev. prev\<lparr>cutscene := Sack, message := SackedYds 3\<rparr>)
                 (kickoffWorld\<lparr>playEndedRef := True, lineOfScrimmageRef := - 18\<rparr>))
              \<lparr>cutsceneActiveRef := Sack\<rparr>)))"
  by (simp add: handleSack_eq kickoffWorld_fields newGameState_def Math_round_def)

subsection \<open>Throw requests\<close>

lemma ballFlightPhase_incomplete:
  assumes "ballThrownRef w" and "ballFlightRef w = Some f"
    and "1 \<le> flightParameter now2 f"
    and "findReceiver w (selectedReceiver (gameStateRef w)) = Some (i, r)"
    and "\<not> Distance (targetPos f) (groupPosition r) < 5"
  shows "ballFlightPhase now2 rnd w =
           (handleIncomplete (w\<lparr>ballPosition := targetPos f\<rparr>))
             \<lparr>ballThrownRef := False, ballFlightRef := None\<rparr>"
proof -
  have t: "flightParameter now2 f = 1"
    using assms(3) by (auto simp: flightParameter_def Let_def split: if_splits)
  have ra: "resolveArrival rnd (w\<lparr>ballPosition := targetPos f\<rparr>)
              = handleIncomplete (w\<lparr>ballPosition := targetPos f\<rparr>)"
    using assms(5) by (simp add: resolveArrival_def assms(4) Let_def)
  show ?thesis
    using assms(1,2) by (simp add: ballFlightPhase_def Let_def t flightPosition_target ra)
qed

lemma findReceiverFrom_present:
  "i < length rs \<Longrightarrow> findReceiverFrom k rs (rid (rs ! i)) \<noteq> None"
proof (induction rs arbitrary: i k)
  case Nil
  then show ?case by simp
next
  case (Cons r rs)
  then show ?case by (cases i) auto
qed

lemma throwBall_starts_flight:
  assumes "\<not> ballThrownRef w" and "findReceiverFrom 0 (receiversRef w) k \<noteq> None"
  shows "ballThrownRef (throwBall now k cp w)"
    "ballFlightRef (throwBall now k cp w) \<noteq> None"
  using assms by (auto simp: throwBall_def Let_def split: option.splits prod.splits)

lemma onPointerDown_direct_hit:
  assumes "gameStatus (gameStateRef w) = Playing" and "\<not> ballThrownRef w"
    and "hit pick" and "pickedMesh pick = Some (ReceiverMesh i)"
    and "i < length (receiversRef w)"
  shows "onPointerDown now pick w = throwBall now (rid (receiversRef w ! i)) (pickedPoint pick) w"
  using assms by (simp add: onPointerDown_def Let_def)

lemma throwBall_guard: "ballThrownRef w \<Longrightarrow> throwBall now k cp w = w"
  by (simp add: throwBall_def)

lemma onPointerDown_guard:
  "gameStatus (gameStateRef w) \<noteq> Playing \<or> ballThrownRef w \<Longrightarrow> onPointerDown now pick w = w"
  by (auto simp: onPointerDown_def)

lemma sqrt_ge_5: "25 \<le> x \<Longrightarrow> \<not> sqrt x < 5"
proof -
  assume "25 \<le> x"
  then have "sqrt 25 \<le> sqrt x" by (simp only: real_sqrt_le_iff)
  moreover have "sqrt 25 = 5" by (rule real_sqrt_unique) simp_all
  ultimately show ?thesis by simp
qed

lemma missWorld_fields:
  "ballThrownRef missWorld" "ballFlightRef missWorld = Some exampleFlight"
  "selectedReceiver (gameStateRef missWorld) = Some ''wr1''"
  "receiversRef missWorld = receiversRef (initialWorld 0)"
  "\<not> playEndedRef missWorld"
  "gameStateRef missWorld = newGameState\<lparr>cutscene := CsNone, selectedReceiver := Some ''wr1''\<rparr>"
  "gameState missWorld = newGameState\<lparr>cutscene := CsNone, selectedReceiver := Some ''wr1''\<rparr>"
  by (simp_all add: missWorld_def kickoffWorld_fields) (simp add: kickoffWorld_eq)

lemma endedWorld_eq:
  "endedWorld =
     (handleIncomplete (missWorld\<lparr>ballPosition := targetPos exampleFlight\<rparr>))
       \<lparr>ballThrownRef := False, ballFlightRef := None\<rparr>"
  unfolding endedWorld_def
proof (rule ballFlightPhase_incomplete)
  show "ballThrownRef missWorld" "ballFlightRef missWorld = Some exampleFlight"
    by (simp_all add: missWorld_fields)
  show "1 \<le> flightParameter 11 exampleFlight"
    by (simp add: flightParameter_def exampleFlight_def)
  show "findReceiver missWorld (selectedReceiver (gameStateRef missWorld))
          = Some (0, \<lparr>rid = ''wr1'', groupPosition = V3 (- FIELD_HALF_WIDTH + 4) 0 (- 10), isOpen = True\<rparr>)"
    by (simp add: missWorld_fields findReceiver_def initialWorld_def)
  show "\<not> Distance (targetPos exampleFlight)
            (groupPosition \<lparr>rid = ''wr1'', groupPosition = V3 (- FIELD_HALF_WIDTH + 4) 0 (- 10), isOpen = True\<rparr>) < 5"
    by (simp add: Distance_def subtract_def vlength_def exampleFlight_def FIELD_HALF_WIDTH_def
        FIELD_WIDTH_def sqrt_ge_5)
qed

lemma endedWorld_fields:
  "playEndedRef endedWorld" "\<not> ballThrownRef endedWorld" "ballFlightRef endedWorld = None"
  "gameStatus (gameStateRef endedWorld) = Playing" "gameStatus (gameState endedWorld) = Playing"
  "downs (gameState endedWorld) = 2"
  "length (receiversRef endedWorld) = 2"
  by (simp_all add: endedWorld_eq handleIncomplete_def Let_def missWorld_fields newGameState_def)
    (simp add: initialWorld_def)

subsection \<open>The down counter\<close>

lemma downsInvariant_cong:
  "gameState w' = gameState w \<Longrightarrow> gameStateRef w' = gameStateRef w
   \<Longrightarrow> timeouts w' = timeouts w \<Longrightarrow> downsInvariant w' = downsInvariant w"
  by (simp add: downsInvariant_def)

lemma resetPlay_fields [simp]:
  "gameStateRef (resetPlay w) = gameStateRef w"
  "timeouts (resetPlay w) = timeouts w"
  "lineOfScrimmageRef (resetPlay w) = lineOfScrimmageRef w"
  by (simp_all add: resetPlay_def Let_def)

lemma inv_handleTouchdown: "downsInvariant w \<Longrightarrow> downsInvariant (handleTouchdown w)"
  by (simp add: downsInvariant_def downsInRange_def handleTouchdown_def Let_def cutscene_defs)

lemma inv_handleInterception: "downsInvariant w \<Longrightarrow> downsInvariant (handleInterception w)"
  by (simp add: downsInvariant_def downsInRange_def handleInterception_def Let_def cutscene_defs)

lemma inv_handleSack: "downsInvariant w \<Longrightarrow> downsInvariant (handleSack w)"
  by (simp add: downsInvariant_def downsInRange_def handleSack_def Let_def cutscene_defs)

lemma inv_handleIncomplete: "downsInvariant w \<Longrightarrow> downsInvariant (handleIncomplete w)"
  by (simp add: downsInvariant_def downsInRange_def handleIncomplete_def Let_def)

lemma inv_handleCatch: "downsInvariant w \<Longrightarrow> downsInvariant (handleCatch w)"
  by (simp add: downsInvariant_def downsInRange_def handleCatch_def Let_def)

lemma inv_resetPlay: "downsInvariant w \<Longrightarrow> downsInvariant (resetPlay w)"
  by (simp add: downsInvariant_def downsInRange_def resetPlay_def Let_def)

lemma downsInvariant_updates [simp]:
  "downsInvariant (w\<lparr>sackTimerAccum := a\<rparr>) = downsInvariant w"
  "downsInvariant (w\<lparr>defendersRef := ds\<rparr>) = downsInvariant w"
  "downsInvariant (w\<lparr>receiversRef := rs\<rparr>) = downsInvariant w"
  "downsInvariant (w\<lparr>qbPosition := p\<rparr>) = downsInvariant w"
  "downsInvariant (w\<lparr>ballPosition := p\<rparr>) = downsInvariant w"
  "downsInvariant (w\<lparr>ballThrownRef := b\<rparr>) = downsInvariant w"
  "downsInvariant (w\<lparr>ballFlightRef := fl\<rparr>) = downsInvariant w"
  "downsInvariant (w\<lparr>ballTargetRef := tg\<rparr>) = downsInvariant w"
  "downsInvariant (w\<lparr>lastTime := a\<rparr>) = downsInvariant w"
  "downsInvariant (w\<lparr>gameStartCutscenePlayed := b\<rparr>) = downsInvariant w"
  "downsInvariant (w\<lparr>playStartedRef := b\<rparr>) = downsInvariant w"
  "downsInvariant (w\<lparr>joystickRef := j\<rparr>) = downsInvariant w"
  "downsInvariant (w\<lparr>keyboardRef := kb\<rparr>) = downsInvariant w"
  "downsInvariant (w\<lparr>cutsceneActiveRef := c\<rparr>) = downsInvariant w"
  "downsInvariant (w\<lparr>canSkipCutscene := b\<rparr>) = downsInvariant w"
  "downsInvariant (setGameState (sackTimer_update f) w) = downsInvariant w"
  "downsInvariant (setGameState (selectedReceiver_update g) w) = downsInvariant w"
  "downsInvariant (setGameState (cutscene_update h) w) = downsInvariant w"
  by (simp_all add: downsInvariant_def downsInRange_def)

lemma inv_sackTimerUpdater: "downsInvariant w \<Longrightarrow> downsInvariant (sackTimerUpdater w)"
  by (simp add: sackTimerUpdater_def Let_def inv_handleSack)

lemma inv_runTimeout:
  "timeoutOK t \<Longrightarrow> downsInvariant w \<Longrightarrow> downsInvariant (runTimeout t w)"
proof (cases t)
  case CallHandleTouchdown
  then show "downsInvariant w \<Longrightarrow> downsInvariant (runTimeout t w)"
    by (simp add: inv_handleTouchdown)
next
  case SackTimerUpdate
  then show "downsInvariant w \<Longrightarrow> downsInvariant (runTimeout t w)"
    by (simp add: inv_sackTimerUpdater)
next
  case (FirstDownReset y l m)
  assume "downsInvariant w"
  then have "downsInvariant (setGameState
          (\<lambda>prev. prev\<lparr>downs := 1, yardsToGo := max 1 y,
                       lineOfScrimmage := l, firstDownMarker := m,
                       message := Text []\<rparr>) w)"
    by (simp add: downsInvariant_def downsInRange_def)
  then show "downsInvariant (runTimeout t w)"
    unfolding FirstDownReset runTimeout.simps by (rule inv_resetPlay)
next
  case (ShortCatchReset nd y c)
  assume "timeoutOK t" "downsInvariant w"
  then have "downsInvariant (setGameState
          (\<lambda>prev. prev\<lparr>downs := nd, yardsToGo := max 1 y,
                       lineOfScrimmage := c, message := Text []\<rparr>) w)"
    by (simp add: downsInvariant_def downsInRange_def ShortCatchReset)
  then show "downsInvariant (runTimeout t w)"
    unfolding ShortCatchReset runTimeout.simps by (rule inv_resetPlay)
next
  case (SackEnd nd y l)
  assume a: "timeoutOK t" "downsInvariant w"
  show "downsInvariant (runTimeout t w)"
  proof (cases "nd > 4")
    case True
    with a show ?thesis
      by (simp add: SackEnd downsInvariant_def downsInRange_def)
  next
    case False
    with a have "downsInvariant (setGameState
             (\<lambda>prev. prev\<lparr>downs := nd, yardsToGo := max 1 y,
                          lineOfScrimmage := l, cutscene := CsNone,
                          message := Text []\<rparr>) w)"
      by (simp add: downsInvariant_def downsInRange_def SackEnd)
    then have "downsInvariant (resetPlay (setGameState
             (\<lambda>prev. prev\<lparr>downs := nd, yardsToGo := max 1 y,
                          lineOfScrimmage := l, cutscene := CsNone,
                          message := Text []\<rparr>) w))"
      by (rule inv_resetPlay)
    with False show ?thesis
      by (simp add: SackEnd)
  qed
qed (simp_all add: downsInvariant_def downsInRange_def)

lemma inv_fireTimeout: "downsInvariant w \<Longrightarrow> downsInvariant (fireTimeout i w)"
proof (cases "i < length (timeouts w)")
  case True
  assume a: "downsInvariant w"
  then have all: "list_all timeoutOK (timeouts w)"
    by (simp add: downsInvariant_def)
  then have ok: "timeoutOK (timeouts w ! i)"
    using True by (simp add: list_all_length)
  have "list_all timeoutOK (take i (timeouts w) @ drop (Suc i) (timeouts w))"
    using all by (auto simp: list_all_iff dest: in_set_takeD in_set_dropD)
  then have "downsInvariant (w\<lparr>timeouts := take i (timeouts w) @ drop (Suc i) (timeouts w)\<rparr>)"
    using a by (simp add: downsInvariant_def)
  then show ?thesis
    using True ok by (simp add: fireTimeout_def inv_runTimeout)
next
  case False
  then show "downsInvariant w \<Longrightarrow> downsInvariant (fireTimeout i w)"
    by (simp add: fireTimeout_def)
qed


lemma inv_sackTimerPhase: "downsInvariant w \<Longrightarrow> downsInvariant (sackTimerPhase delta w)"
  by (simp add: sackTimerPhase_def Let_def downsInvariant_def)

lemma inv_qbPhase: "downsInvariant w \<Longrightarrow> downsInvariant (qbPhase delta w)"
  by (cases "ballThrownRef w") (simp_all add: qbPhase_def Let_def split del: if_split)

lemma inv_receiverPhase: "downsInvariant w \<Longrightarrow> downsInvariant (receiverPhase delta w)"
  by (simp add: receiverPhase_def)

lemma inv_defenderStep: "downsInvariant w \<Longrightarrow> downsInvariant (defenderStep delta i w)"
  by (simp add: defenderStep_def Let_def inv_handleSack split: Assignment.splits)

lemma inv_fold_defenderStep:
  "downsInvariant w \<Longrightarrow> downsInvariant (fold (defenderStep delta) js w)"
  by (induction js arbitrary: w) (simp_all add: inv_defenderStep)

lemma inv_defenderPhase: "downsInvariant w \<Longrightarrow> downsInvariant (defenderPhase delta w)"
  by (simp add: defenderPhase_def inv_fold_defenderStep)

lemma inv_resolveArrival: "downsInvariant w \<Longrightarrow> downsInvariant (resolveArrival rnd w)"
  by (simp add: resolveArrival_def Let_def inv_handleCatch inv_handleInterception
      inv_handleIncomplete split: option.splits prod.splits)

lemma inv_ballFlightPhase: "downsInvariant w \<Longrightarrow> downsInvariant (ballFlightPhase now2 rnd w)"
  by (simp add: ballFlightPhase_def Let_def inv_resolveArrival split: option.splits)

lemma inv_playGameStartCutscene:
  "downsInvariant w \<Longrightarrow> downsInvariant (playGameStartCutscene w)"
  by (simp add: playGameStartCutscene_def downsInvariant_def)

lemma inv_frame: "downsInvariant w \<Longrightarrow> downsInvariant (frame inp w)"
  by (simp add: frame_def Let_def inv_playGameStartCutscene inv_ballFlightPhase
      inv_defenderPhase inv_receiverPhase inv_qbPhase inv_sackTimerPhase)

lemma inv_throwBall: "downsInvariant w \<Longrightarrow> downsInvariant (throwBall now k cp w)"
  by (simp add: throwBall_def Let_def split: option.splits prod.splits)

lemma inv_onPointerDown: "downsInvariant w \<Longrightarrow> downsInvariant (onPointerDown now pick w)"
  by (simp add: onPointerDown_def Let_def inv_throwBall split: option.splits Mesh.splits)

lemma inv_step: "downsInvariant w \<Longrightarrow> downsInvariant (step e w)"
proof (cases e)
  case EvStartGame
  then show "downsInvariant w \<Longrightarrow> downsInvariant (step e w)"
    by (simp add: startGame_def downsInvariant_def downsInRange_def newGameState_def)
next
  case EvRestartGame
  then show "downsInvariant w \<Longrightarrow> downsInvariant (step e w)"
    by (simp add: restartGame_def downsInvariant_def downsInRange_def newGameState_def)
next
  case EvCommitRender
  then show "downsInvariant w \<Longrightarrow> downsInvariant (step e w)"
    by (simp add: commitRender_def downsInvariant_def)
next
  case (EvJoystick x y)
  then show "downsInvariant w \<Longrightarrow> downsInvariant (step e w)"
    by (simp add: handleJoystickMove_def Let_def)
next
  case (EvKeyDown k)
  then show "downsInvariant w \<Longrightarrow> downsInvariant (step e w)"
    by (simp add: handleKeyDown_def Let_def)
next
  case (EvKeyUp k)
  then show "downsInvariant w \<Longrightarrow> downsInvariant (step e w)"
    by (simp add: handleKeyUp_def)
next
  case (EvPointerDown now pick)
  then show "downsInvariant w \<Longrightarrow> downsInvariant (step e w)"
    by (simp add: inv_onPointerDown)
next
  case (EvFrame inp)
  then show "downsInvariant w \<Longrightarrow> downsInvariant (step e w)"
    by (simp add: inv_frame)
next
  case (EvTimeout i)
  then show "downsInvariant w \<Longrightarrow> downsInvariant (step e w)"
    by (simp add: inv_fireTimeout)
next
  case EvSkipCutscene
  then show "downsInvariant w \<Longrightarrow> downsInvariant (step e w)"
    by (simp add: skipCutscene_def)
qed

lemma inv_initialWorld: "downsInvariant (initialWorld t0)"
  by (simp add: initialWorld_def downsInvariant_def downsInRange_def newGameState_def)

lemma reachable_downsInvariant: "reachable w \<Longrightarrow> downsInvariant w"
  by (induction rule: reachable.induct) (simp_all add: inv_initialWorld inv_step)


lemma incomplete_turnover:
  assumes "\<not> playEndedRef v" and "4 < downs (gameStateRef v) + 1"
  shows "gameStatus (gameState (handleIncomplete v)) = Gameover"
    "downs (gameState (handleIncomplete v)) = downs (gameState v)"
    "message (gameState (handleIncomplete v)) = Text ''TURNOVER ON DOWNS!''"
  using assms by (simp_all add: handleIncomplete_def Let_def)

lemma short_catch_turnover:
  assumes "\<not> playEndedRef v" and "4 < downs (gameStateRef v) + 1"
    and "vz (ballPosition v) < ENDZONE_Z - 3"
    and "vz (ballPosition v) < firstDownMarker (gameStateRef v)"
  shows "gameStatus (gameState (handleCatch v)) = Gameover"
    "downs (gameState (handleCatch v)) = downs (gameState v)"
    "message (gameState (handleCatch v)) = Text ''TURNOVER ON DOWNS!''"
  using assms by (simp_all add: handleCatch_def Let_def)

lemma sack_turnover:
  assumes "\<not> playEndedRef v" and "4 < downs (gameStateRef v) + 1"
  shows "\<exists>y l. last (timeouts (handleSack v)) = SackEnd (downs (gameStateRef v) + 1) y l
           \<and> (\<forall>v2. gameStatus (gameState (runTimeout (SackEnd (downs (gameStateRef v) + 1) y l) v2))
                     = Gameover
                 \<and> downs (gameState (runTimeout (SackEnd (downs (gameStateRef v) + 1) y l) v2))
                     = downs (gameState v2)
                 \<and> message (gameState (runTimeout (SackEnd (downs (gameStateRef v) + 1) y l) v2))
                     = Text ''TURNOVER ON DOWNS!'')"
  using assms by (simp add: handleSack_eq)

lemma fourthDownWorld_fields:
  "\<not> playEndedRef fourthDownWorld" "downs (gameStateRef fourthDownWorld) = 4"
  "downs (gameState fourthDownWorld) = 4" "gameStatus (gameState fourthDownWorld) = Playing"
  by (simp_all add: fourthDownWorld_def kickoffWorld_fields newGameState_def)

lemma expiredWorld_eq:
  "expiredWorld =
     expiringWorld
       \<lparr>sackTimerAccum := 0, timeouts := [SackTimerUpdate],
        qbPosition := V3 0 0 (- 15), ballPosition := V3 0.3 1.5 (- 14.5)\<rparr>"
  unfolding expiredWorld_def sackTimerPhase_def qbPhase_def Let_def expiringWorld_def
  by (simp add: kickoffWorld_fields FIELD_HALF_WIDTH_def FIELD_WIDTH_def FIELD_MIN_Z_def V3_def)

lemma expiredWorld_fields:
  "\<not> playEndedRef expiredWorld" "\<not> ballThrownRef expiredWorld"
  "qbPosition expiredWorld = V3 0 0 (- 15)" "lineOfScrimmageRef expiredWorld = - 15"
  "sackTimer (gameState expiredWorld) = 0.1" "timeouts expiredWorld = [SackTimerUpdate]"
  "gameStateRef expiredWorld = newGameState\<lparr>cutscene := CsNone\<rparr>"
  by (simp_all add: expiredWorld_eq expiringWorld_def kickoffWorld_fields)

subsection \<open>Rounding to double precision\<close>

lemma roundTiesToEven_error: "\<bar>of_int (roundTiesToEven y) - y\<bar> \<le> 1 / 2"
proof -
  have "of_int \<lfloor>y\<rfloor> \<le> y" "y < of_int \<lfloor>y\<rfloor> + 1"
    by linarith+
  then show ?thesis
    by (auto simp: roundTiesToEven_def Let_def)
qed

lemma roundTiesToEven_of_int [simp]: "roundTiesToEven (of_int m) = m"
  by (simp add: roundTiesToEven_def)

lemma roundTiesToEven_numeral [simp]:
  "roundTiesToEven (numeral n) = numeral n"
  "roundTiesToEven (- numeral n) = - numeral n"
  using roundTiesToEven_of_int [of "numeral n"] roundTiesToEven_of_int [of "- numeral n"]
  by simp_all

lemma log2_half: "x \<noteq> 0 \<Longrightarrow> log 2 \<bar>x / 2\<bar> = log 2 \<bar>x\<bar> - 1"
  by (simp add: log_divide abs_divide)

lemma log2_double: "x \<noteq> 0 \<Longrightarrow> log 2 \<bar>x * 2\<bar> = log 2 \<bar>x\<bar> + 1"
  by (simp add: log_mult abs_mult)

lemma exponent_log: "x \<noteq> 0 \<Longrightarrow> exponent x = \<lfloor>log 2 \<bar>x\<bar>\<rfloor>"
proof (induction x rule: exponent.induct)
  case (1 x)
  show ?case
  proof (cases "2 \<le> \<bar>x\<bar>")
    case True
    then have "exponent x = exponent (x / 2) + 1" using 1(3) by (simp add: exponent.simps [of x])
    also have "exponent (x / 2) = \<lfloor>log 2 \<bar>x / 2\<bar>\<rfloor>" using 1(1) [OF 1(3) True] 1(3) by simp
    also have "\<dots> + 1 = \<lfloor>log 2 \<bar>x\<bar>\<rfloor>" unfolding log2_half [OF 1(3)] by linarith
    finally show ?thesis .
  next
    case False
    show ?thesis
    proof (cases "\<bar>x\<bar> < 1")
      case True
      then have "exponent x = exponent (x * 2) - 1"
        using 1(3) False by (simp add: exponent.simps [of x])
      also have "exponent (x * 2) = \<lfloor>log 2 \<bar>x * 2\<bar>\<rfloor>"
        using 1(2) [OF 1(3) False True] 1(3) by simp
      also have "\<dots> - 1 = \<lfloor>log 2 \<bar>x\<bar>\<rfloor>" unfolding log2_double [OF 1(3)] by linarith
      finally show ?thesis .
    next
      case F2: False
      have "0 \<le> log 2 \<bar>x\<bar>" using F2 by simp
      moreover have "log 2 \<bar>x\<bar> < 1" using False 1(3) by (simp add: log_less_iff)
      ultimately have "\<lfloor>log 2 \<bar>x\<bar>\<rfloor> = 0" by linarith
      then show ?thesis using 1(3) False F2 by (simp add: exponent.simps [of x])
    qed
  qed
qed

lemma pow2_powr: "pow2 k = 2 powr of_int k"
proof (cases "0 \<le> k")
  case True
  then have "(2::real) powr of_int k = 2 powr real (nat k)" by simp
  then show ?thesis using True by (simp only: pow2_def powr_realpow if_True)
next
  case False
  define n where "n = nat (- k)"
  have k: "of_int k = - real n" using False by (simp add: n_def)
  have "(2::real) powr of_int k = 2 powr (- real n)" by (simp only: k)
  also have "\<dots> = 1 / 2 powr real n" by (rule powr_minus_divide)
  also have "\<dots> = 1 / 2 ^ n" by (simp add: powr_realpow)
  finally show ?thesis using False by (simp add: pow2_def n_def)
qed

text \<open>The double nearest to \<open>x\<close> in terms of the logarithm.\<close>

lemma binary64_log:
  "binary64 x =
     (if x = 0 then Some 0
      else
        (let k = max \<lfloor>log 2 \<bar>x\<bar>\<rfloor> (- 1022) - 52;
             r = of_int (roundTiesToEven (x / 2 powr of_int k)) * 2 powr of_int k
         in if \<bar>r\<bar> < 2 ^ 1024 then Some r else None))"
  by (simp add: binary64_def exponent_log pow2_powr)

lemma binary64_zero [simp]: "binary64 0 = Some 0"
  by (simp add: binary64_log)

lemma pow2_le_abs:
  assumes "x \<noteq> 0"
  shows "2 powr of_int \<lfloor>log 2 \<bar>x\<bar>\<rfloor> \<le> \<bar>x\<bar>"
proof -
  have "2 powr of_int \<lfloor>log 2 \<bar>x\<bar>\<rfloor> \<le> 2 powr log 2 \<bar>x\<bar>"
    by (rule powr_mono) simp_all
  also have "\<dots> = \<bar>x\<bar>"
    using assms by (simp add: powr_log_cancel)
  finally show ?thesis .
qed

lemma nearest_error:
  assumes "x \<noteq> 0" and "p = 2 powr of_int (max \<lfloor>log 2 \<bar>x\<bar>\<rfloor> (- 1022) - 52)"
    and "r = of_int (roundTiesToEven (x / p)) * p"
  shows "\<bar>r - x\<bar> \<le> \<bar>x\<bar> / 2 ^ 53 + 1 / 2 ^ 1075"
proof -
  define L where "L = \<lfloor>log 2 \<bar>x\<bar>\<rfloor>"
  define k where "k = max L (- 1022) - 52"
  have p_def: "p = (2::real) powr of_int k" by (simp add: assms(2) k_def L_def)
  have p: "0 < p" by (simp add: p_def)
  note r = assms(3)
  have "\<bar>of_int (roundTiesToEven (x / p)) - x / p\<bar> \<le> 1 / 2"
    by (rule roundTiesToEven_error)
  then have "\<bar>of_int (roundTiesToEven (x / p)) - x / p\<bar> * p \<le> 1 / 2 * p"
    using p by (intro mult_right_mono) simp_all
  moreover have "\<bar>of_int (roundTiesToEven (x / p)) - x / p\<bar> * p = \<bar>r - x\<bar>"
  proof -
    have "\<bar>of_int (roundTiesToEven (x / p)) - x / p\<bar> * p
          = \<bar>(of_int (roundTiesToEven (x / p)) - x / p) * p\<bar>"
      using p by (simp add: abs_mult)
    also have "(of_int (roundTiesToEven (x / p)) - x / p) * p = r - x"
      using p by (simp add: r algebra_simps)
    finally show ?thesis .
  qed
  ultimately have e: "\<bar>r - x\<bar> \<le> p / 2" by simp
  show ?thesis
  proof (cases "- 1022 \<le> L")
    case True
    then have "k = L - 52" by (simp add: k_def)
    then have "p = 2 powr of_int L / 2 ^ 52"
      by (simp add: p_def powr_diff)
    moreover have "2 powr of_int L \<le> \<bar>x\<bar>"
      unfolding L_def using assms(1) by (rule pow2_le_abs)
    ultimately have "p / 2 \<le> \<bar>x\<bar> / 2 ^ 53"
      by (simp add: field_simps)
    moreover have "0 \<le> (1::real) / 2 ^ 1075" by simp
    ultimately show ?thesis using e by linarith
  next
    case False
    then have "k = - 1074" by (simp add: k_def)
    then have "p = 1 / 2 ^ 1074"
      by (simp add: p_def powr_minus_divide)
    then have "p / 2 = 1 / 2 ^ 1075" by simp
    moreover have "0 \<le> \<bar>x\<bar> / 2 ^ 53" by simp
    ultimately show ?thesis using e by linarith
  qed
qed

lemma binary64_error:
  assumes "binary64 x = Some r"
  shows "\<bar>r - x\<bar> \<le> \<bar>x\<bar> / 2 ^ 53 + 1 / 2 ^ 1075"
proof (cases "x = 0")
  case True
  with assms show ?thesis by simp
next
  case False
  have "r = of_int (roundTiesToEven (x / 2 powr of_int (max \<lfloor>log 2 \<bar>x\<bar>\<rfloor> (- 1022) - 52)))
              * 2 powr of_int (max \<lfloor>log 2 \<bar>x\<bar>\<rfloor> (- 1022) - 52)"
    using assms False by (simp add: binary64_log Let_def split: if_splits)
  with False show ?thesis by (rule nearest_error [OF _ refl])
qed

text \<open>Below the overflow threshold rounding gives a number, at most twice as large.\<close>

lemma binary64_defined:
  assumes "\<bar>x\<bar> \<le> B" and "2 \<le> B" and "B \<le> 2 ^ 1023"
  shows "\<exists>r. binary64 x = Some r \<and> \<bar>r\<bar> \<le> 2 * B"
proof (cases "x = 0")
  case True
  then show ?thesis using assms(2) by simp
next
  case False
  define p where "p = (2::real) powr of_int (max \<lfloor>log 2 \<bar>x\<bar>\<rfloor> (- 1022) - 52)"
  define r where "r = of_int (roundTiesToEven (x / p)) * p"
  define T :: real where "T = 2 ^ 1023"
  have "\<bar>r - x\<bar> \<le> \<bar>x\<bar> / 2 ^ 53 + 1 / 2 ^ 1075"
    using False p_def r_def by (rule nearest_error)
  moreover have "\<bar>x\<bar> / 2 ^ 53 \<le> \<bar>x\<bar> / 2" by (intro frac_le) simp_all
  moreover have "(1::real) / 2 ^ 1075 \<le> 1" by simp
  ultimately have "\<bar>r\<bar> \<le> \<bar>x\<bar> + \<bar>x\<bar> / 2 + 1" by linarith
  then have b: "\<bar>r\<bar> \<le> 2 * B" using assms(1,2) by linarith
  have "(2::real) ^ 1024 = 2 * T" by (simp add: T_def)
  moreover have "B \<le> T" using assms(3) by (simp add: T_def)
  moreover have "4 \<le> T" by (simp add: T_def)
  moreover have "\<bar>r\<bar> \<le> \<bar>x\<bar> + \<bar>x\<bar> / 2 + 1" by fact
  ultimately have "\<bar>r\<bar> < 2 ^ 1024" using assms(1,2) by linarith
  then have "binary64 x = Some r"
    using False by (simp add: binary64_log Let_def p_def r_def)
  with b show ?thesis by blast
qed

text \<open>
  A number \<open>y / 2\<^sup>n\<close> with \<open>2\<^sup>5\<^sup>2 \<le> \<bar>y\<bar> < 2\<^sup>5\<^sup>3\<close> lies where the doubles are the integer
  multiples of \<open>1 / 2\<^sup>n\<close>, so it is rounded by rounding \<open>y\<close>.
\<close>

lemma binary64_scaled:
  fixes y :: real and n :: nat
  assumes "2 ^ 52 \<le> \<bar>y\<bar>" and "\<bar>y\<bar> < 2 ^ 53" and "n \<le> 1074"
  shows "binary64 (y / 2 ^ n) = Some (of_int (roundTiesToEven y) / 2 ^ n)"
proof -
  let ?x = "y / 2 ^ n"
  have y0: "y \<noteq> 0" using assms(1) by auto
  then have x0: "?x \<noteq> 0" by simp
  have ax: "\<bar>?x\<bar> = \<bar>y\<bar> / 2 ^ n" by (simp add: abs_divide)
  have pw: "(2::real) powr of_int (52 - int n) = 2 ^ 52 / 2 ^ n"
    "(2::real) powr of_int (52 - int n + 1) = 2 ^ 53 / 2 ^ n"
    by (simp_all add: powr_diff powr_add powr_realpow)
  have "\<lfloor>log 2 \<bar>?x\<bar>\<rfloor> = 52 - int n"
  proof -
    have "2 powr of_int (52 - int n) \<le> \<bar>?x\<bar> \<and> \<bar>?x\<bar> < 2 powr of_int (52 - int n + 1)"
      unfolding pw ax using assms(1,2) by (simp add: divide_right_mono divide_strict_right_mono)
    moreover have "0 < \<bar>?x\<bar>" using x0 by simp
    ultimately show ?thesis
      by (simp only: floor_log_eq_powr_iff [of "\<bar>?x\<bar>" 2 "52 - int n"] one_less_numeral_iff
          semiring_norm simp_thms)
  qed
  then have k: "max \<lfloor>log 2 \<bar>?x\<bar>\<rfloor> (- 1022) - 52 = - int n"
    using assms(3) by simp
  have p: "(2::real) powr of_int (- int n) = 1 / 2 ^ n"
    by (simp add: powr_minus_divide powr_realpow)
  have q: "?x / (1 / 2 ^ n) = y" by simp
  have "\<bar>roundTiesToEven y\<bar> \<le> 2 ^ 53"
  proof -
    have "\<bar>of_int (roundTiesToEven y) - y\<bar> \<le> 1 / 2" by (rule roundTiesToEven_error)
    then have "\<bar>real_of_int (roundTiesToEven y)\<bar> < 2 ^ 53 + 1"
      using assms(2) by linarith
    then have "\<bar>roundTiesToEven y\<bar> < 2 ^ 53 + 1"
      by (metis (mono_tags, opaque_lifting) of_int_abs of_int_less_iff of_int_numeral of_int_power of_int_add of_int_1)
    then show ?thesis by simp
  qed
  then have "\<bar>real_of_int (roundTiesToEven y)\<bar> \<le> 2 ^ 53"
    by (metis of_int_abs of_int_le_iff of_int_numeral of_int_power)
  then have "\<bar>real_of_int (roundTiesToEven y)\<bar> / 2 ^ n \<le> 2 ^ 53 / 1"
    by (intro frac_le) simp_all
  then have b: "\<bar>of_int (roundTiesToEven y) * (1 / 2 ^ n)\<bar> < (2::real) ^ 1024"
    by (simp add: abs_divide) 
  show ?thesis
    unfolding binary64_log Let_def k p q using x0 b by simp
qed

lemma binary64_one [simp]: "binary64 1 = Some 1"
  using binary64_scaled [of "2 ^ 52" 52] by simp

text \<open>
  One rounding, measured against \<open>c = M / 2\<^sup>5\<^sup>3 + 1 / 2\<^sup>1\<^sup>0\<^sup>7\<^sup>5\<close>, the error of rounding a
  number of magnitude \<open>M\<close>.
\<close>

lemma binary64_step:
  assumes "binary64 x = Some y" and "\<bar>x\<bar> \<le> M + k * (M / 2 ^ 53 + 1 / 2 ^ 1075)"
    and "0 \<le> k" and "0 \<le> M"
  shows "\<bar>y - x\<bar> \<le> (1 + k / 8) * (M / 2 ^ 53 + 1 / 2 ^ 1075)"
proof -
  define u :: real where "u = 1 / 2 ^ 53"
  define h :: real where "h = 1 / 2 ^ 1075"
  define c where "c = u * M + h"
  have u: "0 \<le> u" "u \<le> 1 / 8" and h: "0 \<le> h"
    by (simp_all add: u_def h_def)
  have c: "0 \<le> c" using u(1) h assms(4) by (simp add: c_def)
  have cc: "M / 2 ^ 53 + 1 / 2 ^ 1075 = c" by (simp add: c_def u_def h_def)
  have X: "\<bar>x\<bar> \<le> M + k * c" using assms(2) unfolding cc .
  have "\<bar>y - x\<bar> \<le> \<bar>x\<bar> / 2 ^ 53 + 1 / 2 ^ 1075" using assms(1) by (rule binary64_error)
  then have 0: "\<bar>y - x\<bar> \<le> u * \<bar>x\<bar> + h" by (simp add: u_def h_def)
  have "u * \<bar>x\<bar> \<le> u * (M + k * c)" using X u(1) by (rule mult_left_mono)
  also have "\<dots> = u * M + u * (k * c)" by (simp add: distrib_left)
  finally have 1: "u * \<bar>x\<bar> \<le> u * M + u * (k * c)" .
  have "0 \<le> k * c" using assms(3) c by simp
  with u(2) have "u * (k * c) \<le> 1 / 8 * (k * c)" by (rule mult_right_mono)
  then have 2: "u * (k * c) \<le> k * c / 8" by simp
  have 3: "u * M + h = c" by (simp add: c_def)
  have 4: "(1 + k / 8) * c = c + k * c / 8" by (simp add: algebra_simps)
  show ?thesis unfolding cc 4 using 0 1 2 3 by linarith
qed

lemma abs_mult_le:
  fixes a t :: real
  assumes "0 \<le> t" and "t \<le> 1"
  shows "\<bar>a * t\<bar> \<le> \<bar>a\<bar>"
proof -
  have "\<bar>a * t\<bar> = \<bar>a\<bar> * t" using assms(1) by (simp add: abs_mult)
  also have "\<dots> \<le> \<bar>a\<bar> * 1" using assms(2) by (intro mult_left_mono) simp_all
  finally show ?thesis by simp
qed

lemma Lerp_abs_le:
  assumes "0 \<le> t" and "t \<le> 1"
  shows "\<bar>Lerp s e t\<bar> \<le> \<bar>s\<bar> + \<bar>e\<bar>"
proof -
  have "Lerp s e t = s * (1 - t) + e * t" by (simp add: Lerp_def algebra_simps)
  moreover have "\<bar>s * (1 - t)\<bar> \<le> \<bar>s\<bar>" using assms by (intro abs_mult_le) simp_all
  moreover have "\<bar>e * t\<bar> \<le> \<bar>e\<bar>" using assms by (rule abs_mult_le)
  ultimately show ?thesis by linarith
qed

subsection \<open>The interpolation in double precision\<close>

lemma LerpD_start:
  assumes "binary64 s = Some s" and "binary64 (e - s) = Some d"
  shows "LerpD s e 0 = Some s"
  using assms by (simp add: LerpD_def)

lemma LerpD_exact:
  assumes "binary64 (e - s) = Some (e - s)" and "binary64 e = Some e"
  shows "LerpD s e 1 = Some e"
  using assms by (simp add: LerpD_def)

lemma LerpD_error:
  assumes "LerpD s e t = Some r" and "0 \<le> t" and "t \<le> 1"
  shows "\<bar>r - Lerp s e t\<bar> \<le> (\<bar>s\<bar> + \<bar>e\<bar>) / 2 ^ 51 + 1 / 2 ^ 1073"
proof -
  define M where "M = \<bar>s\<bar> + \<bar>e\<bar>"
  define c where "c = M / 2 ^ 53 + 1 / 2 ^ 1075"
  have M: "0 \<le> M" by (simp add: M_def)
  have c: "0 \<le> c" using M by (simp add: c_def)
  have step: "\<bar>y - x\<bar> \<le> (1 + k / 8) * c"
    if "binary64 x = Some y" "\<bar>x\<bar> \<le> M + k * c" "0 \<le> k" for x y k
    using binary64_step [OF that(1) _ that(3) M] that(2) unfolding c_def by blast
  from assms(1) obtain d p where d: "binary64 (e - s) = Some d"
    and p: "binary64 (d * t) = Some p" and r: "binary64 (s + p) = Some r"
    by (auto simp: LerpD_def bind_eq_Some_conv)
  have A: "\<bar>e - s\<bar> \<le> M + 0 * c" by (simp add: M_def)
  have E1: "\<bar>d - (e - s)\<bar> \<le> c" using step [OF d A] by simp
  have dM: "\<bar>d\<bar> \<le> M + 1 * c" using E1 A by simp
  have "\<bar>d * t\<bar> \<le> \<bar>d\<bar>" using assms(2,3) by (rule abs_mult_le)
  with dM have dt: "\<bar>d * t\<bar> \<le> M + 1 * c" by linarith
  have E2: "\<bar>p - d * t\<bar> \<le> (9 / 8) * c" using step [OF p dt] by simp
  have E1t: "\<bar>d * t - (e - s) * t\<bar> \<le> c"
  proof -
    have "\<bar>(d - (e - s)) * t\<bar> \<le> \<bar>d - (e - s)\<bar>" using assms(2,3) by (rule abs_mult_le)
    moreover have "(d - (e - s)) * t = d * t - (e - s) * t" by (simp add: algebra_simps)
    ultimately show ?thesis using E1 by simp
  qed
  have L: "\<bar>Lerp s e t\<bar> \<le> M" unfolding M_def using assms(2,3) by (rule Lerp_abs_le)
  have sp_eq: "s + p = Lerp s e t + (p - d * t) + (d * t - (e - s) * t)"
    by (simp add: Lerp_def)
  have sp: "\<bar>s + p\<bar> \<le> M + (17 / 8) * c" using L E2 E1t unfolding sp_eq by linarith
  have E3: "\<bar>r - (s + p)\<bar> \<le> (81 / 64) * c" using step [OF r sp] by simp
  have "r - Lerp s e t = (r - (s + p)) + (p - d * t) + (d * t - (e - s) * t)"
    by (simp add: Lerp_def)
  then have "\<bar>r - Lerp s e t\<bar> \<le> \<bar>r - (s + p)\<bar> + \<bar>p - d * t\<bar> + \<bar>d * t - (e - s) * t\<bar>"
    by linarith
  then have "\<bar>r - Lerp s e t\<bar> \<le> 4 * c" using E1t E2 E3 c by linarith
  also have "4 * c = (\<bar>s\<bar> + \<bar>e\<bar>) / 2 ^ 51 + 1 / 2 ^ 1073"
    by (simp add: c_def M_def)
  finally show ?thesis .
qed

lemma LerpD_defined:
  assumes "\<bar>s\<bar> \<le> 2 ^ 1000" and "\<bar>e\<bar> \<le> 2 ^ 1000" and "0 \<le> t" and "t \<le> 1"
  shows "\<exists>r. LerpD s e t = Some r \<and> \<bar>r\<bar> \<le> 2 ^ 1005"
proof -
  define K :: real where "K = 2 ^ 1000"
  have K: "2 \<le> K" "32 * K \<le> 2 ^ 1023" "32 * K = 2 ^ 1005" by (simp_all add: K_def)
  have se: "\<bar>s\<bar> \<le> K" "\<bar>e\<bar> \<le> K" using assms(1,2) by (simp_all add: K_def)
  have "\<bar>e - s\<bar> \<le> 2 * K" using se by linarith
  then obtain d where d: "binary64 (e - s) = Some d" "\<bar>d\<bar> \<le> 2 * (2 * K)"
    using binary64_defined [of "e - s" "2 * K"] K by auto
  have "\<bar>d * t\<bar> \<le> \<bar>d\<bar>" using assms(3,4) by (rule abs_mult_le)
  with d(2) have "\<bar>d * t\<bar> \<le> 4 * K" by linarith
  then obtain p where p: "binary64 (d * t) = Some p" "\<bar>p\<bar> \<le> 2 * (4 * K)"
    using binary64_defined [of "d * t" "4 * K"] K by auto
  have "\<bar>s + p\<bar> \<le> 16 * K" using se(1) p(2) K(1) by linarith
  then obtain r where r: "binary64 (s + p) = Some r" "\<bar>r\<bar> \<le> 2 * (16 * K)"
    using binary64_defined [of "s + p" "16 * K"] K by auto
  have "LerpD s e t = Some r" by (simp add: LerpD_def d(1) p(1) r(1))
  moreover have "\<bar>r\<bar> \<le> 2 ^ 1005" using r(2) K(3) by linarith
  ultimately show ?thesis by blast
qed

text \<open>The arc \<open>4 * maxHeight * t * (1 - t)\<close>: four roundings.\<close>

lemma arc_error:
  assumes a1: "binary64 (4 * mh) = Some a1" and a2: "binary64 (a1 * t) = Some a2"
    and om: "binary64 (1 - t) = Some om" and arc: "binary64 (a2 * om) = Some arc"
    and t: "0 \<le> t" "t \<le> 1"
  shows "\<bar>arc - 4 * mh * t * (1 - t)\<bar> \<le> 7 * (\<bar>4 * mh\<bar> / 2 ^ 53 + 1 / 2 ^ 1075)"
proof -
  define u :: real where "u = 1 / 2 ^ 53"
  define h :: real where "h = 1 / 2 ^ 1075"
  define H where "H = \<bar>4 * mh\<bar>"
  define c where "c = H / 2 ^ 53 + 1 / 2 ^ 1075"
  define w where "w = om - (1 - t)"
  define uH where "uH = u * H"
  define uc where "uc = u * c"
  have H: "0 \<le> H" by (simp add: H_def)
  have c: "0 \<le> c" using H by (simp add: c_def)
  have u: "0 \<le> u" by (simp add: u_def)
  have uH: "uH \<le> c" by (simp add: uH_def c_def u_def)
  have uc: "uc \<le> c / 8"
  proof -
    have "u * c \<le> 1 / 8 * c" using c by (intro mult_right_mono) (simp_all add: u_def)
    then show ?thesis by (simp add: uc_def)
  qed
  have step: "\<bar>y - x\<bar> \<le> (1 + k / 8) * c"
    if "binary64 x = Some y" "\<bar>x\<bar> \<le> H + k * c" "0 \<le> k" for x y k
    using binary64_step [OF that(1) _ that(3) H] that(2) unfolding c_def by blast
  have A: "\<bar>4 * mh\<bar> \<le> H + 0 * c" by (simp add: H_def)
  have F1: "\<bar>a1 - 4 * mh\<bar> \<le> c" using step [OF a1 A] by simp
  have a1H: "\<bar>a1\<bar> \<le> H + 1 * c" using F1 by (simp add: H_def)
  have "\<bar>a1 * t\<bar> \<le> \<bar>a1\<bar>" using t by (rule abs_mult_le)
  with a1H have a1t: "\<bar>a1 * t\<bar> \<le> H + 1 * c" by linarith
  have F2: "\<bar>a2 - a1 * t\<bar> \<le> (9 / 8) * c" using step [OF a2 a1t] by simp
  have F1t: "\<bar>a1 * t - 4 * mh * t\<bar> \<le> c"
  proof -
    have "\<bar>(a1 - 4 * mh) * t\<bar> \<le> \<bar>a1 - 4 * mh\<bar>" using t by (rule abs_mult_le)
    moreover have "(a1 - 4 * mh) * t = a1 * t - 4 * mh * t" by (simp add: algebra_simps)
    ultimately show ?thesis using F1 by simp
  qed
  have G: "\<bar>4 * mh * t\<bar> \<le> H" unfolding H_def using t by (rule abs_mult_le)
  have a2g: "\<bar>a2 - 4 * mh * t\<bar> \<le> (17 / 8) * c" using F2 F1t by linarith
  have a2H: "\<bar>a2\<bar> \<le> H + (17 / 8) * c" using a2g G by linarith
  have w: "\<bar>w\<bar> \<le> 2 * u"
  proof -
    have "\<bar>om - (1 - t)\<bar> \<le> \<bar>1 - t\<bar> / 2 ^ 53 + 1 / 2 ^ 1075" using om by (rule binary64_error)
    moreover have "\<bar>1 - t\<bar> / 2 ^ 53 \<le> 1 / 2 ^ 53" using t by (intro divide_right_mono) simp_all
    moreover have "(1::real) / 2 ^ 1075 \<le> 1 / 2 ^ 53" by simp
    ultimately show ?thesis by (simp add: w_def u_def)
  qed
  have a2w: "\<bar>a2 * w\<bar> \<le> (81 / 32) * c"
  proof -
    have "\<bar>a2\<bar> * \<bar>w\<bar> \<le> (H + (17 / 8) * c) * (2 * u)"
      using a2H w by (intro mult_mono) (use H c in simp_all)
    moreover have "(H + (17 / 8) * c) * (2 * u) = 2 * uH + (17 / 4) * uc"
      by (simp add: uH_def uc_def algebra_simps)
    ultimately have "\<bar>a2\<bar> * \<bar>w\<bar> \<le> 2 * uH + (17 / 4) * uc" by simp
    then show ?thesis using uH uc by (simp add: abs_mult) 
  qed
  have a2m: "\<bar>a2 * (1 - t)\<bar> \<le> \<bar>a2\<bar>" using t by (intro abs_mult_le) simp_all
  have om_eq: "a2 * om = a2 * (1 - t) + a2 * w" by (simp add: w_def algebra_simps)
  have a2om: "\<bar>a2 * om\<bar> \<le> H + (149 / 32) * c"
    unfolding om_eq using a2m a2H a2w by linarith
  have F4: "\<bar>arc - a2 * om\<bar> \<le> (405 / 256) * c" using step [OF arc a2om] by simp
  have a2gm: "\<bar>(a2 - 4 * mh * t) * (1 - t)\<bar> \<le> \<bar>a2 - 4 * mh * t\<bar>"
    using t by (intro abs_mult_le) simp_all
  have "arc - 4 * mh * t * (1 - t)
          = (arc - a2 * om) + (a2 - 4 * mh * t) * (1 - t) + a2 * w"
    by (simp add: w_def algebra_simps)
  then have "\<bar>arc - 4 * mh * t * (1 - t)\<bar>
          \<le> \<bar>arc - a2 * om\<bar> + \<bar>(a2 - 4 * mh * t) * (1 - t)\<bar> + \<bar>a2 * w\<bar>"
    by linarith
  then have "\<bar>arc - 4 * mh * t * (1 - t)\<bar> \<le> 7 * c"
    using F4 a2gm a2g a2w c by linarith
  then show ?thesis by (simp add: c_def H_def)
qed

lemma arc_abs_le:
  fixes mh t :: real
  assumes "0 \<le> t" and "t \<le> 1"
  shows "\<bar>4 * mh * t * (1 - t)\<bar> \<le> \<bar>4 * mh\<bar>"
proof -
  have "\<bar>4 * mh * t * (1 - t)\<bar> \<le> \<bar>4 * mh * t\<bar>" using assms by (intro abs_mult_le) simp_all
  also have "\<dots> \<le> \<bar>4 * mh\<bar>" using assms by (rule abs_mult_le)
  finally show ?thesis .
qed

lemma arc_defined:
  assumes "\<bar>mh\<bar> \<le> 2 ^ 1000" and "0 \<le> t" and "t \<le> 1"
  shows "\<exists>a1 a2 om arc. binary64 (4 * mh) = Some a1 \<and> binary64 (a1 * t) = Some a2
           \<and> binary64 (1 - t) = Some om \<and> binary64 (a2 * om) = Some arc
           \<and> \<bar>arc\<bar> \<le> 2 ^ 1007"
proof -
  define K :: real where "K = 2 ^ 1000"
  have K: "2 \<le> K" "64 * K \<le> 2 ^ 1023" "128 * K = 2 ^ 1007" by (simp_all add: K_def)
  have mh: "\<bar>mh\<bar> \<le> K" using assms(1) by (simp add: K_def)
  have "\<bar>4 * mh\<bar> \<le> 4 * K" using mh by simp
  then obtain a1 where a1: "binary64 (4 * mh) = Some a1" "\<bar>a1\<bar> \<le> 2 * (4 * K)"
    using binary64_defined [of "4 * mh" "4 * K"] K by auto
  have "\<bar>a1 * t\<bar> \<le> \<bar>a1\<bar>" using assms(2,3) by (rule abs_mult_le)
  with a1(2) have "\<bar>a1 * t\<bar> \<le> 8 * K" by linarith
  then obtain a2 where a2: "binary64 (a1 * t) = Some a2" "\<bar>a2\<bar> \<le> 2 * (8 * K)"
    using binary64_defined [of "a1 * t" "8 * K"] K by auto
  have "\<bar>1 - t\<bar> \<le> 2" using assms(2,3) by simp
  then obtain om where om: "binary64 (1 - t) = Some om" "\<bar>om\<bar> \<le> 2 * 2"
    using binary64_defined [of "1 - t" 2] by auto
  have "\<bar>a2\<bar> * \<bar>om\<bar> \<le> (16 * K) * 4"
    using a2(2) om(2) by (intro mult_mono) (use K(1) in simp_all)
  then have "\<bar>a2 * om\<bar> \<le> 64 * K" by (simp add: abs_mult)
  then obtain arc where arc: "binary64 (a2 * om) = Some arc" "\<bar>arc\<bar> \<le> 2 * (64 * K)"
    using binary64_defined [of "a2 * om" "64 * K"] K by auto
  have "\<bar>arc\<bar> \<le> 2 ^ 1007" using arc(2) K(3) by linarith
  with a1(1) a2(1) om(1) arc(1) show ?thesis by blast
qed

subsection \<open>The ball's position in double precision\<close>

lemma flightPositionD_defined:
  assumes "flightBounded f" and "0 \<le> t" and "t \<le> 1"
  shows "\<exists>p. flightPositionD f t = Some p"
proof -
  define K :: real where "K = 2 ^ 1000"
  have K: "2 \<le> K" "256 * K \<le> 2 ^ 1023" "32 * K = 2 ^ 1005" "128 * K = 2 ^ 1007"
    by (simp_all add: K_def)
  from assms obtain X where X: "LerpD (vx (startPos f)) (vx (targetPos f)) t = Some X"
    using LerpD_defined [of "vx (startPos f)" "vx (targetPos f)" t]
    by (auto simp: flightBounded_def)
  from assms obtain Z where Z: "LerpD (vz (startPos f)) (vz (targetPos f)) t = Some Z"
    using LerpD_defined [of "vz (startPos f)" "vz (targetPos f)" t]
    by (auto simp: flightBounded_def)
  from assms obtain Y where Y: "LerpD (vy (startPos f)) (vy (targetPos f)) t = Some Y"
    "\<bar>Y\<bar> \<le> 2 ^ 1005"
    using LerpD_defined [of "vy (startPos f)" "vy (targetPos f)" t]
    by (auto simp: flightBounded_def)
  from assms obtain a1 a2 om arc where a: "binary64 (4 * maxHeight f) = Some a1"
    "binary64 (a1 * t) = Some a2" "binary64 (1 - t) = Some om"
    "binary64 (a2 * om) = Some arc" "\<bar>arc\<bar> \<le> 2 ^ 1007"
    using arc_defined [of "maxHeight f" t] by (auto simp: flightBounded_def)
  have "\<bar>Y + arc\<bar> \<le> 256 * K" using Y(2) a(5) K by linarith
  then obtain nY where nY: "binary64 (Y + arc) = Some nY"
    using binary64_defined [of "Y + arc" "256 * K"] K by auto
  show ?thesis by (simp add: flightPositionD_def X Z Y(1) a(1-4) nY)
qed

lemma flightPositionD_error:
  assumes "flightPositionD f t = Some p" and "0 \<le> t" and "t \<le> 1"
  shows "\<bar>vx p - vx (flightPosition f t)\<bar>
           \<le> (\<bar>vx (startPos f)\<bar> + \<bar>vx (targetPos f)\<bar>) / 2 ^ 51 + 1 / 2 ^ 1073"
    and "\<bar>vz p - vz (flightPosition f t)\<bar>
           \<le> (\<bar>vz (startPos f)\<bar> + \<bar>vz (targetPos f)\<bar>) / 2 ^ 51 + 1 / 2 ^ 1073"
    and "\<bar>vy p - vy (flightPosition f t)\<bar>
           \<le> (\<bar>vy (startPos f)\<bar> + \<bar>vy (targetPos f)\<bar> + 4 * \<bar>maxHeight f\<bar>) / 2 ^ 49
               + 1 / 2 ^ 1071"
proof -
  from assms(1) obtain X Z Y a1 a2 om arc nY where
    X: "LerpD (vx (startPos f)) (vx (targetPos f)) t = Some X" and
    Z: "LerpD (vz (startPos f)) (vz (targetPos f)) t = Some Z" and
    Y: "LerpD (vy (startPos f)) (vy (targetPos f)) t = Some Y" and
    a1: "binary64 (4 * maxHeight f) = Some a1" and a2: "binary64 (a1 * t) = Some a2" and
    om: "binary64 (1 - t) = Some om" and arc: "binary64 (a2 * om) = Some arc" and
    nY: "binary64 (Y + arc) = Some nY" and p: "p = V3 X nY Z"
    by (auto simp: flightPositionD_def bind_eq_Some_conv)
  have fp: "vx (flightPosition f t) = Lerp (vx (startPos f)) (vx (targetPos f)) t"
    "vz (flightPosition f t) = Lerp (vz (startPos f)) (vz (targetPos f)) t"
    "vy (flightPosition f t) = Lerp (vy (startPos f)) (vy (targetPos f)) t
        + 4 * maxHeight f * t * (1 - t)"
    by (simp_all add: flightPosition_def Let_def V3_def)
  show "\<bar>vx p - vx (flightPosition f t)\<bar>
           \<le> (\<bar>vx (startPos f)\<bar> + \<bar>vx (targetPos f)\<bar>) / 2 ^ 51 + 1 / 2 ^ 1073"
    using LerpD_error [OF X assms(2,3)] by (simp add: p fp V3_def)
  show "\<bar>vz p - vz (flightPosition f t)\<bar>
           \<le> (\<bar>vz (startPos f)\<bar> + \<bar>vz (targetPos f)\<bar>) / 2 ^ 51 + 1 / 2 ^ 1073"
    using LerpD_error [OF Z assms(2,3)] by (simp add: p fp V3_def)
  define My where "My = \<bar>vy (startPos f)\<bar> + \<bar>vy (targetPos f)\<bar>"
  define H where "H = \<bar>4 * maxHeight f\<bar>"
  define N where "N = My + H"
  define c where "c = N / 2 ^ 53 + 1 / 2 ^ 1075"
  define L where "L = Lerp (vy (startPos f)) (vy (targetPos f)) t"
  define A where "A = 4 * maxHeight f * t * (1 - t)"
  have My: "0 \<le> My" and H: "0 \<le> H" by (simp_all add: My_def H_def)
  have N: "0 \<le> N" using My H by (simp add: N_def)
  have EY: "\<bar>Y - L\<bar> \<le> 4 * c"
  proof -
    have "\<bar>Y - L\<bar> \<le> My / 2 ^ 51 + 1 / 2 ^ 1073"
      unfolding L_def My_def using Y assms(2,3) by (rule LerpD_error)
    moreover have "My / 2 ^ 51 \<le> N / 2 ^ 51" using H by (simp add: N_def divide_right_mono)
    moreover have "4 * c = N / 2 ^ 51 + 1 / 2 ^ 1073" by (simp add: c_def)
    ultimately show ?thesis by linarith
  qed
  have EA: "\<bar>arc - A\<bar> \<le> 7 * c"
  proof -
    have "\<bar>arc - A\<bar> \<le> 7 * (H / 2 ^ 53 + 1 / 2 ^ 1075)"
      unfolding A_def H_def using a1 a2 om arc assms(2,3) by (rule arc_error)
    moreover have "H / 2 ^ 53 \<le> N / 2 ^ 53" using My by (simp add: N_def divide_right_mono)
    ultimately show ?thesis by (simp add: c_def)
  qed
  have "\<bar>L\<bar> \<le> My" unfolding L_def My_def using assms(2,3) by (rule Lerp_abs_le)
  moreover have "\<bar>A\<bar> \<le> H" unfolding A_def H_def using assms(2,3) by (rule arc_abs_le)
  ultimately have "\<bar>Y + arc\<bar> \<le> N + 11 * c" using EY EA by (simp add: N_def) 
  then have "\<bar>nY - (Y + arc)\<bar> \<le> (19 / 8) * c"
    unfolding c_def using binary64_step [OF nY _ _ N, of 11] by simp
  moreover have "0 \<le> c" using N by (simp add: c_def)
  ultimately have "\<bar>nY - (L + A)\<bar> \<le> 16 * c" using EY EA by linarith
  moreover have "16 * c = (My + H) / 2 ^ 49 + 1 / 2 ^ 1071" by (simp add: c_def N_def)
  moreover have "H = 4 * \<bar>maxHeight f\<bar>" by (simp add: H_def abs_mult)
  ultimately show "\<bar>vy p - vy (flightPosition f t)\<bar>
           \<le> (\<bar>vy (startPos f)\<bar> + \<bar>vy (targetPos f)\<bar> + 4 * \<bar>maxHeight f\<bar>) / 2 ^ 49
               + 1 / 2 ^ 1071"
    by (simp add: p fp V3_def L_def A_def My_def)
qed

text \<open>At \<open>t = 0\<close> both products are zero and nothing is rounded.\<close>

lemma flightPositionD_start:
  assumes "flightBounded f"
    and "binary64 (vx (startPos f)) = Some (vx (startPos f))"
    and "binary64 (vy (startPos f)) = Some (vy (startPos f))"
    and "binary64 (vz (startPos f)) = Some (vz (startPos f))"
  shows "flightPositionD f 0 = Some (startPos f)"
proof -
  define K :: real where "K = 2 ^ 1000"
  have K: "2 \<le> K" "4 * K \<le> 2 ^ 1023" by (simp_all add: K_def)
  have b: "\<bar>vx (startPos f)\<bar> \<le> K" "\<bar>vy (startPos f)\<bar> \<le> K" "\<bar>vz (startPos f)\<bar> \<le> K"
    "\<bar>vx (targetPos f)\<bar> \<le> K" "\<bar>vy (targetPos f)\<bar> \<le> K" "\<bar>vz (targetPos f)\<bar> \<le> K"
    "\<bar>maxHeight f\<bar> \<le> K"
    using assms(1) by (simp_all add: flightBounded_def K_def)
  have d: "\<exists>d. binary64 (e - s) = Some d" if "\<bar>s\<bar> \<le> K" "\<bar>e\<bar> \<le> K" for s e
  proof -
    have "\<bar>e - s\<bar> \<le> 4 * K" using that K(1) by linarith
    then show ?thesis using binary64_defined [of "e - s" "4 * K"] K by auto
  qed
  obtain dx where "binary64 (vx (targetPos f) - vx (startPos f)) = Some dx"
    using d [OF b(1) b(4)] by blast
  then have X: "LerpD (vx (startPos f)) (vx (targetPos f)) 0 = Some (vx (startPos f))"
    using assms(2) by (intro LerpD_start)
  obtain dy where "binary64 (vy (targetPos f) - vy (startPos f)) = Some dy"
    using d [OF b(2) b(5)] by blast
  then have Y: "LerpD (vy (startPos f)) (vy (targetPos f)) 0 = Some (vy (startPos f))"
    using assms(3) by (intro LerpD_start)
  obtain dz where "binary64 (vz (targetPos f) - vz (startPos f)) = Some dz"
    using d [OF b(3) b(6)] by blast
  then have Z: "LerpD (vz (startPos f)) (vz (targetPos f)) 0 = Some (vz (startPos f))"
    using assms(4) by (intro LerpD_start)
  have "\<bar>4 * maxHeight f\<bar> \<le> 4 * K" using b(7) by simp
  then obtain a1 where a1: "binary64 (4 * maxHeight f) = Some a1"
    using binary64_defined [of "4 * maxHeight f" "4 * K"] K by auto
  show ?thesis
    by (simp add: flightPositionD_def X Y Z a1 assms(3) V3_eta)
qed

text \<open>
  At \<open>t = 1\<close> the arc is exactly zero; what is left on each axis is the rounding of
  \<open>start + (target - start)\<close>.
\<close>

lemma flightPositionD_end:
  assumes "flightPositionD f 1 = Some p"
  shows "\<bar>vx p - vx (targetPos f)\<bar>
           \<le> (\<bar>vx (startPos f)\<bar> + \<bar>vx (targetPos f)\<bar>) / 2 ^ 51 + 1 / 2 ^ 1073"
    and "\<bar>vz p - vz (targetPos f)\<bar>
           \<le> (\<bar>vz (startPos f)\<bar> + \<bar>vz (targetPos f)\<bar>) / 2 ^ 51 + 1 / 2 ^ 1073"
    and "\<bar>vy p - vy (targetPos f)\<bar>
           \<le> (\<bar>vy (startPos f)\<bar> + \<bar>vy (targetPos f)\<bar>) / 2 ^ 50 + 1 / 2 ^ 1072"
proof -
  from assms(1) obtain X Z Y nY where
    X: "LerpD (vx (startPos f)) (vx (targetPos f)) 1 = Some X" and
    Z: "LerpD (vz (startPos f)) (vz (targetPos f)) 1 = Some Z" and
    Y: "LerpD (vy (startPos f)) (vy (targetPos f)) 1 = Some Y" and
    nY: "binary64 Y = Some nY" and p: "p = V3 X nY Z"
    by (auto simp: flightPositionD_def bind_eq_Some_conv)
  show "\<bar>vx p - vx (targetPos f)\<bar>
           \<le> (\<bar>vx (startPos f)\<bar> + \<bar>vx (targetPos f)\<bar>) / 2 ^ 51 + 1 / 2 ^ 1073"
    using LerpD_error [OF X] by (simp add: p Lerp_def V3_def)
  show "\<bar>vz p - vz (targetPos f)\<bar>
           \<le> (\<bar>vz (startPos f)\<bar> + \<bar>vz (targetPos f)\<bar>) / 2 ^ 51 + 1 / 2 ^ 1073"
    using LerpD_error [OF Z] by (simp add: p Lerp_def V3_def)
  define M where "M = \<bar>vy (startPos f)\<bar> + \<bar>vy (targetPos f)\<bar>"
  define c where "c = M / 2 ^ 53 + 1 / 2 ^ 1075"
  have M: "0 \<le> M" by (simp add: M_def)
  have "\<bar>Y - vy (targetPos f)\<bar> \<le> M / 2 ^ 51 + 1 / 2 ^ 1073"
    using LerpD_error [OF Y] by (simp add: Lerp_def M_def)
  moreover have "4 * c = M / 2 ^ 51 + 1 / 2 ^ 1073" by (simp add: c_def)
  ultimately have EY: "\<bar>Y - vy (targetPos f)\<bar> \<le> 4 * c" by linarith
  moreover have "\<bar>vy (targetPos f)\<bar> \<le> M" by (simp add: M_def)
  ultimately have "\<bar>Y\<bar> \<le> M + 4 * c" by linarith
  then have "\<bar>nY - Y\<bar> \<le> (3 / 2) * c"
    unfolding c_def using binary64_step [OF nY _ _ M, of 4] by simp
  moreover have "0 \<le> c" using M by (simp add: c_def)
  ultimately have "\<bar>nY - vy (targetPos f)\<bar> \<le> 8 * c" using EY by linarith
  moreover have "8 * c = M / 2 ^ 50 + 1 / 2 ^ 1072" by (simp add: c_def)
  ultimately show "\<bar>vy p - vy (targetPos f)\<bar>
           \<le> (\<bar>vy (startPos f)\<bar> + \<bar>vy (targetPos f)\<bar>) / 2 ^ 50 + 1 / 2 ^ 1072"
    by (simp add: p V3_def M_def)
qed

text \<open>
  Where each difference \<open>target - start\<close> is itself a double, nothing is rounded at
  \<open>t = 1\<close> either.
\<close>

lemma flightPositionD_exact:
  assumes "flightBounded f"
    and "binary64 (vx (targetPos f) - vx (startPos f)) = Some (vx (targetPos f) - vx (startPos f))"
    and "binary64 (vy (targetPos f) - vy (startPos f)) = Some (vy (targetPos f) - vy (startPos f))"
    and "binary64 (vz (targetPos f) - vz (startPos f)) = Some (vz (targetPos f) - vz (startPos f))"
    and "binary64 (vx (targetPos f)) = Some (vx (targetPos f))"
    and "binary64 (vy (targetPos f)) = Some (vy (targetPos f))"
    and "binary64 (vz (targetPos f)) = Some (vz (targetPos f))"
  shows "flightPositionD f 1 = Some (targetPos f)"
proof -
  have "\<bar>maxHeight f\<bar> \<le> 2 ^ 1000" using assms(1) by (simp add: flightBounded_def)
  then obtain a1 a2 where a: "binary64 (4 * maxHeight f) = Some a1" "binary64 (a1 * 1) = Some a2"
    using arc_defined [of "maxHeight f" 1] by auto
  have X: "LerpD (vx (startPos f)) (vx (targetPos f)) 1 = Some (vx (targetPos f))"
    using assms(2,5) by (rule LerpD_exact)
  have Y: "LerpD (vy (startPos f)) (vy (targetPos f)) 1 = Some (vy (targetPos f))"
    using assms(3,6) by (rule LerpD_exact)
  have Z: "LerpD (vz (startPos f)) (vz (targetPos f)) 1 = Some (vz (targetPos f))"
    using assms(4,7) by (rule LerpD_exact)
  show ?thesis
    using a by (simp add: flightPositionD_def X Y Z assms(6) V3_eta)
qed

subsection \<open>A throw across the field, in double precision\<close>

lemma binary64_eval:
  fixes y :: real and n :: nat
  assumes "x = y / 2 ^ n" and "2 ^ 52 \<le> \<bar>y\<bar>" and "\<bar>y\<bar> < 2 ^ 53" and "n \<le> 1074"
    and "roundTiesToEven y = m" and "r = of_int m / 2 ^ n"
  shows "binary64 x = Some r"
  using binary64_scaled [OF assms(2-4)] assms(1,5,6) by simp

text \<open>
  The doubles that occur: \<open>0.3\<close> and \<open>16.5 + 0.3\<close> are rounded, and so is the
  difference \<open>-16.5 - 16.8\<close>, which lies halfway between two doubles.
\<close>

lemma edge_doubles:
  "binary64 (3 / 10) = Some (5404319552844595 / 2 ^ 54)"
  "binary64 (33 / 2 + 5404319552844595 / 2 ^ 54) = Some (4728779608739021 / 2 ^ 48)"
  "binary64 (4728779608739021 / 2 ^ 48) = Some (4728779608739021 / 2 ^ 48)"
  "binary64 (- (33 / 2) - 4728779608739021 / 2 ^ 48) = Some (- (4686558362232422 / 2 ^ 47))"
  "binary64 (- (4686558362232422 / 2 ^ 47)) = Some (- (4686558362232422 / 2 ^ 47))"
  "binary64 (4728779608739021 / 2 ^ 48 - 4686558362232422 / 2 ^ 47)
     = Some (- (4644337115725823 / 2 ^ 48))"
  "binary64 (- (4644337115725823 / 2 ^ 48)) = Some (- (4644337115725823 / 2 ^ 48))"
proof -
  show "binary64 (3 / 10) = Some (5404319552844595 / 2 ^ 54)"
    by (rule binary64_eval [of _ "27021597764222976 / 5" 54 5404319552844595])
       (simp_all add: roundTiesToEven_def)
  show "binary64 (33 / 2 + 5404319552844595 / 2 ^ 54) = Some (4728779608739021 / 2 ^ 48)"
    by (rule binary64_eval [of _ "302641894959297331 / 64" 48 4728779608739021])
       (simp_all add: roundTiesToEven_def)
  show "binary64 (4728779608739021 / 2 ^ 48) = Some (4728779608739021 / 2 ^ 48)"
    by (rule binary64_eval [of _ 4728779608739021 48 4728779608739021]) simp_all
  show "binary64 (- (33 / 2) - 4728779608739021 / 2 ^ 48)
          = Some (- (4686558362232422 / 2 ^ 47))"
    by (rule binary64_eval [of _ "- (9373116724464845 / 2)" 47 "- 4686558362232422"])
       (simp_all add: roundTiesToEven_def)
  show "binary64 (- (4686558362232422 / 2 ^ 47)) = Some (- (4686558362232422 / 2 ^ 47))"
    by (rule binary64_eval [of _ "- 4686558362232422" 47 "- 4686558362232422"]) simp_all
  show "binary64 (4728779608739021 / 2 ^ 48 - 4686558362232422 / 2 ^ 47)
          = Some (- (4644337115725823 / 2 ^ 48))"
    by (rule binary64_eval [of _ "- 4644337115725823" 48 "- 4644337115725823"]) simp_all
  show "binary64 (- (4644337115725823 / 2 ^ 48)) = Some (- (4644337115725823 / 2 ^ 48))"
    by (rule binary64_eval [of _ "- 4644337115725823" 48 "- 4644337115725823"]) simp_all
qed

lemma field_doubles:
  "binary64 (3 / 2) = Some (3 / 2)"
  "binary64 (- 6) = Some (- 6)"
  "binary64 (- (29 / 2)) = Some (- (29 / 2))"
  "binary64 (17 / 2) = Some (17 / 2)"
  "binary64 17 = Some 17"
  "binary64 (33 / 2) = Some (33 / 2)"
  "binary64 (- (33 / 2)) = Some (- (33 / 2))"
  "binary64 (- 33) = Some (- 33)"
proof -
  show "binary64 (3 / 2) = Some (3 / 2)"
    by (rule binary64_eval [of _ 6755399441055744 52 6755399441055744]) simp_all
  show "binary64 (- 6) = Some (- 6)"
    by (rule binary64_eval [of _ "- 6755399441055744" 50 "- 6755399441055744"]) simp_all
  show "binary64 (- (29 / 2)) = Some (- (29 / 2))"
    by (rule binary64_eval [of _ "- 8162774324609024" 49 "- 8162774324609024"]) simp_all
  show "binary64 (17 / 2) = Some (17 / 2)"
    by (rule binary64_eval [of _ 4785074604081152 49 4785074604081152]) simp_all
  show "binary64 17 = Some 17"
    by (rule binary64_eval [of _ 4785074604081152 48 4785074604081152]) simp_all
  show "binary64 (33 / 2) = Some (33 / 2)"
    by (rule binary64_eval [of _ 4644337115725824 48 4644337115725824]) simp_all
  show "binary64 (- (33 / 2)) = Some (- (33 / 2))"
    by (rule binary64_eval [of _ "- 4644337115725824" 48 "- 4644337115725824"]) simp_all
  show "binary64 (- 33) = Some (- 33)"
    by (rule binary64_eval [of _ "- 4644337115725824" 47 "- 4644337115725824"]) simp_all
qed

lemma edgeFlight_fields:
  "startPos edgeFlight = V3 (4728779608739021 / 2 ^ 48) 1.5 (- 14.5)"
  "targetPos edgeFlight = V3 (- 16.5) 1.5 (- 6)"
  "startTime edgeFlight = 10" "duration edgeFlight = 1" "maxHeight edgeFlight = 4.25"
  by (simp_all add: edgeFlight_def)

lemma straightFlight_fields:
  "startPos straightFlight = V3 16.5 1.5 (- 14.5)"
  "targetPos straightFlight = V3 (- 16.5) 1.5 (- 6)"
  "startTime straightFlight = 10" "duration straightFlight = 1" "maxHeight straightFlight = 4.25"
  by (simp_all add: straightFlight_def edgeFlight_def)

lemma edgeFlight_bounded: "flightBounded edgeFlight" "flightBounded straightFlight"
  by (simp_all add: flightBounded_def edgeFlight_fields straightFlight_fields V3_def)

lemma edgeFlight_end:
  "flightPositionD edgeFlight 1 = Some (V3 (- (4644337115725823 / 2 ^ 48)) 1.5 (- 6))"
  using edge_doubles field_doubles
  by (simp add: flightPositionD_def LerpD_def edgeFlight_fields V3_def)

lemma edgeFlightWorld_fields:
  "ballThrownRef edgeFlightWorld" "ballFlightRef edgeFlightWorld = Some edgeFlight"
  "ballThrownRef straightFlightWorld" "ballFlightRef straightFlightWorld = Some straightFlight"
  by (simp_all add: edgeFlightWorld_def straightFlightWorld_def exampleFlightWorld_def
      commitRender_def startGame_def)

section \<open>The claims\<close>

text \<open>
  C7, as amended. For a flight record with a positive duration, read at a clock value not
  before the throw, the interpolation parameter is \<open>elapsed / duration\<close> clamped to
  \<open>[0, 1]\<close>. In exact arithmetic the ball is put at the linear interpolation of start and
  target on the x and z axes, and at the linear interpolation of the two heights plus the
  arc \<open>4 * maxHeight * t * (1 - t)\<close> on the y axis; at \<open>t = 0\<close> that is the start
  position. (The source takes only the minimum with 1; the clock \<open>performance.now()\<close>
  never runs backwards, so the elapsed time is never negative. The peak height plays no
  part in the argument.)

  The program computes the same expressions in double precision. For a flight whose
  coordinates are far from the overflow threshold that computation yields a position for
  every \<open>t\<close> in \<open>[0, 1]\<close>, and the position is the exact one up to rounding: within
  \<open>(\<bar>start\<bar> + \<bar>target\<bar>) / 2\<^sup>5\<^sup>1 + 2\<^sup>-\<^sup>1\<^sup>0\<^sup>7\<^sup>3\<close> on the x and z axes and within
  \<open>(\<bar>start\<bar> + \<bar>target\<bar> + 4 \<bar>maxHeight\<bar>) / 2\<^sup>4\<^sup>9 + 2\<^sup>-\<^sup>1\<^sup>0\<^sup>7\<^sup>1\<close> on the y axis. At \<open>t = 0\<close>
  it is the start position exactly. At \<open>t = 1\<close> the arc is zero and the position is the
  target up to the rounding of \<open>start + (target - start)\<close>: within
  \<open>(\<bar>start\<bar> + \<bar>target\<bar>) / 2\<^sup>5\<^sup>1 + 2\<^sup>-\<^sup>1\<^sup>0\<^sup>7\<^sup>3\<close> on the x and z axes and twice that on the y
  axis, and exactly the target where each difference \<open>target - start\<close> is a double.
\<close>

theorem ball_flight_interpolation:
  assumes "duration f > 0" and "startTime f \<le> now2"
    and "ballThrownRef w" and "ballFlightRef w = Some f"
  shows "flightParameter now2 f = max 0 (min ((now2 - startTime f) / duration f) 1)
       \<and> ballPosition (ballFlightPhase now2 rnd w) = flightPosition f (flightParameter now2 f)
       \<and> (\<forall>t. vx (flightPosition f t) = vx (startPos f) + (vx (targetPos f) - vx (startPos f)) * t
              \<and> vz (flightPosition f t) = vz (startPos f) + (vz (targetPos f) - vz (startPos f)) * t
              \<and> vy (flightPosition f t) =
                  (vy (startPos f) + (vy (targetPos f) - vy (startPos f)) * t)
                  + 4 * maxHeight f * t * (1 - t))
       \<and> flightPosition f 0 = startPos f
       \<and> (flightBounded f \<longrightarrow> (\<forall>t. 0 \<le> t \<and> t \<le> 1 \<longrightarrow> (\<exists>p. flightPositionD f t = Some p)))
       \<and> (\<forall>t p. 0 \<le> t \<and> t \<le> 1 \<and> flightPositionD f t = Some p \<longrightarrow>
              \<bar>vx p - vx (flightPosition f t)\<bar>
                \<le> (\<bar>vx (startPos f)\<bar> + \<bar>vx (targetPos f)\<bar>) / 2 ^ 51 + 1 / 2 ^ 1073
              \<and> \<bar>vz p - vz (flightPosition f t)\<bar>
                \<le> (\<bar>vz (startPos f)\<bar> + \<bar>vz (targetPos f)\<bar>) / 2 ^ 51 + 1 / 2 ^ 1073
              \<and> \<bar>vy p - vy (flightPosition f t)\<bar>
                \<le> (\<bar>vy (startPos f)\<bar> + \<bar>vy (targetPos f)\<bar> + 4 * \<bar>maxHeight f\<bar>) / 2 ^ 49
                    + 1 / 2 ^ 1071)
       \<and> (flightBounded f
            \<and> binary64 (vx (startPos f)) = Some (vx (startPos f))
            \<and> binary64 (vy (startPos f)) = Some (vy (startPos f))
            \<and> binary64 (vz (startPos f)) = Some (vz (startPos f))
            \<longrightarrow> flightPositionD f 0 = Some (startPos f))
       \<and> (\<forall>p. flightPositionD f 1 = Some p \<longrightarrow>
              \<bar>vx p - vx (targetPos f)\<bar>
                \<le> (\<bar>vx (startPos f)\<bar> + \<bar>vx (targetPos f)\<bar>) / 2 ^ 51 + 1 / 2 ^ 1073
              \<and> \<bar>vz p - vz (targetPos f)\<bar>
                \<le> (\<bar>vz (startPos f)\<bar> + \<bar>vz (targetPos f)\<bar>) / 2 ^ 51 + 1 / 2 ^ 1073
              \<and> \<bar>vy p - vy (targetPos f)\<bar>
                \<le> (\<bar>vy (startPos f)\<bar> + \<bar>vy (targetPos f)\<bar>) / 2 ^ 50 + 1 / 2 ^ 1072)
       \<and> (flightBounded f
            \<and> binary64 (vx (targetPos f) - vx (startPos f)) = Some (vx (targetPos f) - vx (startPos f))
            \<and> binary64 (vy (targetPos f) - vy (startPos f)) = Some (vy (targetPos f) - vy (startPos f))
            \<and> binary64 (vz (targetPos f) - vz (startPos f)) = Some (vz (targetPos f) - vz (startPos f))
            \<and> binary64 (vx (targetPos f)) = Some (vx (targetPos f))
            \<and> binary64 (vy (targetPos f)) = Some (vy (targetPos f))
            \<and> binary64 (vz (targetPos f)) = Some (vz (targetPos f))
            \<longrightarrow> flightPositionD f 1 = Some (targetPos f))"
proof (intro conjI)
  show "flightParameter now2 f = max 0 (min ((now2 - startTime f) / duration f) 1)"
    using assms(1,2) by (rule flightParameter_clamp)
  show "ballPosition (ballFlightPhase now2 rnd w) = flightPosition f (flightParameter now2 f)"
    using assms(3,4) by (rule ballFlightPhase_ballPosition)
  show "\<forall>t. vx (flightPosition f t) = vx (startPos f) + (vx (targetPos f) - vx (startPos f)) * t
              \<and> vz (flightPosition f t) = vz (startPos f) + (vz (targetPos f) - vz (startPos f)) * t
              \<and> vy (flightPosition f t) =
                  (vy (startPos f) + (vy (targetPos f) - vy (startPos f)) * t)
                  + 4 * maxHeight f * t * (1 - t)"
    using flightPosition_components by blast
  show "flightPosition f 0 = startPos f" by (rule flightPosition_start)
  show "flightBounded f \<longrightarrow> (\<forall>t. 0 \<le> t \<and> t \<le> 1 \<longrightarrow> (\<exists>p. flightPositionD f t = Some p))"
    using flightPositionD_defined by blast
  show "\<forall>t p. 0 \<le> t \<and> t \<le> 1 \<and> flightPositionD f t = Some p \<longrightarrow>
              \<bar>vx p - vx (flightPosition f t)\<bar>
                \<le> (\<bar>vx (startPos f)\<bar> + \<bar>vx (targetPos f)\<bar>) / 2 ^ 51 + 1 / 2 ^ 1073
              \<and> \<bar>vz p - vz (flightPosition f t)\<bar>
                \<le> (\<bar>vz (startPos f)\<bar> + \<bar>vz (targetPos f)\<bar>) / 2 ^ 51 + 1 / 2 ^ 1073
              \<and> \<bar>vy p - vy (flightPosition f t)\<bar>
                \<le> (\<bar>vy (startPos f)\<bar> + \<bar>vy (targetPos f)\<bar> + 4 * \<bar>maxHeight f\<bar>) / 2 ^ 49
                    + 1 / 2 ^ 1071"
    using flightPositionD_error by blast
  show "flightBounded f
            \<and> binary64 (vx (startPos f)) = Some (vx (startPos f))
            \<and> binary64 (vy (startPos f)) = Some (vy (startPos f))
            \<and> binary64 (vz (startPos f)) = Some (vz (startPos f))
            \<longrightarrow> flightPositionD f 0 = Some (startPos f)"
    using flightPositionD_start by blast
  show "\<forall>p. flightPositionD f 1 = Some p \<longrightarrow>
              \<bar>vx p - vx (targetPos f)\<bar>
                \<le> (\<bar>vx (startPos f)\<bar> + \<bar>vx (targetPos f)\<bar>) / 2 ^ 51 + 1 / 2 ^ 1073
              \<and> \<bar>vz p - vz (targetPos f)\<bar>
                \<le> (\<bar>vz (startPos f)\<bar> + \<bar>vz (targetPos f)\<bar>) / 2 ^ 51 + 1 / 2 ^ 1073
              \<and> \<bar>vy p - vy (targetPos f)\<bar>
                \<le> (\<bar>vy (startPos f)\<bar> + \<bar>vy (targetPos f)\<bar>) / 2 ^ 50 + 1 / 2 ^ 1072"
    using flightPositionD_end by blast
  show "flightBounded f
            \<and> binary64 (vx (targetPos f) - vx (startPos f)) = Some (vx (targetPos f) - vx (startPos f))
            \<and> binary64 (vy (targetPos f) - vy (startPos f)) = Some (vy (targetPos f) - vy (startPos f))
            \<and> binary64 (vz (targetPos f) - vz (startPos f)) = Some (vz (targetPos f) - vz (startPos f))
            \<and> binary64 (vx (targetPos f)) = Some (vx (targetPos f))
            \<and> binary64 (vy (targetPos f)) = Some (vy (targetPos f))
            \<and> binary64 (vz (targetPos f)) = Some (vz (targetPos f))
            \<longrightarrow> flightPositionD f 1 = Some (targetPos f)"
    using flightPositionD_exact by blast
qed

theorem ball_flight_interpolation_witness:
  "duration edgeFlight > 0 \<and> startTime edgeFlight \<le> 11
   \<and> ballThrownRef edgeFlightWorld \<and> ballFlightRef edgeFlightWorld = Some edgeFlight
   \<and> flightParameter 11 edgeFlight = 1
   \<and> ballPosition (ballFlightPhase 11 0 edgeFlightWorld) = flightPosition edgeFlight 1
   \<and> flightBounded edgeFlight
   \<and> (\<exists>p. flightPositionD edgeFlight (1 / 2) = Some p)
   \<and> binary64 (vx (startPos edgeFlight)) = Some (vx (startPos edgeFlight))
   \<and> binary64 (vy (startPos edgeFlight)) = Some (vy (startPos edgeFlight))
   \<and> binary64 (vz (startPos edgeFlight)) = Some (vz (startPos edgeFlight))
   \<and> flightPositionD edgeFlight 0 = Some (startPos edgeFlight)
   \<and> flightPositionD edgeFlight 1 = Some (V3 (- (4644337115725823 / 2 ^ 48)) 1.5 (- 6))
   \<and> \<bar>- (4644337115725823 / 2 ^ 48) - vx (flightPosition edgeFlight 1)\<bar>
        \<le> (\<bar>vx (startPos edgeFlight)\<bar> + \<bar>vx (targetPos edgeFlight)\<bar>) / 2 ^ 51 + 1 / 2 ^ 1073
   \<and> \<bar>- (4644337115725823 / 2 ^ 48) - vx (targetPos edgeFlight)\<bar>
        \<le> (\<bar>vx (startPos edgeFlight)\<bar> + \<bar>vx (targetPos edgeFlight)\<bar>) / 2 ^ 51 + 1 / 2 ^ 1073
   \<and> duration straightFlight > 0 \<and> startTime straightFlight \<le> 11
   \<and> ballThrownRef straightFlightWorld
   \<and> ballFlightRef straightFlightWorld = Some straightFlight
   \<and> flightBounded straightFlight
   \<and> binary64 (vx (targetPos straightFlight) - vx (startPos straightFlight))
        = Some (vx (targetPos straightFlight) - vx (startPos straightFlight))
   \<and> binary64 (vy (targetPos straightFlight) - vy (startPos straightFlight))
        = Some (vy (targetPos straightFlight) - vy (startPos straightFlight))
   \<and> binary64 (vz (targetPos straightFlight) - vz (startPos straightFlight))
        = Some (vz (targetPos straightFlight) - vz (startPos straightFlight))
   \<and> binary64 (vx (targetPos straightFlight)) = Some (vx (targetPos straightFlight))
   \<and> binary64 (vy (targetPos straightFlight)) = Some (vy (targetPos straightFlight))
   \<and> binary64 (vz (targetPos straightFlight)) = Some (vz (targetPos straightFlight))
   \<and> flightPositionD straightFlight 1 = Some (targetPos straightFlight)"
proof -
  have h: "duration edgeFlight > 0" "startTime edgeFlight \<le> 11"
    "ballThrownRef edgeFlightWorld" "ballFlightRef edgeFlightWorld = Some edgeFlight"
    by (simp_all add: edgeFlight_fields edgeFlightWorld_fields)
  have h': "duration straightFlight > 0" "startTime straightFlight \<le> 11"
    "ballThrownRef straightFlightWorld" "ballFlightRef straightFlightWorld = Some straightFlight"
    by (simp_all add: straightFlight_fields edgeFlightWorld_fields)
  note T = ball_flight_interpolation [OF h, of 0]
  note T' = ball_flight_interpolation [OF h', of 0]
  have t: "max 0 (min ((11 - startTime edgeFlight) / duration edgeFlight) 1) = (1::real)"
    by (simp add: edgeFlight_fields)
  have a: "flightParameter 11 edgeFlight = 1"
    using T [THEN conjunct1] unfolding t .
  have b: "ballPosition (ballFlightPhase 11 0 edgeFlightWorld) = flightPosition edgeFlight 1"
    using T [THEN conjunct2, THEN conjunct1] unfolding a .
  have s: "binary64 (vx (startPos edgeFlight)) = Some (vx (startPos edgeFlight))"
    "binary64 (vy (startPos edgeFlight)) = Some (vy (startPos edgeFlight))"
    "binary64 (vz (startPos edgeFlight)) = Some (vz (startPos edgeFlight))"
    using edge_doubles(3) field_doubles(1,3) by (simp_all add: edgeFlight_fields V3_def)
  have c: "\<exists>p. flightPositionD edgeFlight (1 / 2) = Some p"
    using T [THEN conjunct2, THEN conjunct2, THEN conjunct2, THEN conjunct2, THEN conjunct1]
      edgeFlight_bounded(1) by simp
  have e: "\<bar>vx (V3 (- (4644337115725823 / 2 ^ 48)) 1.5 (- 6)) - vx (flightPosition edgeFlight 1)\<bar>
        \<le> (\<bar>vx (startPos edgeFlight)\<bar> + \<bar>vx (targetPos edgeFlight)\<bar>) / 2 ^ 51 + 1 / 2 ^ 1073"
    using T [THEN conjunct2, THEN conjunct2, THEN conjunct2, THEN conjunct2, THEN conjunct2,
        THEN conjunct1, rule_format, of 1, OF conjI [OF _ conjI [OF _ edgeFlight_end]]]
    by simp
  have d0: "flightPositionD edgeFlight 0 = Some (startPos edgeFlight)"
    using T [THEN conjunct2, THEN conjunct2, THEN conjunct2, THEN conjunct2, THEN conjunct2,
        THEN conjunct2, THEN conjunct1] edgeFlight_bounded(1) s by blast
  have d1: "\<bar>vx (V3 (- (4644337115725823 / 2 ^ 48)) 1.5 (- 6)) - vx (targetPos edgeFlight)\<bar>
        \<le> (\<bar>vx (startPos edgeFlight)\<bar> + \<bar>vx (targetPos edgeFlight)\<bar>) / 2 ^ 51 + 1 / 2 ^ 1073"
    using T [THEN conjunct2, THEN conjunct2, THEN conjunct2, THEN conjunct2, THEN conjunct2,
        THEN conjunct2, THEN conjunct2, THEN conjunct1, rule_format, OF edgeFlight_end]
    by simp
  have vx: "vx (V3 (- (4644337115725823 / 2 ^ 48)) 1.5 (- 6)) = - (4644337115725823 / 2 ^ 48)"
    by (simp add: V3_def)
  have x: "binary64 (vx (targetPos straightFlight) - vx (startPos straightFlight))
        = Some (vx (targetPos straightFlight) - vx (startPos straightFlight))"
    "binary64 (vy (targetPos straightFlight) - vy (startPos straightFlight))
        = Some (vy (targetPos straightFlight) - vy (startPos straightFlight))"
    "binary64 (vz (targetPos straightFlight) - vz (startPos straightFlight))
        = Some (vz (targetPos straightFlight) - vz (startPos straightFlight))"
    "binary64 (vx (targetPos straightFlight)) = Some (vx (targetPos straightFlight))"
    "binary64 (vy (targetPos straightFlight)) = Some (vy (targetPos straightFlight))"
    "binary64 (vz (targetPos straightFlight)) = Some (vz (targetPos straightFlight))"
    using field_doubles by (simp_all add: straightFlight_fields V3_def)
  have d1x: "flightPositionD straightFlight 1 = Some (targetPos straightFlight)"
    using T' [THEN conjunct2, THEN conjunct2, THEN conjunct2, THEN conjunct2, THEN conjunct2,
        THEN conjunct2, THEN conjunct2, THEN conjunct2] edgeFlight_bounded(2) x by blast
  show ?thesis
    using h h' a b edgeFlight_bounded c s d0 edgeFlight_end e [unfolded vx] d1 [unfolded vx] x d1x
    by blast
qed

text \<open>
  C7 as stated fails: its last clause, that at \<open>t = 1\<close> the position equals the target
  exactly, does not hold in the arithmetic the program uses. With the QB at the right
  edge of the pocket and the target at the left edge, the ball leaves from
  \<open>x = 16.5 + 0.3\<close>, which is the double \<open>4728779608739021 / 2\<^sup>4\<^sup>8\<close>. The difference \<open>-16.5 - start\<close> lies halfway
  between two doubles and is rounded to the even one, and \<open>start + difference\<close> comes out
  as \<open>-16.5 + 2\<^sup>-\<^sup>4\<^sup>8\<close>, printed by JavaScript as \<open>-16.499999999999996\<close>. The flight has a
  positive duration and a positive peak height.
\<close>

theorem ball_misses_target_counterexample:
  "duration edgeFlight > 0 \<and> maxHeight edgeFlight \<ge> 0
   \<and> binary64 (3 / 10) = Some (5404319552844595 / 2 ^ 54)
   \<and> binary64 (16.5 + 5404319552844595 / 2 ^ 54) = Some (vx (startPos edgeFlight))
   \<and> targetPos edgeFlight = V3 (- 16.5) 1.5 (- 6)
   \<and> flightPositionD edgeFlight 1 = Some (V3 (- 16.5 + 1 / 2 ^ 48) 1.5 (- 6))
   \<and> flightPositionD edgeFlight 1 \<noteq> Some (targetPos edgeFlight)"
proof -
  have "binary64 (16.5 + 5404319552844595 / 2 ^ 54) = Some (vx (startPos edgeFlight))"
    using edge_doubles(2) by (simp add: edgeFlight_fields V3_def)
  moreover have e: "flightPositionD edgeFlight 1 = Some (V3 (- 16.5 + 1 / 2 ^ 48) 1.5 (- 6))"
    using edgeFlight_end by simp
  moreover have "flightPositionD edgeFlight 1 \<noteq> Some (targetPos edgeFlight)"
    unfolding e by (simp add: edgeFlight_fields V3_def)
  ultimately show ?thesis
    using edge_doubles(1) by (simp add: edgeFlight_fields)
qed

text \<open>
  C8. Every outcome handler leaves the latch \<open>playEndedRef\<close> set, and with the latch
  set every outcome handler returns the world unchanged. So whichever handler runs
  first in a play, a second trigger (in the same frame or later, before the play is
  reset) changes nothing.
\<close>

theorem one_outcome_per_play:
  "\<forall>h1 \<in> set outcomeHandlers. \<forall>h2 \<in> set outcomeHandlers.
     playEndedRef (h1 w) \<and> h2 (h1 w) = h1 w \<and> (playEndedRef w \<longrightarrow> h1 w = w)"
  using handler_latched handler_sets_latch by blast

theorem one_outcome_per_play_witness:
  "handleIncomplete (handleSack (initialWorld 0)) = handleSack (initialWorld 0)
   \<and> playEndedRef (handleSack (initialWorld 0))"
  using one_outcome_per_play [of "initialWorld 0"]
  by (simp add: outcomeHandlers_def)



text \<open>
  C10. \<open>resetPlay\<close> sets the \<open>isOpen\<close> flag of every receiver to true, whatever
  the world was, and keeps the two receivers. The flag is computed from a distance
  only in the corner's update: the corner with index \<open>i\<close> sets the flag of receiver
  \<open>i - 2\<close> to whether its own new position is more than 4 away from him.
\<close>

theorem reset_opens_receivers:
  "(\<forall>r \<in> set (receiversRef (resetPlay w)). isOpen r)
   \<and> (length (receiversRef w) = 2 \<longrightarrow> length (receiversRef (resetPlay w)) = 2)
   \<and> (\<forall>i delta. i < length (defendersRef w) \<and> target (defendersRef w ! i) = Corner
          \<and> 2 \<le> i \<and> i - 2 < length (receiversRef w) \<longrightarrow>
        isOpen (receiversRef (defenderStep delta i w) ! (i - 2))
          = (Distance (defPosition (defendersRef (defenderStep delta i w) ! i))
               (groupPosition (receiversRef w ! (i - 2))) > 4))"
  using resetPlay_receivers_open resetPlay_receivers_length defenderStep_corner_isOpen
  by blast

theorem reset_opens_receivers_witness:
  "\<not> isOpen (receiversRef (defenderStep 0 2 coveredWorld) ! 0)
   \<and> length (receiversRef (resetPlay (defenderStep 0 2 coveredWorld))) = 2
   \<and> isOpen (receiversRef (resetPlay (defenderStep 0 2 coveredWorld)) ! 0)
   \<and> isOpen (receiversRef (resetPlay (defenderStep 0 2 coveredWorld)) ! 1)"
proof -
  have h: "2 < length (defendersRef coveredWorld) \<and> target (defendersRef coveredWorld ! 2) = Corner
           \<and> (2::nat) \<le> 2 \<and> 2 - 2 < length (receiversRef coveredWorld)"
    by (simp add: coveredWorld_def initialWorld_def)
  have d: "Distance (V3 (- 13.5) 0 (- 7)) (groupPosition (receiversRef coveredWorld ! (2 - 2))) = 3"
    by (simp add: coveredWorld_def initialWorld_def Distance_def subtract_def vlength_def
        FIELD_HALF_WIDTH_def FIELD_WIDTH_def sqrt_9)
  have a: "\<not> isOpen (receiversRef (defenderStep 0 2 coveredWorld) ! 0)"
  proof -
    have "isOpen (receiversRef (defenderStep 0 2 coveredWorld) ! (2 - 2))
          = (Distance (defPosition (defendersRef (defenderStep 0 2 coveredWorld) ! 2))
               (groupPosition (receiversRef coveredWorld ! (2 - 2))) > 4)"
      using reset_opens_receivers [of coveredWorld] h by blast
    then show ?thesis
      unfolding coveredWorld_step d by simp
  qed
  have l: "length (receiversRef (defenderStep 0 2 coveredWorld)) = 2"
    by (simp add: coveredWorld_def initialWorld_def defenderStep_def Let_def)
  have r: "length (receiversRef (resetPlay (defenderStep 0 2 coveredWorld))) = 2"
    "\<forall>r \<in> set (receiversRef (resetPlay (defenderStep 0 2 coveredWorld))). isOpen r"
    using l reset_opens_receivers [of "defenderStep 0 2 coveredWorld"] by blast+
  have "receiversRef (resetPlay (defenderStep 0 2 coveredWorld)) ! 0
          \<in> set (receiversRef (resetPlay (defenderStep 0 2 coveredWorld)))"
    "receiversRef (resetPlay (defenderStep 0 2 coveredWorld)) ! 1
          \<in> set (receiversRef (resetPlay (defenderStep 0 2 coveredWorld)))"
    using r(1) by simp_all
  then show ?thesis
    using a r by blast
qed

text \<open>
  C2, as amended. A catch with the latch clear, at a position \<open>z\<close> at or beyond the
  first-down marker the code reads and short of \<open>ENDZONE_Z - 3\<close>, moves the line of
  scrimmage ref to \<open>z\<close> at once and schedules one callback; whenever that callback
  runs it sets the line of scrimmage to \<open>z\<close>, the first-down marker to
  \<open>min (z + 10) (ENDZONE_Z - 1)\<close>, the down to 1 and the yards to go to
  \<open>min 10 (ENDZONE_Z - z)\<close> rounded to the nearest whole number, and resets the play.
  The rounding changes nothing when \<open>z \<le> 15\<close> or \<open>z\<close> is a whole number.
\<close>

theorem first_down_transition:
  assumes "\<not> playEndedRef w"
    and "firstDownMarker (gameStateRef w) \<le> vz (ballPosition w)"
    and "vz (ballPosition w) < ENDZONE_Z - 3"
    and "z = vz (ballPosition w)"
    and "T = FirstDownReset (Math_round (min 10 (ENDZONE_Z - z))) z (min (z + 10) (ENDZONE_Z - 1))"
  shows "timeouts (handleCatch w) = timeouts w @ [T]
       \<and> lineOfScrimmageRef (handleCatch w) = z
       \<and> (\<forall>w2. lineOfScrimmage (gameState (runTimeout T w2)) = z
             \<and> firstDownMarker (gameState (runTimeout T w2)) = min (z + 10) (ENDZONE_Z - 1)
             \<and> yardsToGo (gameState (runTimeout T w2)) = Math_round (min 10 (ENDZONE_Z - z))
             \<and> downs (gameState (runTimeout T w2)) = 1
             \<and> \<not> playEndedRef (runTimeout T w2))
       \<and> (z \<le> 15 \<or> z \<in> \<int> \<longrightarrow>
            Math_round (min 10 (ENDZONE_Z - z)) = min 10 (ENDZONE_Z - z))"
proof -
  have "3 < min 10 (ENDZONE_Z - z)"
    using assms(3,4) by (simp add: ENDZONE_Z_def)
  then have y: "max 1 (Math_round (min 10 (ENDZONE_Z - z))) = Math_round (min 10 (ENDZONE_Z - z))"
    using round_ge_3 by (simp add: max_def)
  have a: "timeouts (handleCatch w) = timeouts w @ [T]"
    "lineOfScrimmageRef (handleCatch w) = z"
    by (simp_all add: handleCatch_first_down [OF assms(1-3)] assms(4,5))
  have b: "\<And>w2. lineOfScrimmage (gameState (runTimeout T w2)) = z
                 \<and> firstDownMarker (gameState (runTimeout T w2)) = min (z + 10) (ENDZONE_Z - 1)
                 \<and> yardsToGo (gameState (runTimeout T w2)) = Math_round (min 10 (ENDZONE_Z - z))
                 \<and> downs (gameState (runTimeout T w2)) = 1
                 \<and> \<not> playEndedRef (runTimeout T w2)"
    unfolding assms(5) by (simp add: y)
  show ?thesis using a b yards_unrounded by blast
qed

theorem first_down_transition_witness:
  "timeouts (handleCatch scenarioAWorld) = [FirstDownReset 10 0 10]
   \<and> lineOfScrimmageRef (handleCatch scenarioAWorld) = 0
   \<and> lineOfScrimmage (gameState (runTimeout (FirstDownReset 10 0 10) (handleCatch scenarioAWorld))) = 0
   \<and> firstDownMarker (gameState (runTimeout (FirstDownReset 10 0 10) (handleCatch scenarioAWorld))) = 10
   \<and> yardsToGo (gameState (runTimeout (FirstDownReset 10 0 10) (handleCatch scenarioAWorld))) = 10
   \<and> downs (gameState (runTimeout (FirstDownReset 10 0 10) (handleCatch scenarioAWorld))) = 1"
proof -
  have h: "\<not> playEndedRef scenarioAWorld"
    "firstDownMarker (gameStateRef scenarioAWorld) \<le> vz (ballPosition scenarioAWorld)"
    "vz (ballPosition scenarioAWorld) < ENDZONE_Z - 3"
    "0 = vz (ballPosition scenarioAWorld)"
    "FirstDownReset 10 0 10
       = FirstDownReset (Math_round (min 10 (ENDZONE_Z - 0))) 0 (min (0 + 10) (ENDZONE_Z - 1))"
    by (simp_all add: scenarioAWorld_def kickoffWorld_fields newGameState_def ENDZONE_Z_def
        Math_round_def)
  have e: "timeouts scenarioAWorld = []"
    by (simp add: scenarioAWorld_def kickoffWorld_fields)
  have r: "Math_round (min 10 (ENDZONE_Z - 0)) = 10" "min (0 + 10) (ENDZONE_Z - 1) = (10::real)"
    by (simp_all add: Math_round_def ENDZONE_Z_def)
  show ?thesis
    using first_down_transition [OF h] unfolding e r by simp
qed

text \<open>
  C2 as stated fails: on the first play (marker at \<open>-5\<close>) a catch at \<open>z = 17.5\<close> is
  a first down, and the yards to go become 8, not \<open>min 10 (25 - 17.5) = 7.5\<close>.
\<close>

theorem first_down_yards_counterexample:
  "\<not> playEndedRef deepCatchWorld
   \<and> firstDownMarker (gameStateRef deepCatchWorld) \<le> vz (ballPosition deepCatchWorld)
   \<and> vz (ballPosition deepCatchWorld) < ENDZONE_Z - 3
   \<and> yardsToGo (gameState (fireTimeout 0 (handleCatch deepCatchWorld))) = 8
   \<and> min 10 (ENDZONE_Z - vz (ballPosition deepCatchWorld)) = 15 / 2"
  by (simp add: deepCatchWorld_def kickoffWorld_fields newGameState_def ENDZONE_Z_def
      handleCatch_def Let_def fireTimeout_def Math_round_def round_def)

text \<open>
  C3. The code does not do what the claim says. \<open>handleCatch\<close> sets the latch and only
  then schedules \<open>handleTouchdown\<close>, whose first statement returns when the latch is
  set. So for every world the scheduled call changes nothing; on the first play, with
  the ball caught at \<open>z = 23\<close>, the score stays 0, the status stays \<open>playing\<close>, the
  message stays \<open>COMPLETE!\<close>, and no callback is left that could reset the play or
  end the game.
\<close>

theorem touchdown_blocked_by_latch:
  "(\<forall>w. handleTouchdown (handleCatch w) = handleCatch w)
   \<and> vz (ballPosition touchdownCatchWorld) = 23
   \<and> \<not> playEndedRef touchdownCatchWorld
   \<and> timeouts (handleCatch touchdownCatchWorld) = [CallHandleTouchdown]
   \<and> fireTimeout 0 (handleCatch touchdownCatchWorld)
       = (handleCatch touchdownCatchWorld)\<lparr>timeouts := []\<rparr>
   \<and> score (gameState (fireTimeout 0 (handleCatch touchdownCatchWorld))) = 0
   \<and> gameStatus (gameState (fireTimeout 0 (handleCatch touchdownCatchWorld))) = Playing
   \<and> message (gameState (fireTimeout 0 (handleCatch touchdownCatchWorld))) = Text ''COMPLETE!''
   \<and> playEndedRef (fireTimeout 0 (handleCatch touchdownCatchWorld))"
proof -
  have g: "\<And>w. handleTouchdown (handleCatch w) = handleCatch w"
    using handler_latched [of handleTouchdown] handler_sets_latch [of handleCatch]
    by (simp add: outcomeHandlers_def)
  have c: "handleCatch touchdownCatchWorld =
             setTimeout CallHandleTouchdown
               (setGameState (\<lambda>prev. prev\<lparr>message := Text ''COMPLETE!''\<rparr>)
                  (touchdownCatchWorld\<lparr>playEndedRef := True\<rparr>))"
    by (simp add: handleCatch_def Let_def touchdownCatchWorld_def kickoffWorld_fields
        ENDZONE_Z_def)
  have f: "vz (ballPosition touchdownCatchWorld) = 23" "\<not> playEndedRef touchdownCatchWorld"
    "timeouts touchdownCatchWorld = []"
    "score (gameState touchdownCatchWorld) = 0"
    "gameStatus (gameState touchdownCatchWorld) = Playing"
    by (simp_all add: touchdownCatchWorld_def kickoffWorld_fields newGameState_def)
  show ?thesis
    using g f unfolding c
    by (simp add: fireTimeout_def handleTouchdown_def setTimeout_def setGameState_def)
qed

text \<open>
  C6, as amended. While the ball is not thrown, the QB update leaves the QB with
  \<open>x\<close> in \<open>[-FIELD_HALF_WIDTH + 1, FIELD_HALF_WIDTH - 1]\<close> and \<open>z\<close> in
  \<open>[FIELD_MIN_Z + 2, -10]\<close>, for every frame time and every input. The upper bound
  is the constant \<open>-10\<close>, so the QB is at or behind the line of scrimmage only when
  that line is at \<open>-10\<close> or beyond.
\<close>

theorem qb_stays_in_pocket:
  assumes "\<not> ballThrownRef w"
  shows "- FIELD_HALF_WIDTH + 1 \<le> vx (qbPosition (qbPhase delta w))
       \<and> vx (qbPosition (qbPhase delta w)) \<le> FIELD_HALF_WIDTH - 1
       \<and> FIELD_MIN_Z + 2 \<le> vz (qbPosition (qbPhase delta w))
       \<and> vz (qbPosition (qbPhase delta w)) \<le> - 10
       \<and> (- 10 \<le> lineOfScrimmageRef w \<longrightarrow>
            vz (qbPosition (qbPhase delta w)) \<le> lineOfScrimmageRef (qbPhase delta w))"
proof -
  have "lineOfScrimmageRef (qbPhase delta w) = lineOfScrimmageRef w"
    using assms by (simp add: qbPhase_def Let_def split del: if_split)
  then show ?thesis
    using qbPhase_pocket [OF assms, of delta] by simp
qed

theorem qb_stays_in_pocket_witness:
  "\<not> ballThrownRef kickoffWorld
   \<and> qbPosition (qbPhase 1 kickoffWorld) = V3 0 0 (- 12)
   \<and> - FIELD_HALF_WIDTH + 1 \<le> vx (qbPosition (qbPhase 1 kickoffWorld))
   \<and> vz (qbPosition (qbPhase 1 kickoffWorld)) \<le> - 10"
proof -
  have h: "\<not> ballThrownRef kickoffWorld"
    by (simp add: kickoffWorld_fields)
  show ?thesis
    using h qb_stays_in_pocket [OF h, of 1] by (simp add: qbPhase_kickoff)
qed

text \<open>
  C6 as stated fails: on the first play the line of scrimmage is at \<open>-15\<close>; with the
  stick fully forward, a one-second frame takes the QB from \<open>z = -18\<close> to
  \<open>z = -12\<close>, past the line.
\<close>

theorem qb_passes_line_of_scrimmage_counterexample:
  "\<not> ballThrownRef kickoffWorld
   \<and> \<bar>fst (joystickRef kickoffWorld)\<bar> \<le> 1 \<and> \<bar>snd (joystickRef kickoffWorld)\<bar> \<le> 1
   \<and> lineOfScrimmageRef (qbPhase 1 kickoffWorld) = - 15
   \<and> lineOfScrimmage (gameState (qbPhase 1 kickoffWorld)) = - 15
   \<and> vz (qbPosition (qbPhase 1 kickoffWorld)) = - 12
   \<and> \<not> vz (qbPosition (qbPhase 1 kickoffWorld)) \<le> lineOfScrimmageRef (qbPhase 1 kickoffWorld)"
  by (simp add: qbPhase_kickoff kickoffWorld_fields newGameState_def)

text \<open>
  C4, as amended. A sack with the latch clear, the QB at \<open>z\<close>: the yards lost are
  the line of scrimmage minus \<open>z\<close>, rounded to the nearest whole number (they show
  in the message); the line-of-scrimmage ref becomes \<open>z\<close> at once; the callback that
  ends the sack cutscene ends the game when the incremented down exceeds 4, and
  otherwise sets the down to the incremented value, the line of scrimmage to \<open>z\<close>
  and the yards to go to the old value plus the yards lost, rounded and not below 1
  (that is the plain sum when the old value is whole and the sum is at least 1).

  The sack handler runs in two places, both only while no ball is thrown. A rusher that
  ends its move closer than 1.2 to the QB calls it in that frame. The sack timer calls
  it from its state updater: the frame only queues the updater, and when the updater
  runs with the timer at 0.1 or less it sets the timer to 0 and calls the handler in
  the world of that moment, so \<open>z\<close> is where the QB stands then, not where he stood
  when the frame queued the update.
\<close>

theorem sack_transition:
  assumes "\<not> playEndedRef w"
    and "z = vz (qbPosition w)"
    and "yardsLost = Math_round (lineOfScrimmageRef w - z)"
    and "newDowns = downs (gameStateRef w) + 1"
    and "T = SackEnd newDowns (Math_round (yardsToGo (gameStateRef w) + yardsLost)) z"
  shows "message (gameState (handleSack w)) = SackedYds yardsLost
       \<and> lineOfScrimmageRef (handleSack w) = z
       \<and> timeouts (handleSack w) = timeouts w @ [AllowSkip, CutsceneComplete, T]
       \<and> (\<forall>w2. if newDowns > 4
               then gameStatus (gameState (runTimeout T w2)) = Gameover
                  \<and> downs (gameState (runTimeout T w2)) = downs (gameState w2)
               else downs (gameState (runTimeout T w2)) = newDowns
                  \<and> lineOfScrimmage (gameState (runTimeout T w2)) = z
                  \<and> yardsToGo (gameState (runTimeout T w2))
                      = max 1 (Math_round (yardsToGo (gameStateRef w) + yardsLost))
                  \<and> gameStatus (gameState (runTimeout T w2)) = gameStatus (gameState w2))
       \<and> (yardsToGo (gameStateRef w) \<in> \<int> \<and> 1 \<le> yardsToGo (gameStateRef w) + yardsLost \<longrightarrow>
            max 1 (Math_round (yardsToGo (gameStateRef w) + yardsLost))
              = yardsToGo (gameStateRef w) + yardsLost)
       \<and> (\<forall>delta. sackTimerAccum w + delta \<ge> 0.1 \<longrightarrow>
              sackTimerPhase delta w =
                w\<lparr>sackTimerAccum := 0, timeouts := timeouts w @ [SackTimerUpdate]\<rparr>)
       \<and> (sackTimer (gameState w) \<le> 0.1 \<and> \<not> ballThrownRef w \<longrightarrow>
              runTimeout SackTimerUpdate w =
                setGameState (\<lambda>prev. prev\<lparr>sackTimer := 0\<rparr>) (handleSack w))
       \<and> (\<forall>delta i. i < length (defendersRef w) \<and> target (defendersRef w ! i) = Rusher
                \<and> \<not> ballThrownRef w
                \<and> Distance (defPosition (defendersRef (defenderStep delta i w) ! i)) (qbPosition w) < 1.2
              \<longrightarrow> (\<exists>ds. defenderStep delta i w = handleSack (w\<lparr>defendersRef := ds\<rparr>)))"
proof -
  have a: "message (gameState (handleSack w)) = SackedYds yardsLost"
    "lineOfScrimmageRef (handleSack w) = z"
    "timeouts (handleSack w) = timeouts w @ [AllowSkip, CutsceneComplete, T]"
    by (simp_all add: handleSack_eq [OF assms(1)] assms(2-5))
  have b: "\<And>w2. if newDowns > 4
               then gameStatus (gameState (runTimeout T w2)) = Gameover
                  \<and> downs (gameState (runTimeout T w2)) = downs (gameState w2)
               else downs (gameState (runTimeout T w2)) = newDowns
                  \<and> lineOfScrimmage (gameState (runTimeout T w2)) = z
                  \<and> yardsToGo (gameState (runTimeout T w2))
                      = max 1 (Math_round (yardsToGo (gameStateRef w) + yardsLost))
                  \<and> gameStatus (gameState (runTimeout T w2)) = gameStatus (gameState w2)"
    unfolding assms(5) SackEnd_gameState by simp
  have c: "yardsToGo (gameStateRef w) \<in> \<int> \<and> 1 \<le> yardsToGo (gameStateRef w) + yardsLost \<longrightarrow>
            max 1 (Math_round (yardsToGo (gameStateRef w) + yardsLost))
              = yardsToGo (gameStateRef w) + yardsLost"
    unfolding assms(3) using yards_to_go_sum by blast
  show ?thesis
    using a b c sackTimerPhase_schedules sackTimerUpdater_expiry defenderStep_rusher_sack
    by blast
qed

theorem sack_transition_witness:
  "message (gameState (handleSack kickoffWorld)) = SackedYds 3
   \<and> lineOfScrimmageRef (handleSack kickoffWorld) = - 18
   \<and> timeouts (handleSack kickoffWorld) = [AllowSkip, CutsceneComplete, SackEnd 2 13 (- 18)]
   \<and> downs (gameState (runTimeout (SackEnd 2 13 (- 18)) (handleSack kickoffWorld))) = 2
   \<and> yardsToGo (gameState (runTimeout (SackEnd 2 13 (- 18)) (handleSack kickoffWorld))) = 13
   \<and> lineOfScrimmage (gameState (runTimeout (SackEnd 2 13 (- 18)) (handleSack kickoffWorld))) = - 18
   \<and> timeouts (sackTimerPhase 0.5 expiringWorld) = [SackTimerUpdate]
   \<and> qbPosition expiredWorld = V3 0 0 (- 15)
   \<and> message (gameState (fireTimeout 0 expiredWorld)) = SackedYds 0
   \<and> lineOfScrimmageRef (fireTimeout 0 expiredWorld) = - 15
   \<and> sackTimer (gameState (fireTimeout 0 expiredWorld)) = 0"
proof -
  have h: "\<not> playEndedRef kickoffWorld" "- 18 = vz (qbPosition kickoffWorld)"
    "3 = Math_round (lineOfScrimmageRef kickoffWorld - (- 18))"
    "2 = downs (gameStateRef kickoffWorld) + 1"
    "SackEnd 2 13 (- 18) = SackEnd 2 (Math_round (yardsToGo (gameStateRef kickoffWorld) + 3)) (- 18)"
    by (simp_all add: kickoffWorld_fields newGameState_def Math_round_def)
  have e: "timeouts kickoffWorld = []"
    by (simp add: kickoffWorld_fields)
  have y: "max 1 (Math_round (yardsToGo (gameStateRef kickoffWorld) + 3)) = 13"
    by (simp add: kickoffWorld_fields newGameState_def Math_round_def)
  from sack_transition [OF h] have first:
    "message (gameState (handleSack kickoffWorld)) = SackedYds 3
     \<and> lineOfScrimmageRef (handleSack kickoffWorld) = - 18
     \<and> timeouts (handleSack kickoffWorld) = [AllowSkip, CutsceneComplete, SackEnd 2 13 (- 18)]
     \<and> downs (gameState (runTimeout (SackEnd 2 13 (- 18)) (handleSack kickoffWorld))) = 2
     \<and> yardsToGo (gameState (runTimeout (SackEnd 2 13 (- 18)) (handleSack kickoffWorld))) = 13
     \<and> lineOfScrimmage (gameState (runTimeout (SackEnd 2 13 (- 18)) (handleSack kickoffWorld))) = - 18"
    unfolding e y by simp
  let ?v = "expiredWorld\<lparr>timeouts := []\<rparr>"
  have g: "\<not> playEndedRef ?v" "- 15 = vz (qbPosition ?v)"
    "0 = Math_round (lineOfScrimmageRef ?v - (- 15))"
    "2 = downs (gameStateRef ?v) + 1"
    "SackEnd 2 10 (- 15) = SackEnd 2 (Math_round (yardsToGo (gameStateRef ?v) + 0)) (- 15)"
    by (simp_all add: expiredWorld_fields newGameState_def Math_round_def)
  have c: "sackTimer (gameState ?v) \<le> 0.1 \<and> \<not> ballThrownRef ?v"
    by (simp add: expiredWorld_fields)
  have f: "fireTimeout 0 expiredWorld = runTimeout SackTimerUpdate ?v"
    by (simp add: fireTimeout_def expiredWorld_fields)
  have s: "timeouts (sackTimerPhase 0.5 expiringWorld) = [SackTimerUpdate]"
    by (simp add: sackTimerPhase_def Let_def expiringWorld_def kickoffWorld_fields)
  from sack_transition [OF g] c have
    "runTimeout SackTimerUpdate ?v = setGameState (\<lambda>prev. prev\<lparr>sackTimer := 0\<rparr>) (handleSack ?v)"
    "message (gameState (handleSack ?v)) = SackedYds 0"
    "lineOfScrimmageRef (handleSack ?v) = - 15"
    by blast+
  then have second:
    "timeouts (sackTimerPhase 0.5 expiringWorld) = [SackTimerUpdate]
     \<and> qbPosition expiredWorld = V3 0 0 (- 15)
     \<and> message (gameState (fireTimeout 0 expiredWorld)) = SackedYds 0
     \<and> lineOfScrimmageRef (fireTimeout 0 expiredWorld) = - 15
     \<and> sackTimer (gameState (fireTimeout 0 expiredWorld)) = 0"
    unfolding f using s by (simp add: expiredWorld_fields)
  show ?thesis
    using first second by blast
qed

text \<open>
  C4 as stated fails: on the first play (line of scrimmage \<open>-15\<close>, 10 yards to go)
  a sack with the QB at \<open>z = -18.5\<close> loses 4 yards, not 3.5, and leaves 14 yards to
  go, not 13.5.
\<close>

theorem sack_yards_counterexample:
  "\<not> playEndedRef sackWorld
   \<and> lineOfScrimmageRef sackWorld - vz (qbPosition sackWorld) = 7 / 2
   \<and> message (gameState (handleSack sackWorld)) = SackedYds 4
   \<and> yardsToGo (gameStateRef sackWorld) = 10
   \<and> yardsToGo (gameState (fireTimeout 2 (handleSack sackWorld))) = 14"
proof -
  have f: "\<not> playEndedRef sackWorld" "lineOfScrimmageRef sackWorld = - 15"
    "qbPosition sackWorld = V3 0 0 (- 18.5)" "gameStateRef sackWorld = newGameState\<lparr>cutscene := CsNone\<rparr>"
    "timeouts sackWorld = []"
    by (simp_all add: sackWorld_def kickoffWorld_fields)
  have r: "Math_round (7 / 2) = 4" "Math_round 14 = 14"
    by (simp_all add: Math_round_def round_def)
  show ?thesis
    by (simp add: handleSack_eq f newGameState_def r fireTimeout_def)
qed

text \<open>
  C9, as amended. A throw request is ignored, leaving the world as it is, in two cases:
  while \<open>ballThrownRef\<close> is set, which it is from a throw until the frame that
  resolves the arrival or until the play is reset (\<open>throwBall\<close> and the pointer
  handler both check it), and while the status in \<open>gameStateRef\<close> is not
  \<open>playing\<close> (the pointer handler checks it). The flight record is a single
  optional ref, so there is never more than one.
\<close>

theorem throw_guard:
  "(ballThrownRef w \<longrightarrow> throwBall now k cp w = w \<and> onPointerDown now pick w = w)
   \<and> (gameStatus (gameStateRef w) \<noteq> Playing \<longrightarrow> onPointerDown now pick w = w)"
  using throwBall_guard onPointerDown_guard by blast

theorem throw_guard_witness:
  "throwBall 11 ''wr2'' None exampleFlightWorld = exampleFlightWorld
   \<and> onPointerDown 11 tapOnReceiver exampleFlightWorld = exampleFlightWorld
   \<and> ballFlightRef (onPointerDown 11 tapOnReceiver exampleFlightWorld) = Some exampleFlight
   \<and> onPointerDown 11 tapOnReceiver (initialWorld 0) = initialWorld 0"
proof -
  have a: "ballThrownRef exampleFlightWorld" "ballFlightRef exampleFlightWorld = Some exampleFlight"
    by (simp_all add: exampleFlightWorld_def commitRender_def startGame_def)
  have b: "gameStatus (gameStateRef (initialWorld 0)) \<noteq> Playing"
    by (simp add: initialWorld_def newGameState_def)
  show ?thesis
    using a b throw_guard [of exampleFlightWorld 11 "''wr2''" None tapOnReceiver]
      throw_guard [of "initialWorld 0" 11 "''wr2''" None tapOnReceiver]
    by simp
qed

text \<open>
  C9 as stated fails for a request after the play has ended: neither guard looks at
  \<open>playEndedRef\<close>. After an incomplete pass on first down the play is over, the
  status is still \<open>playing\<close> and the arrival frame has cleared \<open>ballThrownRef\<close>;
  a tap on a receiver before the play is reset starts a new flight.
\<close>

theorem throw_after_play_ended_counterexample:
  "playEndedRef endedWorld
   \<and> gameStatus (gameState endedWorld) = Playing
   \<and> ballFlightRef endedWorld = None
   \<and> ballFlightRef (onPointerDown 12 tapOnReceiver endedWorld) \<noteq> None
   \<and> ballThrownRef (onPointerDown 12 tapOnReceiver endedWorld)
   \<and> onPointerDown 12 tapOnReceiver endedWorld \<noteq> endedWorld"
proof -
  have l: "0 < length (receiversRef endedWorld)"
    by (simp add: endedWorld_fields)
  have e: "onPointerDown 12 tapOnReceiver endedWorld
           = throwBall 12 (rid (receiversRef endedWorld ! 0)) (pickedPoint tapOnReceiver) endedWorld"
    by (rule onPointerDown_direct_hit) (simp_all add: endedWorld_fields tapOnReceiver_def l)
  have f: "findReceiverFrom 0 (receiversRef endedWorld) (rid (receiversRef endedWorld ! 0)) \<noteq> None"
    using l by (rule findReceiverFrom_present)
  have t: "ballThrownRef (onPointerDown 12 tapOnReceiver endedWorld)"
    "ballFlightRef (onPointerDown 12 tapOnReceiver endedWorld) \<noteq> None"
    unfolding e using throwBall_starts_flight [OF endedWorld_fields(2) f] by blast+
  have "onPointerDown 12 tapOnReceiver endedWorld \<noteq> endedWorld"
    using t(1) endedWorld_fields(2) by auto
  then show ?thesis
    using t endedWorld_fields by simp
qed

text \<open>
  C1. In every world the program can reach, whatever the status, the down counter is
  between 1 and 4; so a counter above 4 is never seen, while playing or otherwise.
  When the incremented counter would exceed 4 (the handlers read the counter from
  \<open>gameStateRef\<close>, which holds the state's counter once the render is committed),
  an incomplete pass and a catch short of the marker set the status to \<open>gameover\<close>
  at once and leave the counter as it is, and a sack schedules a callback that does the
  same when it runs.
\<close>

theorem downs_in_range:
  assumes "reachable w"
  shows "1 \<le> downs (gameState w) \<and> downs (gameState w) \<le> 4
       \<and> (\<forall>v. \<not> playEndedRef v \<and> 4 < downs (gameStateRef v) + 1 \<longrightarrow>
              gameStatus (gameState (handleIncomplete v)) = Gameover
            \<and> downs (gameState (handleIncomplete v)) = downs (gameState v)
            \<and> message (gameState (handleIncomplete v)) = Text ''TURNOVER ON DOWNS!'')
       \<and> (\<forall>v. \<not> playEndedRef v \<and> 4 < downs (gameStateRef v) + 1
              \<and> vz (ballPosition v) < ENDZONE_Z - 3
              \<and> vz (ballPosition v) < firstDownMarker (gameStateRef v) \<longrightarrow>
              gameStatus (gameState (handleCatch v)) = Gameover
            \<and> downs (gameState (handleCatch v)) = downs (gameState v)
            \<and> message (gameState (handleCatch v)) = Text ''TURNOVER ON DOWNS!'')
       \<and> (\<forall>v. \<not> playEndedRef v \<and> 4 < downs (gameStateRef v) + 1 \<longrightarrow>
              (\<exists>y l. last (timeouts (handleSack v)) = SackEnd (downs (gameStateRef v) + 1) y l
                 \<and> (\<forall>v2. gameStatus (gameState (runTimeout (SackEnd (downs (gameStateRef v) + 1) y l) v2))
                           = Gameover
                       \<and> downs (gameState (runTimeout (SackEnd (downs (gameStateRef v) + 1) y l) v2))
                           = downs (gameState v2)
                       \<and> message (gameState (runTimeout (SackEnd (downs (gameStateRef v) + 1) y l) v2))
                           = Text ''TURNOVER ON DOWNS!'')))"
proof -
  have "downsInvariant w"
    using assms by (rule reachable_downsInvariant)
  then have r: "1 \<le> downs (gameState w) \<and> downs (gameState w) \<le> 4"
    by (simp add: downsInvariant_def downsInRange_def)
  show ?thesis
    using r incomplete_turnover short_catch_turnover sack_turnover by blast
qed

theorem downs_in_range_witness:
  "reachable kickoffWorld
   \<and> downs (gameState kickoffWorld) = 1
   \<and> gameStatus (gameState fourthDownWorld) = Playing
   \<and> downs (gameState fourthDownWorld) = 4
   \<and> gameStatus (gameState (handleIncomplete fourthDownWorld)) = Gameover
   \<and> downs (gameState (handleIncomplete fourthDownWorld)) = 4
   \<and> message (gameState (handleIncomplete fourthDownWorld)) = Text ''TURNOVER ON DOWNS!''"
proof -
  have d: "downs (gameState kickoffWorld) = 1"
    by (simp add: kickoffWorld_fields newGameState_def)
  have h: "\<not> playEndedRef fourthDownWorld \<and> 4 < downs (gameStateRef fourthDownWorld) + 1"
    by (simp add: fourthDownWorld_fields)
  have "gameStatus (gameState (handleIncomplete fourthDownWorld)) = Gameover
      \<and> downs (gameState (handleIncomplete fourthDownWorld)) = downs (gameState fourthDownWorld)
      \<and> message (gameState (handleIncomplete fourthDownWorld)) = Text ''TURNOVER ON DOWNS!''"
    using downs_in_range [OF kickoffWorld_reachable] h by blast
  then show ?thesis
    using kickoffWorld_reachable d by (simp add: fourthDownWorld_fields)
qed

end
